theory Spec2Isabelle
  imports Main "HOL-Library.Word"
begin

section \<open>Enumerations and error codes\<close>

text \<open>
  The enumerations of \<^verbatim>\<open>nunchuk.h\<close>, as the storage and synchronizer code uses them.
  Exceptions (\<^verbatim>\<open>StorageException\<close>, \<^verbatim>\<open>NunchukException\<close>) are values of \<open>error\<close>;
  a function that can throw returns \<open>error + 'a\<close>. \<open>JSON_PARSE_ERROR\<close> and
  \<open>JSON_TYPE_ERROR\<close> stand for the exceptions of the JSON library: the one thrown by
  \<^verbatim>\<open>json::parse\<close> and by the read of a member from a text that does not hold it, and the
  one thrown by the conversion of \<^verbatim>\<open>null\<close> to a number. Neither is a
  \<^verbatim>\<open>StorageException\<close>.
\<close>

datatype Chain = MAIN | TESTNET | REGTEST

datatype AddressType = ANY | LEGACY | NESTED_SEGWIT | NATIVE_SEGWIT

datatype WalletType = SINGLE_SIG | MULTI_SIG | ESCROW

datatype DescriptorPath = DescriptorPath_ANY | INTERNAL_ALL | EXTERNAL_ALL

datatype TransactionStatus =
    PENDING_SIGNATURES | READY_TO_BROADCAST | NETWORK_REJECTED
  | PENDING_CONFIRMATION | REPLACED | CONFIRMED

datatype error =
    WALLET_NOT_FOUND | WALLET_EXISTED | MASTERSIGNER_NOT_FOUND
  | SIGNER_USED | SIGNER_NOT_FOUND | SIGNER_EXISTS
  | TX_NOT_FOUND | ADDRESS_NOT_FOUND
  | SQL_ERROR
  | INVALID_BIP32_PATH | INVALID_PARAMETER
  | JSON_TYPE_ERROR | JSON_PARSE_ERROR

datatype Status = UNINITIALIZED | CONNECTING | SYNCING | READY | STOPPED

datatype DbKeys =
    ID | IMMUTABLE_DATA | NAME | FINGERPRINT | VERSION | DESCRIPTION
  | CHAIN_TIP | SELECTED_WALLET | MNEMONIC | LAST_HEALTH_CHECK
  | SIGNER_DEVICE_TYPE | SIGNER_DEVICE_MODEL

section \<open>SQLite tables and statements\<close>

text \<open>
  Every store is an SQLite file. A table with a primary key is the list of its rows in
  rowid order, each row paired with its key. The statements the code prepares are the
  functions below; each returns the new table and the number of rows it changed, which
  is what \<^verbatim>\<open>sqlite3_changes\<close> reports after the statement:
  \<^item> a plain \<^verbatim>\<open>INSERT\<close> adds one row; on a key that is present it fails and changes
    nothing (see \<open>run_insert\<close> below);
  \<^item> \<^verbatim>\<open>INSERT ... ON CONFLICT(key) DO UPDATE\<close> inserts the row or updates the row
    that is there, and counts one row in both cases;
  \<^item> \<^verbatim>\<open>UPDATE ... WHERE\<close> rewrites every row the condition selects and counts each
    of them, whether or not the values written differ from the ones stored;
  \<^item> \<^verbatim>\<open>DELETE ... WHERE\<close> removes and counts the selected rows.
\<close>

type_synonym ('k, 'r) table = "('k \<times> 'r) list"

definition sql_update ::
  "('k \<Rightarrow> 'r \<Rightarrow> bool) \<Rightarrow> ('r \<Rightarrow> 'r) \<Rightarrow> ('k, 'r) table \<Rightarrow> ('k, 'r) table \<times> nat" where
  "sql_update P f t =
     (map (\<lambda>(k, r). if P k r then (k, f r) else (k, r)) t,
      length (filter (\<lambda>(k, r). P k r) t))"

definition sql_upsert ::
  "'k \<Rightarrow> 'r \<Rightarrow> ('r \<Rightarrow> 'r) \<Rightarrow> ('k, 'r) table \<Rightarrow> ('k, 'r) table \<times> nat" where
  "sql_upsert k r f t =
     (case map_of t k of
        None \<Rightarrow> (t @ [(k, r)], 1)
      | Some old \<Rightarrow> (fst (sql_update (\<lambda>k' r'. k' = k) f t), 1))"

definition sql_delete ::
  "('k \<Rightarrow> 'r \<Rightarrow> bool) \<Rightarrow> ('k, 'r) table \<Rightarrow> ('k, 'r) table \<times> nat" where
  "sql_delete P t =
     (filter (\<lambda>(k, r). \<not> P k r) t, length (filter (\<lambda>(k, r). P k r) t))"

definition sql_select :: "('k \<Rightarrow> 'r \<Rightarrow> bool) \<Rightarrow> ('k, 'r) table \<Rightarrow> ('k, 'r) table" where
  "sql_select P t = filter (\<lambda>(k, r). P k r) t"

text \<open>
  A table may be missing from the file (\<open>None\<close>). Preparing a statement on a missing
  table fails, \<^verbatim>\<open>sqlite3_step\<close> on the null statement does nothing, and the
  connection's change counter keeps the value the last completed statement left:
  \<open>run_dml\<close> takes the counter and returns it unchanged in that case. A query on a
  missing table yields no row.
\<close>

definition run_dml ::
  "(('k, 'r) table \<Rightarrow> ('k, 'r) table \<times> nat) \<Rightarrow> ('k, 'r) table option \<Rightarrow> nat
     \<Rightarrow> ('k, 'r) table option \<times> nat" where
  "run_dml stmt tbl ch =
     (case tbl of None \<Rightarrow> (None, ch) | Some t \<Rightarrow> (Some (fst (stmt t)), snd (stmt t)))"

text \<open>
  A plain \<^verbatim>\<open>INSERT\<close> as the code runs it: prepare, bind, step, read
  \<^verbatim>\<open>sqlite3_changes\<close>, then \<^verbatim>\<open>SQLCHECK(sqlite3_finalize(stmt))\<close>. On a key that is
  present the step fails with a constraint violation, the table stays as it is, the counter
  is 0, and \<^verbatim>\<open>sqlite3_finalize\<close> returns the error of the step, so that \<^verbatim>\<open>SQLCHECK\<close>
  throws \<^verbatim>\<open>SQL_ERROR\<close>. On a missing table nothing is prepared, finalizing the null
  statement succeeds and nothing is thrown.
\<close>

definition run_insert ::
  "'k \<Rightarrow> 'r \<Rightarrow> ('k, 'r) table option \<Rightarrow> nat
     \<Rightarrow> error option \<times> ('k, 'r) table option \<times> nat" where
  "run_insert k r tbl ch =
     (case tbl of
        None \<Rightarrow> (None, None, ch)
      | Some t \<Rightarrow>
          (case map_of t k of
             None \<Rightarrow> (None, Some (t @ [(k, r)]), 1)
           | Some old \<Rightarrow> (Some SQL_ERROR, Some t, 0)))"

definition rows :: "('k, 'r) table option \<Rightarrow> ('k, 'r) table" where
  "rows tbl = (case tbl of None \<Rightarrow> [] | Some t \<Rightarrow> t)"

definition create_table_if_not_exists :: "('k, 'r) table option \<Rightarrow> ('k, 'r) table option" where
  "create_table_if_not_exists tbl = (case tbl of None \<Rightarrow> Some [] | Some t \<Rightarrow> Some t)"

section \<open>NunchukDb: the record-store primitive\<close>

text \<open>
  \<open>DbFile\<close> is what every store file holds: the tables \<^verbatim>\<open>VSTR\<close> and \<^verbatim>\<open>VINT\<close>.
  \<open>NunchukDb\<close> is the C++ object: its \<^verbatim>\<open>id_\<close> and \<^verbatim>\<open>chain_\<close> members and the
  open connection, that is the file and the connection's change counter (a name
  cannot end in an underscore here, so the members are \<open>db_id\<close> and \<open>db_chain\<close>). The
  passphrase is left out: a store is modelled as opened with the right one.
  The numeric values of \<^verbatim>\<open>DbKeys\<close> are declared in \<^verbatim>\<open>storage.h\<close>, which is not
  among the sources; \<open>DbKey\<close> of the collaborator record below supplies them.
\<close>

record DbFile =
  VSTR :: "(int, string) table option"
  VINT :: "(int, int) table option"

record 'f NunchukDb =
  db_id :: string
  db_chain :: Chain
  db_changes :: nat
  db_file :: 'f

definition PutString ::
  "int \<Rightarrow> string \<Rightarrow> ('a DbFile_scheme) NunchukDb \<Rightarrow> bool \<times> ('a DbFile_scheme) NunchukDb" where
  "PutString key val db =
     (case run_dml (sql_upsert key val (\<lambda>old. val)) (VSTR (db_file db)) (db_changes db) of
        (t, n) \<Rightarrow> (n = 1, db\<lparr>db_changes := n, db_file := (db_file db)\<lparr>VSTR := t\<rparr>\<rparr>))"

definition PutInt ::
  "int \<Rightarrow> int \<Rightarrow> ('a DbFile_scheme) NunchukDb \<Rightarrow> bool \<times> ('a DbFile_scheme) NunchukDb" where
  "PutInt key val db =
     (case run_dml (sql_upsert key val (\<lambda>old. val)) (VINT (db_file db)) (db_changes db) of
        (t, n) \<Rightarrow> (n = 1, db\<lparr>db_changes := n, db_file := (db_file db)\<lparr>VINT := t\<rparr>\<rparr>))"

text \<open>
  \<^verbatim>\<open>PutString\<close> binds the \<^verbatim>\<open>value.size()\<close> bytes of its argument, so the table holds
  the text whole. A text column is read with \<^verbatim>\<open>std::string((char*)sqlite3_column_text(..))\<close>,
  the constructor from a C string, which stops at the first NUL byte: \<open>c_string\<close>.
\<close>

definition c_string :: "string \<Rightarrow> string" where
  "c_string s = takeWhile (\<lambda>c. c \<noteq> CHR 0x00) s"

definition GetString :: "int \<Rightarrow> ('a DbFile_scheme) NunchukDb \<Rightarrow> string" where
  "GetString key db =
     (case sql_select (\<lambda>k v. k = key) (rows (VSTR (db_file db))) of
        [] \<Rightarrow> [] | (k, v) # rest \<Rightarrow> c_string v)"

definition GetInt :: "int \<Rightarrow> ('a DbFile_scheme) NunchukDb \<Rightarrow> int" where
  "GetInt key db =
     (case sql_select (\<lambda>k v. k = key) (rows (VINT (db_file db))) of
        [] \<Rightarrow> 0 | (k, v) # rest \<Rightarrow> v)"

definition TableExists :: "('k, 'r) table option \<Rightarrow> bool" where
  "TableExists tbl = (tbl \<noteq> None)"


section \<open>Records of the public interface\<close>

text \<open>
  \<^verbatim>\<open>SingleSigner\<close>, with the fields its constructor takes (name, xpub, public key,
  derivation path, master fingerprint, last health check, master signer id, used).
  A \<^verbatim>\<open>Transaction\<close> carries here the fields the modelled code reads: id, height,
  inputs (previous transaction id and output position), outputs (address and amount),
  memo and status. \<^verbatim>\<open>UnspentOutput\<close> and \<^verbatim>\<open>Wallet\<close> are as the code fills them.
  \<^verbatim>\<open>Amount\<close> is \<^verbatim>\<open>int64_t\<close>: a word of 64 bits, on which \<open>+\<close> wraps around and which
  \<open>sint\<close> reads as the signed number.
\<close>

type_synonym Amount = "64 word"

record SingleSigner =
  ss_name :: string
  ss_xpub :: string
  ss_public_key :: string
  ss_derivation_path :: string
  ss_master_fingerprint :: string
  ss_last_health_check :: int
  ss_master_signer_id :: string
  ss_used :: bool

record Transaction =
  tx_txid :: string
  tx_height :: int
  tx_inputs :: "(string \<times> int) list"
  tx_outputs :: "(string \<times> Amount) list"
  tx_memo :: string
  tx_status :: TransactionStatus
  tx_replaced_by_txid :: string


record Wallet =
  w_id :: string
  w_m :: int
  w_n :: int
  w_signers :: "SingleSigner list"
  w_address_type :: AddressType
  w_is_escrow :: bool
  w_create_date :: int
  w_name :: string
  w_description :: string
  w_balance :: Amount

section \<open>Collaborators\<close>

text \<open>
  The functions below are called by the storage and synchronizer code and are defined in
  files that are not among the sources (\<^verbatim>\<open>utils/bip32.hpp\<close>, \<^verbatim>\<open>descriptor.cpp\<close>,
  \<^verbatim>\<open>utils/txutils.hpp\<close>, \<^verbatim>\<open>storage.h\<close>, the JSON library). The model takes them as
  parameters, collected in one record, so every theorem holds for whatever they compute.
  \<^item> \<open>GetBip32Path\<close>, \<open>GetBip32Type\<close>, \<open>GetIndexFromPath\<close>, \<open>FormalizePath\<close>,
    \<open>GetDescriptorForSigners\<close>, \<open>GetDescriptorChecksum\<close>, \<open>has_master_signer\<close>,
    \<open>AddressToScriptHash\<close>: the C++ functions of these names.
  \<^item> \<open>DbKey\<close>, \<open>STORAGE_VER\<close>: the constants of \<^verbatim>\<open>storage.h\<close>.
  \<^item> \<open>DecodeRawTransaction\<close>, \<open>DecodePsbt\<close>: the decoded transaction's hash as hex;
    \<open>GetTransactionFromCMutableTransaction\<close> and
    \<open>GetTransactionFromPartiallySignedTransaction\<close> take the stored text in place of
    the decoded object.
  \<^item> \<open>ImmutableDataDump\<close>, \<open>ImmutableDataM\<close>: the JSON text \<^verbatim>\<open>InitWallet\<close> stores for
    (m, n, address type, escrow flag, creation date), and the \<^verbatim>\<open>m\<close> read back from it
    by \<^verbatim>\<open>json::parse(..)["m"]\<close>; \<open>None\<close> when the library throws.
  \<^item> \<open>ParseUtxos\<close>: the (transaction id, output position, amount) triples of a stored
    UTXO snapshot, Electrum's format or Bitcoin Core's; \<open>None\<close> when \<^verbatim>\<open>json::parse\<close> or
    the read of an item throws.
  \<^item> \<open>ExtraOnBroadcast\<close>, \<open>ExtraReplaceTxid\<close>, \<open>ExtraSetReplacedBy\<close>,
    \<open>ExtraReplacedBy\<close>: the JSON edits and reads of a transaction row's \<^verbatim>\<open>EXTRA\<close>
    column in \<^verbatim>\<open>UpdateTransaction\<close>, \<^verbatim>\<open>SetReplacedBy\<close> and \<^verbatim>\<open>FillExtra\<close>.
    \<open>ExtraOnBroadcast\<close>, \<open>ExtraSetReplacedBy\<close> and \<open>ExtraReplacedBy\<close> are \<open>None\<close> when
    \<^verbatim>\<open>json::parse\<close> throws on the stored text; \<open>ExtraReplaceTxid\<close> and
    \<open>ExtraReplacedBy\<close> yield the member \<^verbatim>\<open>replace_txid\<close> or \<^verbatim>\<open>replaced_by_txid\<close> if
    there is one.
  \<^item> \<open>default_memo\<close>, \<open>default_change_pos\<close>, \<open>default_reject_msg\<close>: the default
    arguments \<^verbatim>\<open>storage.h\<close> declares for \<^verbatim>\<open>InsertTransaction\<close> and
    \<^verbatim>\<open>UpdateTransaction\<close>, which the synchronizer's calls leave out.
\<close>

record Collab =
  GetBip32Path :: "Chain \<Rightarrow> WalletType \<Rightarrow> AddressType \<Rightarrow> int \<Rightarrow> string"
  GetBip32Type :: "WalletType \<Rightarrow> AddressType \<Rightarrow> string"
  GetIndexFromPath :: "string \<Rightarrow> int"
  FormalizePath :: "string \<Rightarrow> string"
  GetDescriptorForSigners ::
    "SingleSigner list \<Rightarrow> int \<Rightarrow> DescriptorPath \<Rightarrow> AddressType \<Rightarrow> WalletType \<Rightarrow> string"
  GetDescriptorChecksum :: "string \<Rightarrow> string"
  has_master_signer :: "SingleSigner \<Rightarrow> bool"
  AddressToScriptHash :: "string \<Rightarrow> string"
  DbKey :: "DbKeys \<Rightarrow> int"
  STORAGE_VER :: int
  DecodeRawTransaction :: "string \<Rightarrow> string"
  DecodePsbt :: "string \<Rightarrow> string"
  GetTransactionFromCMutableTransaction :: "string \<Rightarrow> SingleSigner list \<Rightarrow> int \<Rightarrow> Transaction"
  GetTransactionFromPartiallySignedTransaction ::
    "string \<Rightarrow> SingleSigner list \<Rightarrow> int \<Rightarrow> Transaction"
  ImmutableDataDump :: "int \<Rightarrow> int \<Rightarrow> AddressType \<Rightarrow> bool \<Rightarrow> int \<Rightarrow> string"
  ImmutableDataM :: "string \<Rightarrow> int option"
  ParseUtxos :: "string \<Rightarrow> (string \<times> int \<times> Amount) list option"
  ExtraOnBroadcast :: "string \<Rightarrow> Transaction \<Rightarrow> string \<Rightarrow> string option"
  ExtraReplaceTxid :: "string \<Rightarrow> string option"
  ExtraSetReplacedBy :: "string \<Rightarrow> string \<Rightarrow> string option"
  ExtraReplacedBy :: "string \<Rightarrow> string option option"
  default_memo :: string
  default_change_pos :: int
  default_reject_msg :: string

text \<open>\<^verbatim>\<open>boost::algorithm::to_lower_copy\<close> on ASCII text.\<close>

definition to_lower_char :: "char \<Rightarrow> char" where
  "to_lower_char c =
     (if 65 \<le> (of_char c :: nat) \<and> (of_char c :: nat) \<le> 90
      then char_of ((of_char c :: nat) + 32) else c)"

definition to_lower_copy :: "string \<Rightarrow> string" where
  "to_lower_copy s = map to_lower_char s"

section \<open>NunchukWalletDb: the wallet record store\<close>

text \<open>
  The tables \<^verbatim>\<open>VTX\<close>, \<^verbatim>\<open>ADDRESS\<close> and \<^verbatim>\<open>SIGNER\<close> that \<^verbatim>\<open>InitWallet\<close> creates.
  The key of a \<^verbatim>\<open>SIGNER\<close> row is the JSON text of (xpub, public key, derivation path,
  lower-cased master fingerprint); the model keeps the four strings, of which the text
  is an injective encoding.
\<close>

record VtxRow =
  vtx_VALUE :: string
  vtx_HEIGHT :: int
  vtx_FEE :: int
  vtx_MEMO :: string
  vtx_CHANGEPOS :: int
  vtx_BLOCKTIME :: int
  vtx_EXTRA :: "string option"

record AddressRow =
  addr_IDX :: int
  addr_INTERNAL :: int
  addr_USED :: int
  addr_UTXO :: "string option"

record SignerRow =
  signer_NAME :: string
  signer_MASTER_ID :: string
  signer_LAST_HEALTHCHECK :: int

type_synonym SignerKey = "string \<times> string \<times> string \<times> string"

record WalletFile = DbFile +
  VTX :: "(string, VtxRow) table option"
  ADDRESS :: "(string, AddressRow) table option"
  SIGNER :: "(SignerKey, SignerRow) table option"

type_synonym NunchukWalletDb = "WalletFile NunchukDb"

definition CreateTable :: "Collab \<Rightarrow> ('a DbFile_scheme) NunchukDb \<Rightarrow> ('a DbFile_scheme) NunchukDb" where
  "CreateTable env db =
     (let db1 = db\<lparr>db_file := (db_file db)
                  \<lparr>VSTR := create_table_if_not_exists (VSTR (db_file db)),
                   VINT := create_table_if_not_exists (VINT (db_file db))\<rparr>\<rparr>;
          db2 = snd (PutString (DbKey env ID) (db_id db1) db1)
      in snd (PutInt (DbKey env VERSION) (STORAGE_VER env) db2))"

definition GetSingleSignerKey :: "SingleSigner \<Rightarrow> SignerKey" where
  "GetSingleSignerKey signer =
     (ss_xpub signer, ss_public_key signer, ss_derivation_path signer,
      to_lower_copy (ss_master_fingerprint signer))"

definition AddSigner ::
  "SingleSigner \<Rightarrow> NunchukWalletDb \<Rightarrow> (error + bool) \<times> NunchukWalletDb" where
  "AddSigner signer db =
     (case run_insert (GetSingleSignerKey signer)
             \<lparr>signer_NAME = ss_name signer,
              signer_MASTER_ID = to_lower_copy (ss_master_signer_id signer),
              signer_LAST_HEALTHCHECK = ss_last_health_check signer\<rparr>
             (SIGNER (db_file db)) (db_changes db) of
        (e, t, n) \<Rightarrow>
          (case e of Some err \<Rightarrow> Inl err | None \<Rightarrow> Inr (n = 1),
           db\<lparr>db_changes := n, db_file := (db_file db)\<lparr>SIGNER := t\<rparr>\<rparr>))"

text \<open>
  \<^verbatim>\<open>GetSigners\<close> reads the rows in rowid order. The four strings of the key come out
  of the JSON text whole; the name and the master signer id are read as C strings.
\<close>

definition GetSigners :: "NunchukWalletDb \<Rightarrow> SingleSigner list" where
  "GetSigners db =
     map (\<lambda>((xpub, public_key, derivation_path, master_fingerprint), r).
            \<lparr>ss_name = c_string (signer_NAME r), ss_xpub = xpub, ss_public_key = public_key,
             ss_derivation_path = derivation_path,
             ss_master_fingerprint = to_lower_copy master_fingerprint,
             ss_last_health_check = signer_LAST_HEALTHCHECK r,
             ss_master_signer_id = c_string (signer_MASTER_ID r), ss_used = False\<rparr>)
         (rows (SIGNER (db_file db)))"

text \<open>
  \<^verbatim>\<open>InitWallet\<close> ends with the loop \<^verbatim>\<open>for (auto&& signer : signers) AddSigner(signer);\<close>,
  which the first exception of \<^verbatim>\<open>AddSigner\<close> leaves, with the rows written so far in
  the file.
\<close>

fun InitWallet_loop ::
  "SingleSigner list \<Rightarrow> NunchukWalletDb \<Rightarrow> error option \<times> NunchukWalletDb" where
  "InitWallet_loop [] db = (None, db)"
| "InitWallet_loop (signer # signers) db =
     (case AddSigner signer db of
        (Inl e, db1) \<Rightarrow> (Some e, db1)
      | (Inr added, db1) \<Rightarrow> InitWallet_loop signers db1)"

definition InitWallet ::
  "Collab \<Rightarrow> string \<Rightarrow> int \<Rightarrow> int \<Rightarrow> SingleSigner list \<Rightarrow> AddressType \<Rightarrow> bool \<Rightarrow> int \<Rightarrow> string
     \<Rightarrow> NunchukWalletDb \<Rightarrow> error option \<times> NunchukWalletDb" where
  "InitWallet env name m n signers address_type is_escrow create_date description db =
     (let db1 = CreateTable env db;
          db2 = db1\<lparr>db_file := (db_file db1)
                  \<lparr>VTX := create_table_if_not_exists (VTX (db_file db1)),
                   ADDRESS := create_table_if_not_exists (ADDRESS (db_file db1)),
                   SIGNER := create_table_if_not_exists (SIGNER (db_file db1))\<rparr>\<rparr>;
          db3 = snd (PutString (DbKey env NAME) name db2);
          db4 = snd (PutString (DbKey env DESCRIPTION) description db3);
          db5 = snd (PutString (DbKey env IMMUTABLE_DATA)
                       (ImmutableDataDump env m n address_type is_escrow create_date) db4)
      in InitWallet_loop signers db5)"

definition AddAddress ::
  "string \<Rightarrow> int \<Rightarrow> bool \<Rightarrow> NunchukWalletDb \<Rightarrow> (error + bool) \<times> NunchukWalletDb" where
  "AddAddress address index internal db =
     (case run_insert address
             \<lparr>addr_IDX = index, addr_INTERNAL = (if internal then 1 else 0),
              addr_USED = 0, addr_UTXO = None\<rparr>
             (ADDRESS (db_file db)) (db_changes db) of
        (e, t, n) \<Rightarrow>
          (case e of Some err \<Rightarrow> Inl err | None \<Rightarrow> Inr True,
           db\<lparr>db_changes := n, db_file := (db_file db)\<lparr>ADDRESS := t\<rparr>\<rparr>))"

definition UseAddress :: "string \<Rightarrow> NunchukWalletDb \<Rightarrow> bool \<times> NunchukWalletDb" where
  "UseAddress address db =
     (if address = [] then (False, db)
      else case run_dml (sql_update (\<lambda>k r. k = address) (\<lambda>r. r\<lparr>addr_USED := 1\<rparr>))
                  (ADDRESS (db_file db)) (db_changes db) of
        (t, n) \<Rightarrow> (n = 1, db\<lparr>db_changes := n, db_file := (db_file db)\<lparr>ADDRESS := t\<rparr>\<rparr>))"


definition GetAddressIndex :: "string \<Rightarrow> NunchukWalletDb \<Rightarrow> int" where
  "GetAddressIndex address db =
     (case sql_select (\<lambda>k r. k = address) (rows (ADDRESS (db_file db))) of
        [] \<Rightarrow> - 1 | (k, r) # rest \<Rightarrow> addr_IDX r)"

definition SetUtxos :: "string \<Rightarrow> string \<Rightarrow> NunchukWalletDb \<Rightarrow> bool \<times> NunchukWalletDb" where
  "SetUtxos address utxo db =
     (case run_dml (sql_update (\<lambda>k r. k = address) (\<lambda>r. r\<lparr>addr_UTXO := Some utxo\<rparr>))
             (ADDRESS (db_file db)) (db_changes db) of
        (t, n) \<Rightarrow> (n = 1, db\<lparr>db_changes := n, db_file := (db_file db)\<lparr>ADDRESS := t\<rparr>\<rparr>))"

text \<open>
  \<^verbatim>\<open>FillExtra\<close>: of its effects the model keeps the one on the status (a pending
  transaction whose extra data names a replacement becomes \<^verbatim>\<open>REPLACED\<close>); the others set
  fields the model's \<open>Transaction\<close> does not carry.
\<close>

definition FillExtra :: "Collab \<Rightarrow> string \<Rightarrow> Transaction \<Rightarrow> error + Transaction" where
  "FillExtra env extra tx =
     (if extra = [] then Inr tx
      else
        case ExtraReplacedBy env extra of
          None \<Rightarrow> Inl JSON_PARSE_ERROR
        | Some replaced_by \<Rightarrow>
            if tx_status tx = PENDING_CONFIRMATION then
              (case replaced_by of
                 None \<Rightarrow> Inr tx
               | Some new_txid \<Rightarrow>
                   Inr (tx\<lparr>tx_status := REPLACED, tx_replaced_by_txid := new_txid\<rparr>))
            else Inr tx)"

definition row_to_Transaction ::
  "Collab \<Rightarrow> NunchukWalletDb \<Rightarrow> string \<Rightarrow> VtxRow \<Rightarrow> error + Transaction" where
  "row_to_Transaction env db tx_id row =
     (case ImmutableDataM env (GetString (DbKey env IMMUTABLE_DATA) db) of
        None \<Rightarrow> Inl JSON_PARSE_ERROR
      | Some m \<Rightarrow>
          (let signers = GetSigners db;
               val = c_string (vtx_VALUE row);
               tx = (if vtx_HEIGHT row = - 1
                     then GetTransactionFromPartiallySignedTransaction env val signers m
                     else GetTransactionFromCMutableTransaction env val signers
                            (vtx_HEIGHT row));
               tx1 = tx\<lparr>tx_txid := tx_id, tx_memo := c_string (vtx_MEMO row)\<rparr>
           in case vtx_EXTRA row of
                None \<Rightarrow> Inr tx1
              | Some extra \<Rightarrow> FillExtra env (c_string extra) tx1))"

definition GetTransaction :: "Collab \<Rightarrow> string \<Rightarrow> NunchukWalletDb \<Rightarrow> error + Transaction" where
  "GetTransaction env tx_id db =
     (case sql_select (\<lambda>k r. k = tx_id) (rows (VTX (db_file db))) of
        [] \<Rightarrow> Inl TX_NOT_FOUND
      | (k, row) # rest \<Rightarrow> row_to_Transaction env db tx_id row)"



definition UseAddresses :: "string list \<Rightarrow> NunchukWalletDb \<Rightarrow> NunchukWalletDb" where
  "UseAddresses addresses db = foldl (\<lambda>d a. snd (UseAddress a d)) db addresses"

definition InsertTransaction ::
  "Collab \<Rightarrow> string \<Rightarrow> int \<Rightarrow> int \<Rightarrow> int \<Rightarrow> string \<Rightarrow> int \<Rightarrow> NunchukWalletDb
     \<Rightarrow> (error + Transaction) \<times> NunchukWalletDb" where
  "InsertTransaction env raw_tx height blocktime fee memo change_pos db =
     (let tx_id = DecodeRawTransaction env raw_tx;
          ins = run_insert tx_id
                  \<lparr>vtx_VALUE = raw_tx, vtx_HEIGHT = height, vtx_FEE = fee, vtx_MEMO = memo,
                   vtx_CHANGEPOS = change_pos, vtx_BLOCKTIME = blocktime,
                   vtx_EXTRA = Some []\<rparr>
                  (VTX (db_file db)) (db_changes db);
          db1 = db\<lparr>db_changes := snd (snd ins),
                   db_file := (db_file db)\<lparr>VTX := fst (snd ins)\<rparr>\<rparr>
      in case fst ins of
           Some err \<Rightarrow> (Inl err, db1)
         | None \<Rightarrow>
             (case GetTransaction env tx_id db1 of
                Inl e \<Rightarrow> (Inl e, db1)
              | Inr tx \<Rightarrow>
                  (Inr tx,
                   if height > 0 then UseAddresses (map fst (tx_outputs tx)) db1 else db1)))"

definition SetReplacedBy ::
  "Collab \<Rightarrow> string \<Rightarrow> string \<Rightarrow> NunchukWalletDb \<Rightarrow> error option \<times> NunchukWalletDb" where
  "SetReplacedBy env old_txid new_txid db =
     (case sql_select (\<lambda>k r. k = old_txid) (rows (VTX (db_file db))) of
        [] \<Rightarrow> (None, db)
      | (k, row) # rest \<Rightarrow>
          (case vtx_EXTRA row of
             None \<Rightarrow> (None, db)
           | Some old_extra \<Rightarrow>
               (case ExtraSetReplacedBy env (c_string old_extra) new_txid of
                  None \<Rightarrow> (Some JSON_PARSE_ERROR, db)
                | Some extra \<Rightarrow>
                    (case run_dml
                            (sql_update (\<lambda>k r. k = old_txid)
                               (\<lambda>r. r\<lparr>vtx_EXTRA := Some extra\<rparr>))
                            (VTX (db_file db)) (db_changes db) of
                       (t, n) \<Rightarrow>
                         (None, db\<lparr>db_changes := n, db_file := (db_file db)\<lparr>VTX := t\<rparr>\<rparr>)))))"

text \<open>
  \<^verbatim>\<open>UpdateTransaction\<close>, in the three steps of its body: the block that, for a height
  of 0 or less, looks for the draft of the same id and builds the new extra data
  (\<open>UpdateTransaction_extra\<close> returns that text, empty when there is no draft, or the
  exception of \<^verbatim>\<open>json::parse\<close>); the \<^verbatim>\<open>UPDATE\<close> of the row (\<open>UpdateTransaction_row\<close>);
  and the marking of the output addresses as used when a row was updated to a positive
  height.
\<close>

definition UpdateTransaction_extra ::
  "Collab \<Rightarrow> string \<Rightarrow> int \<Rightarrow> string \<Rightarrow> NunchukWalletDb
     \<Rightarrow> (error + string) \<times> NunchukWalletDb" where
  "UpdateTransaction_extra env tx_id height reject_msg db =
     (if height \<le> 0
      then (case sql_select (\<lambda>k r. k = tx_id \<and> vtx_HEIGHT r = - 1)
                   (rows (VTX (db_file db))) of
              [] \<Rightarrow> (Inr [], db)
            | (k, row) # rest \<Rightarrow>
                (case vtx_EXTRA row of
                   None \<Rightarrow> (Inr [], db)
                 | Some old_extra \<Rightarrow>
                     (let tx = GetTransactionFromPartiallySignedTransaction env
                                 (c_string (vtx_VALUE row)) (GetSigners db) 0
                      in case ExtraOnBroadcast env (c_string old_extra) tx reject_msg of
                           None \<Rightarrow> (Inl JSON_PARSE_ERROR, db)
                         | Some extra \<Rightarrow>
                             (case ExtraReplaceTxid env extra of
                                None \<Rightarrow> (Inr extra, db)
                              | Some replaced \<Rightarrow>
                                  (case SetReplacedBy env replaced tx_id db of
                                     (Some e, db1) \<Rightarrow> (Inl e, db1)
                                   | (None, db1) \<Rightarrow> (Inr extra, db1))))))
      else (Inr [], db))"

definition UpdateTransaction_row ::
  "string \<Rightarrow> string \<Rightarrow> int \<Rightarrow> int \<Rightarrow> string \<Rightarrow> NunchukWalletDb \<Rightarrow> NunchukWalletDb" where
  "UpdateTransaction_row tx_id raw_tx height blocktime extra db =
     (case run_dml
             (sql_update (\<lambda>k r. k = tx_id)
                (\<lambda>r. if extra = []
                     then r\<lparr>vtx_VALUE := raw_tx, vtx_HEIGHT := height,
                            vtx_BLOCKTIME := blocktime\<rparr>
                     else r\<lparr>vtx_VALUE := raw_tx, vtx_HEIGHT := height,
                            vtx_BLOCKTIME := blocktime, vtx_EXTRA := Some extra\<rparr>))
             (VTX (db_file db)) (db_changes db) of
        (t, n) \<Rightarrow> db\<lparr>db_changes := n, db_file := (db_file db)\<lparr>VTX := t\<rparr>\<rparr>)"

definition UpdateTransaction ::
  "Collab \<Rightarrow> string \<Rightarrow> int \<Rightarrow> int \<Rightarrow> string \<Rightarrow> NunchukWalletDb
     \<Rightarrow> (error + bool) \<times> NunchukWalletDb" where
  "UpdateTransaction env raw_tx height blocktime reject_msg db =
     (if height = - 1 then (Inr False, db)
      else
        let tx_id = DecodeRawTransaction env raw_tx
        in case UpdateTransaction_extra env tx_id height reject_msg db of
             (Inl e, db1) \<Rightarrow> (Inl e, db1)
           | (Inr extra, db1) \<Rightarrow>
               (let db2 = UpdateTransaction_row tx_id raw_tx height blocktime extra db1;
                    updated = (db_changes db2 = 1)
                in if updated \<and> height > 0
                   then (case GetTransaction env tx_id db2 of
                           Inl e \<Rightarrow> (Inl e, db2)
                         | Inr tx \<Rightarrow>
                             (Inr updated, UseAddresses (map fst (tx_outputs tx)) db2))
                   else (Inr updated, db2)))"










section \<open>NunchukSignerDb: the signer record store\<close>

text \<open>
  The tables \<^verbatim>\<open>BIP32\<close> (the derived-key cache; \<^verbatim>\<open>USED\<close> is -1 for an unallocated
  entry and 1 for an allocated one) and \<^verbatim>\<open>REMOTE\<close>. \<^verbatim>\<open>AddRemote\<close> always binds a
  text for \<^verbatim>\<open>XPUB\<close> and \<^verbatim>\<open>PUBKEY\<close>, so the model's columns are never null.
\<close>

record Bip32Row =
  bip32_XPUB :: string
  bip32_TYPE :: string
  bip32_USED :: int

record RemoteRow =
  remote_XPUB :: string
  remote_PUBKEY :: string
  remote_NAME :: string
  remote_LAST_HEALTHCHECK :: int
  remote_USED :: int

record SignerFile = DbFile +
  BIP32 :: "(string, Bip32Row) table option"
  REMOTE :: "(string, RemoteRow) table option"

type_synonym NunchukSignerDb = "SignerFile NunchukDb"



definition AddXPub :: "string \<Rightarrow> string \<Rightarrow> string \<Rightarrow> NunchukSignerDb \<Rightarrow> bool \<times> NunchukSignerDb" where
  "AddXPub path xpub type db =
     (case run_dml
             (sql_upsert path \<lparr>bip32_XPUB = xpub, bip32_TYPE = type, bip32_USED = - 1\<rparr>
                (\<lambda>r. r\<lparr>bip32_XPUB := xpub\<rparr>))
             (BIP32 (db_file db)) (db_changes db) of
        (t, n) \<Rightarrow> (n = 1, db\<lparr>db_changes := n, db_file := (db_file db)\<lparr>BIP32 := t\<rparr>\<rparr>))"

definition AddXPub_index ::
  "Collab \<Rightarrow> WalletType \<Rightarrow> AddressType \<Rightarrow> int \<Rightarrow> string \<Rightarrow> NunchukSignerDb
     \<Rightarrow> bool \<times> NunchukSignerDb" where
  "AddXPub_index env wallet_type address_type index xpub db =
     AddXPub (GetBip32Path env (db_chain db) wallet_type address_type index) xpub
       (GetBip32Type env wallet_type address_type) db"

definition UseIndex ::
  "Collab \<Rightarrow> WalletType \<Rightarrow> AddressType \<Rightarrow> int \<Rightarrow> NunchukSignerDb \<Rightarrow> bool \<times> NunchukSignerDb" where
  "UseIndex env wallet_type address_type index db =
     (case run_dml
             (sql_update
                (\<lambda>k r. k = GetBip32Path env (db_chain db) wallet_type address_type index
                      \<and> bip32_USED r = - 1)
                (\<lambda>r. r\<lparr>bip32_USED := 1\<rparr>))
             (BIP32 (db_file db)) (db_changes db) of
        (t, n) \<Rightarrow> (n = 1, db\<lparr>db_changes := n, db_file := (db_file db)\<lparr>BIP32 := t\<rparr>\<rparr>))"

definition GetXpub :: "string \<Rightarrow> NunchukSignerDb \<Rightarrow> string" where
  "GetXpub path db =
     (case sql_select (\<lambda>k r. k = path) (rows (BIP32 (db_file db))) of
        [] \<Rightarrow> [] | (k, r) # rest \<Rightarrow> bip32_XPUB r)"

definition GetUnusedIndex :: "Collab \<Rightarrow> WalletType \<Rightarrow> AddressType \<Rightarrow> NunchukSignerDb \<Rightarrow> int" where
  "GetUnusedIndex env wallet_type address_type db =
     (case sql_select
             (\<lambda>k r. bip32_TYPE r = GetBip32Type env wallet_type address_type
                   \<and> bip32_USED r = - 1)
             (rows (BIP32 (db_file db))) of
        [] \<Rightarrow> - 1
      | (path, r) # rest \<Rightarrow> GetIndexFromPath env path)"

definition GetCachedIndex :: "Collab \<Rightarrow> WalletType \<Rightarrow> AddressType \<Rightarrow> NunchukSignerDb \<Rightarrow> int" where
  "GetCachedIndex env wallet_type address_type db =
     foldl (\<lambda>v (path, r). if GetIndexFromPath env path > v then GetIndexFromPath env path else v)
       (- 1)
       (sql_select (\<lambda>k r. bip32_TYPE r = GetBip32Type env wallet_type address_type)
          (rows (BIP32 (db_file db))))"

definition IsMaster :: "NunchukSignerDb \<Rightarrow> bool" where
  "IsMaster db = TableExists (BIP32 (db_file db))"

definition InitRemote :: "NunchukSignerDb \<Rightarrow> NunchukSignerDb" where
  "InitRemote db =
     db\<lparr>db_file := (db_file db)\<lparr>REMOTE := create_table_if_not_exists (REMOTE (db_file db))\<rparr>\<rparr>"

definition AddRemote ::
  "string \<Rightarrow> string \<Rightarrow> string \<Rightarrow> string \<Rightarrow> bool \<Rightarrow> NunchukSignerDb
     \<Rightarrow> (error + bool) \<times> NunchukSignerDb" where
  "AddRemote name xpub public_key path used db =
     (let db1 = InitRemote db
      in case run_insert path
                \<lparr>remote_XPUB = xpub, remote_PUBKEY = public_key, remote_NAME = name,
                 remote_LAST_HEALTHCHECK = 0, remote_USED = (if used then 1 else - 1)\<rparr>
                (REMOTE (db_file db1)) (db_changes db1) of
           (e, t, n) \<Rightarrow>
             (case e of Some err \<Rightarrow> Inl err | None \<Rightarrow> Inr (n = 1),
              db1\<lparr>db_changes := n, db_file := (db_file db1)\<lparr>REMOTE := t\<rparr>\<rparr>))"

definition remote_row_to_signer :: "string \<Rightarrow> string \<Rightarrow> RemoteRow \<Rightarrow> SingleSigner" where
  "remote_row_to_signer master_id path r =
     \<lparr>ss_name = remote_NAME r, ss_xpub = remote_XPUB r, ss_public_key = remote_PUBKEY r,
      ss_derivation_path = path, ss_master_fingerprint = master_id,
      ss_last_health_check = remote_LAST_HEALTHCHECK r, ss_master_signer_id = [],
      ss_used = (remote_USED r = 1)\<rparr>"

definition GetRemoteSigner :: "string \<Rightarrow> NunchukSignerDb \<Rightarrow> error + SingleSigner" where
  "GetRemoteSigner path db =
     (case sql_select (\<lambda>k r. k = path) (rows (REMOTE (db_file db))) of
        [] \<Rightarrow> Inl SIGNER_NOT_FOUND
      | (k, r) # rest \<Rightarrow> Inr (remote_row_to_signer (db_id db) path r))"

definition DeleteRemoteSigner :: "string \<Rightarrow> NunchukSignerDb \<Rightarrow> bool \<times> NunchukSignerDb" where
  "DeleteRemoteSigner path db =
     (case run_dml (sql_delete (\<lambda>k r. k = path \<and> remote_USED r = - 1))
             (REMOTE (db_file db)) (db_changes db) of
        (t, n) \<Rightarrow> (n = 1, db\<lparr>db_changes := n, db_file := (db_file db)\<lparr>REMOTE := t\<rparr>\<rparr>))"

definition UseRemote :: "string \<Rightarrow> NunchukSignerDb \<Rightarrow> bool \<times> NunchukSignerDb" where
  "UseRemote path db =
     (case run_dml
             (sql_update (\<lambda>k r. k = path \<and> remote_USED r = - 1) (\<lambda>r. r\<lparr>remote_USED := 1\<rparr>))
             (REMOTE (db_file db)) (db_changes db) of
        (t, n) \<Rightarrow> (n = 1, db\<lparr>db_changes := n, db_file := (db_file db)\<lparr>REMOTE := t\<rparr>\<rparr>))"


section \<open>NunchukStorage: the storage facade\<close>

text \<open>
  The data directory holds, per chain, the wallet files under \<^verbatim>\<open>wallets/\<close> and the signer
  files under \<^verbatim>\<open>signers/\<close>, named by id. Constructing a \<^verbatim>\<open>NunchukSignerDb\<close> or
  \<^verbatim>\<open>NunchukWalletDb\<close> opens the file of that name, which SQLite creates empty when it
  is missing; every call opens a connection of its own, whose change counter starts at 0.
  The reader/writer lock is not modelled: calls are sequential here.
\<close>

record NunchukStorage =
  wallet_files :: "Chain \<times> string \<rightharpoonup> WalletFile"
  signer_files :: "Chain \<times> string \<rightharpoonup> SignerFile"

definition empty_signer_file :: SignerFile where
  "empty_signer_file = \<lparr>VSTR = None, VINT = None, BIP32 = None, REMOTE = None\<rparr>"

definition empty_wallet_file :: WalletFile where
  "empty_wallet_file = \<lparr>VSTR = None, VINT = None, VTX = None, ADDRESS = None, SIGNER = None\<rparr>"

definition open_signer_db :: "Chain \<Rightarrow> string \<Rightarrow> NunchukStorage \<Rightarrow> NunchukSignerDb" where
  "open_signer_db chain ident st =
     \<lparr>db_id = ident, db_chain = chain, db_changes = 0,
      db_file = (case signer_files st (chain, ident) of None \<Rightarrow> empty_signer_file | Some f \<Rightarrow> f)\<rparr>"

definition close_signer_db :: "NunchukSignerDb \<Rightarrow> NunchukStorage \<Rightarrow> NunchukStorage" where
  "close_signer_db db st =
     st\<lparr>signer_files := (signer_files st)((db_chain db, db_id db) \<mapsto> db_file db)\<rparr>"

definition open_wallet_db :: "Chain \<Rightarrow> string \<Rightarrow> NunchukStorage \<Rightarrow> NunchukWalletDb" where
  "open_wallet_db chain ident st =
     \<lparr>db_id = ident, db_chain = chain, db_changes = 0,
      db_file = (case wallet_files st (chain, ident) of None \<Rightarrow> empty_wallet_file | Some f \<Rightarrow> f)\<rparr>"

definition close_wallet_db :: "NunchukWalletDb \<Rightarrow> NunchukStorage \<Rightarrow> NunchukStorage" where
  "close_wallet_db db st =
     st\<lparr>wallet_files := (wallet_files st)((db_chain db, db_id db) \<mapsto> db_file db)\<rparr>"

definition GetWalletDb :: "Chain \<Rightarrow> string \<Rightarrow> NunchukStorage \<Rightarrow> error + NunchukWalletDb" where
  "GetWalletDb chain ident st =
     (case wallet_files st (chain, ident) of
        None \<Rightarrow> Inl WALLET_NOT_FOUND
      | Some f \<Rightarrow> Inr (open_wallet_db chain ident st))"

definition GetSignerDb :: "Chain \<Rightarrow> string \<Rightarrow> NunchukStorage \<Rightarrow> error + NunchukSignerDb" where
  "GetSignerDb chain ident st =
     (case signer_files st (chain, ident) of
        None \<Rightarrow> Inl MASTERSIGNER_NOT_FOUND
      | Some f \<Rightarrow> Inr (open_signer_db chain ident st))"

subsection \<open>Wallet creation\<close>

text \<open>
  \<^verbatim>\<open>NunchukStorage::CreateWallet\<close> of \<^verbatim>\<open>storage.cpp\<close>. The body of its loop over the
  signers is \<open>CreateWallet_signer\<close>; an exception leaves the loop, with the signer
  files as the statements executed so far left them. \<^verbatim>\<open>std::time(0)\<close> is the
  parameter \<open>create_date\<close>.
\<close>

definition CreateWallet_signer ::
  "Collab \<Rightarrow> Chain \<Rightarrow> WalletType \<Rightarrow> AddressType \<Rightarrow> SingleSigner \<Rightarrow> NunchukStorage
     \<Rightarrow> error option \<times> NunchukStorage" where
  "CreateWallet_signer env chain wallet_type address_type signer st =
     (let master_id = ss_master_fingerprint signer;
          signer_db = open_signer_db chain master_id st
      in if IsMaster signer_db \<and> has_master_signer env signer then
           (case UseIndex env wallet_type address_type
                   (GetIndexFromPath env (ss_derivation_path signer)) signer_db of
              (ok, db1) \<Rightarrow>
                (if \<not> ok then Some SIGNER_USED else None, close_signer_db db1 st))
         else
           (case GetRemoteSigner (ss_derivation_path signer) signer_db of
              Inr found \<Rightarrow>
                (None, close_signer_db (snd (UseRemote (ss_derivation_path signer) signer_db)) st)
            | Inl e \<Rightarrow>
                if e = SIGNER_NOT_FOUND then
                  (case AddRemote (ss_name signer) (ss_xpub signer) (ss_public_key signer)
                          (ss_derivation_path signer) True signer_db of
                     (Inl err, db1) \<Rightarrow> (Some err, close_signer_db db1 st)
                   | (Inr added, db1) \<Rightarrow> (None, close_signer_db db1 st))
                else (Some e, close_signer_db signer_db st)))"

fun CreateWallet_signers ::
  "Collab \<Rightarrow> Chain \<Rightarrow> WalletType \<Rightarrow> AddressType \<Rightarrow> SingleSigner list \<Rightarrow> NunchukStorage
     \<Rightarrow> error option \<times> NunchukStorage" where
  "CreateWallet_signers env chain wallet_type address_type [] st = (None, st)"
| "CreateWallet_signers env chain wallet_type address_type (signer # signers) st =
     (case CreateWallet_signer env chain wallet_type address_type signer st of
        (Some e, st1) \<Rightarrow> (Some e, st1)
      | (None, st1) \<Rightarrow> CreateWallet_signers env chain wallet_type address_type signers st1)"

definition wallet_type_of :: "int \<Rightarrow> bool \<Rightarrow> WalletType" where
  "wallet_type_of n is_escrow =
     (if n = 1 then SINGLE_SIG else if is_escrow then ESCROW else MULTI_SIG)"

definition WalletId :: "Collab \<Rightarrow> SingleSigner list \<Rightarrow> int \<Rightarrow> AddressType \<Rightarrow> WalletType \<Rightarrow> string" where
  "WalletId env signers m address_type wallet_type =
     GetDescriptorChecksum env
       (GetDescriptorForSigners env signers m EXTERNAL_ALL address_type wallet_type)"

definition create_wallet_file ::
  "Collab \<Rightarrow> Chain \<Rightarrow> string \<Rightarrow> int \<Rightarrow> int \<Rightarrow> SingleSigner list \<Rightarrow> AddressType \<Rightarrow> bool
     \<Rightarrow> string \<Rightarrow> int \<Rightarrow> NunchukStorage \<Rightarrow> (error + Wallet) \<times> NunchukStorage" where
  "create_wallet_file env chain name m n signers address_type is_escrow description
     create_date st =
     (let ident = WalletId env signers m address_type (wallet_type_of n is_escrow)
      in if wallet_files st (chain, ident) \<noteq> None then (Inl WALLET_EXISTED, st)
         else
           case InitWallet env name m n signers address_type is_escrow create_date
                  description (open_wallet_db chain ident st) of
             (Some e, wallet_db) \<Rightarrow> (Inl e, close_wallet_db wallet_db st)
           | (None, wallet_db) \<Rightarrow>
               (Inr \<lparr>w_id = ident, w_m = m, w_n = n, w_signers = signers,
                      w_address_type = address_type, w_is_escrow = is_escrow,
                      w_create_date = create_date, w_name = name,
                      w_description = description, w_balance = 0\<rparr>,
                close_wallet_db wallet_db st))"

definition CreateWallet ::
  "Collab \<Rightarrow> int \<Rightarrow> Chain \<Rightarrow> string \<Rightarrow> int \<Rightarrow> int \<Rightarrow> SingleSigner list \<Rightarrow> AddressType \<Rightarrow> bool
     \<Rightarrow> string \<Rightarrow> NunchukStorage \<Rightarrow> (error + Wallet) \<times> NunchukStorage" where
  "CreateWallet env create_date chain name m n signers address_type is_escrow description st =
     (case CreateWallet_signers env chain (wallet_type_of n is_escrow) address_type signers st of
        (Some e, st1) \<Rightarrow> (Inl e, st1)
      | (None, st1) \<Rightarrow>
          create_wallet_file env chain name m n signers address_type is_escrow description
            create_date st1)"

subsection \<open>Wallet operations of the facade\<close>

text \<open>
  Each of these opens the wallet's store with \<^verbatim>\<open>GetWalletDb\<close>, which throws
  \<^verbatim>\<open>WALLET_NOT_FOUND\<close> for a missing file, and calls the store's function of the same
  name. \<^verbatim>\<open>NunchukStorage::GetTransaction\<close> also calls \<^verbatim>\<open>FillSendReceiveData\<close>, which
  sets the fee, the change index, the receive flag and the sub-amount of the object it
  returns: fields the model's \<open>Transaction\<close> does not carry.
\<close>

definition Storage_GetTransaction ::
  "Collab \<Rightarrow> Chain \<Rightarrow> string \<Rightarrow> string \<Rightarrow> NunchukStorage \<Rightarrow> error + Transaction" where
  "Storage_GetTransaction env chain wallet_id tx_id st =
     (case GetWalletDb chain wallet_id st of
        Inl e \<Rightarrow> Inl e
      | Inr db \<Rightarrow> GetTransaction env tx_id db)"

definition Storage_UpdateTransaction ::
  "Collab \<Rightarrow> Chain \<Rightarrow> string \<Rightarrow> string \<Rightarrow> int \<Rightarrow> int \<Rightarrow> string \<Rightarrow> NunchukStorage
     \<Rightarrow> (error + bool) \<times> NunchukStorage" where
  "Storage_UpdateTransaction env chain wallet_id raw_tx height blocktime reject_msg st =
     (case GetWalletDb chain wallet_id st of
        Inl e \<Rightarrow> (Inl e, st)
      | Inr db \<Rightarrow>
          (case UpdateTransaction env raw_tx height blocktime reject_msg db of
             (r, db1) \<Rightarrow> (r, close_wallet_db db1 st)))"

definition Storage_InsertTransaction ::
  "Collab \<Rightarrow> Chain \<Rightarrow> string \<Rightarrow> string \<Rightarrow> int \<Rightarrow> int \<Rightarrow> int \<Rightarrow> string \<Rightarrow> int \<Rightarrow> NunchukStorage
     \<Rightarrow> (error + Transaction) \<times> NunchukStorage" where
  "Storage_InsertTransaction env chain wallet_id raw_tx height blocktime fee memo change_pos st =
     (case GetWalletDb chain wallet_id st of
        Inl e \<Rightarrow> (Inl e, st)
      | Inr db \<Rightarrow>
          (case InsertTransaction env raw_tx height blocktime fee memo change_pos db of
             (r, db1) \<Rightarrow> (r, close_wallet_db db1 st)))"

definition Storage_AddAddress ::
  "Chain \<Rightarrow> string \<Rightarrow> string \<Rightarrow> int \<Rightarrow> bool \<Rightarrow> NunchukStorage \<Rightarrow> (error + bool) \<times> NunchukStorage" where
  "Storage_AddAddress chain wallet_id address index internal st =
     (case GetWalletDb chain wallet_id st of
        Inl e \<Rightarrow> (Inl e, st)
      | Inr db \<Rightarrow>
          (case AddAddress address index internal db of
             (r, db1) \<Rightarrow> (r, close_wallet_db db1 st)))"

definition Storage_UseAddress ::
  "Chain \<Rightarrow> string \<Rightarrow> string \<Rightarrow> NunchukStorage \<Rightarrow> (error + bool) \<times> NunchukStorage" where
  "Storage_UseAddress chain wallet_id address st =
     (case GetWalletDb chain wallet_id st of
        Inl e \<Rightarrow> (Inl e, st)
      | Inr db \<Rightarrow>
          (case UseAddress address db of (r, db1) \<Rightarrow> (Inr r, close_wallet_db db1 st)))"

definition Storage_SetUtxos ::
  "Chain \<Rightarrow> string \<Rightarrow> string \<Rightarrow> string \<Rightarrow> NunchukStorage \<Rightarrow> (error + bool) \<times> NunchukStorage" where
  "Storage_SetUtxos chain wallet_id address utxo st =
     (case GetWalletDb chain wallet_id st of
        Inl e \<Rightarrow> (Inl e, st)
      | Inr db \<Rightarrow>
          (case SetUtxos address utxo db of (r, db1) \<Rightarrow> (Inr r, close_wallet_db db1 st)))"

section \<open>ElectrumSynchronizer\<close>

text \<open>
  The backend's answers are the functions of \<open>ElectrumClient\<close>: the transaction's
  \<^verbatim>\<open>hex\<close> and \<^verbatim>\<open>blocktime\<close> (\<open>None\<close> for a JSON null), the history of a script hash
  (\<open>None\<close> when the answer is not a JSON array; an item has \<^verbatim>\<open>tx_hash\<close>, \<^verbatim>\<open>height\<close>
  and \<^verbatim>\<open>fee\<close>), and the dumped text of its unspent list. The synchronizer's state is its
  status, the chain of its settings, the storage it writes to, the map from subscribed
  script hashes to (wallet, address), the subscriptions sent, and the calls made to the
  transaction listener, in order. Mutex and condition variable are not modelled.
\<close>

record HistoryItem =
  h_tx_hash :: string
  h_height :: int
  h_fee :: int

record ElectrumClient =
  blockchain_transaction_get :: "string \<Rightarrow> string \<times> int option"
  blockchain_scripthash_get_history :: "string \<Rightarrow> HistoryItem list option"
  blockchain_scripthash_listunspent :: "string \<Rightarrow> string"

datatype Event = transaction_listener string TransactionStatus string

record ElectrumSynchronizer =
  sync_status :: Status
  sync_chain :: Chain
  sync_storage :: NunchukStorage
  scripthash_to_wallet_address :: "string \<rightharpoonup> string \<times> string"
  subscriptions :: "string list"
  events :: "Event list"

definition is_StorageException :: "error \<Rightarrow> bool" where
  "is_StorageException e =
     (e \<in> {WALLET_NOT_FOUND, WALLET_EXISTED, MASTERSIGNER_NOT_FOUND, SIGNER_USED,
            SIGNER_NOT_FOUND, SIGNER_EXISTS, TX_NOT_FOUND, ADDRESS_NOT_FOUND, SQL_ERROR})"

text \<open>The \<^verbatim>\<open>try\<close> block of \<^verbatim>\<open>UpdateTransactions\<close> for one history item.\<close>

definition UpdateTransactions_try ::
  "Collab \<Rightarrow> ElectrumClient \<Rightarrow> Chain \<Rightarrow> string \<Rightarrow> HistoryItem \<Rightarrow> ElectrumSynchronizer
     \<Rightarrow> error option \<times> ElectrumSynchronizer" where
  "UpdateTransactions_try env client chain wallet_id item sync =
     (case Storage_GetTransaction env chain wallet_id (h_tx_hash item) (sync_storage sync) of
        Inl e \<Rightarrow> (Some e, sync)
      | Inr tx \<Rightarrow>
          if tx_status tx \<noteq> CONFIRMED \<and> h_height item > 0 then
            (case blockchain_transaction_get client (h_tx_hash item) of
               (hex, blocktime) \<Rightarrow>
                 (case blocktime of
                    None \<Rightarrow> (Some JSON_TYPE_ERROR, sync)
                  | Some bt \<Rightarrow>
                      (case Storage_UpdateTransaction env chain wallet_id hex (h_height item) bt
                              (default_reject_msg env) (sync_storage sync) of
                         (Inl e, st1) \<Rightarrow> (Some e, sync\<lparr>sync_storage := st1\<rparr>)
                       | (Inr updated, st1) \<Rightarrow>
                           (None,
                            sync\<lparr>sync_storage := st1,
                                 events := events sync @
                                   [transaction_listener (h_tx_hash item) CONFIRMED
                                      wallet_id]\<rparr>))))
          else (None, sync))"

text \<open>The handler of \<^verbatim>\<open>TX_NOT_FOUND\<close>: fetch the transaction and insert it.\<close>

definition UpdateTransactions_insert ::
  "Collab \<Rightarrow> ElectrumClient \<Rightarrow> Chain \<Rightarrow> string \<Rightarrow> HistoryItem \<Rightarrow> ElectrumSynchronizer
     \<Rightarrow> error option \<times> ElectrumSynchronizer" where
  "UpdateTransactions_insert env client chain wallet_id item sync =
     (case blockchain_transaction_get client (h_tx_hash item) of
        (hex, blocktime) \<Rightarrow>
          (let time = (case blocktime of None \<Rightarrow> 0 | Some bt \<Rightarrow> bt);
               height = (if h_height item \<le> 0 then 0 else h_height item);
               fee = (if h_height item \<le> 0 then h_fee item else 0)
           in case Storage_InsertTransaction env chain wallet_id hex height time fee
                     (default_memo env) (default_change_pos env) (sync_storage sync) of
                (Inl e, st1) \<Rightarrow> (Some e, sync\<lparr>sync_storage := st1\<rparr>)
              | (Inr tx, st1) \<Rightarrow>
                  (None,
                   sync\<lparr>sync_storage := st1,
                        events := events sync @
                          [transaction_listener (h_tx_hash item)
                             (if height \<le> 0 then PENDING_CONFIRMATION else CONFIRMED)
                             wallet_id]\<rparr>)))"

text \<open>
  One pass of the loop: a \<^verbatim>\<open>StorageException\<close> of the \<^verbatim>\<open>try\<close> block is caught, and
  only \<^verbatim>\<open>TX_NOT_FOUND\<close> has a handler; any other exception, and an exception of the
  handler itself, leaves \<^verbatim>\<open>UpdateTransactions\<close>.
\<close>

definition UpdateTransactions_item ::
  "Collab \<Rightarrow> ElectrumClient \<Rightarrow> Chain \<Rightarrow> string \<Rightarrow> HistoryItem \<Rightarrow> ElectrumSynchronizer
     \<Rightarrow> error option \<times> ElectrumSynchronizer" where
  "UpdateTransactions_item env client chain wallet_id item sync =
     (case UpdateTransactions_try env client chain wallet_id item sync of
        (None, sync1) \<Rightarrow> (None, sync1)
      | (Some e, sync1) \<Rightarrow>
          if \<not> is_StorageException e then (Some e, sync1)
          else if e = TX_NOT_FOUND
          then UpdateTransactions_insert env client chain wallet_id item sync1
          else (None, sync1))"

fun UpdateTransactions_loop ::
  "Collab \<Rightarrow> ElectrumClient \<Rightarrow> Chain \<Rightarrow> string \<Rightarrow> HistoryItem list \<Rightarrow> ElectrumSynchronizer
     \<Rightarrow> error option \<times> ElectrumSynchronizer" where
  "UpdateTransactions_loop env client chain wallet_id [] sync = (None, sync)"
| "UpdateTransactions_loop env client chain wallet_id (item # items) sync =
     (case UpdateTransactions_item env client chain wallet_id item sync of
        (Some e, sync1) \<Rightarrow> (Some e, sync1)
      | (None, sync1) \<Rightarrow> UpdateTransactions_loop env client chain wallet_id items sync1)"

definition UpdateTransactions ::
  "Collab \<Rightarrow> ElectrumClient \<Rightarrow> Chain \<Rightarrow> string \<Rightarrow> HistoryItem list option
     \<Rightarrow> ElectrumSynchronizer \<Rightarrow> error option \<times> ElectrumSynchronizer" where
  "UpdateTransactions env client chain wallet_id history sync =
     (case history of
        None \<Rightarrow> (None, sync)
      | Some items \<Rightarrow> UpdateTransactions_loop env client chain wallet_id items sync)"

definition SubscribeAddress ::
  "Collab \<Rightarrow> string \<Rightarrow> string \<Rightarrow> ElectrumSynchronizer \<Rightarrow> string \<times> ElectrumSynchronizer" where
  "SubscribeAddress env wallet_id address sync =
     (let scripthash = AddressToScriptHash env address
      in (scripthash,
          sync\<lparr>scripthash_to_wallet_address :=
                 (scripthash_to_wallet_address sync)(scripthash \<mapsto> (wallet_id, address)),
               subscriptions := subscriptions sync @ [scripthash]\<rparr>))"

text \<open>
  \<^verbatim>\<open>LookAhead\<close>. \<open>LookAhead_persist\<close> is the part of its body that runs once the
  history is known not to be empty: add the address, reconcile the history, store the
  UTXO snapshot.
\<close>

definition LookAhead_persist ::
  "Collab \<Rightarrow> ElectrumClient \<Rightarrow> Chain \<Rightarrow> string \<Rightarrow> string \<Rightarrow> int \<Rightarrow> bool \<Rightarrow> string
     \<Rightarrow> HistoryItem list option \<Rightarrow> ElectrumSynchronizer
     \<Rightarrow> (error + bool) \<times> ElectrumSynchronizer" where
  "LookAhead_persist env client chain wallet_id address index internal scripthash history sync1 =
     (case Storage_AddAddress chain wallet_id address index internal (sync_storage sync1) of
        (Inl e, st1) \<Rightarrow> (Inl e, sync1\<lparr>sync_storage := st1\<rparr>)
      | (Inr added, st1) \<Rightarrow>
          (case UpdateTransactions env client chain wallet_id history
                  (sync1\<lparr>sync_storage := st1\<rparr>) of
             (Some e, sync2) \<Rightarrow> (Inl e, sync2)
           | (None, sync2) \<Rightarrow>
               (case Storage_SetUtxos chain wallet_id address
                       (blockchain_scripthash_listunspent client scripthash)
                       (sync_storage sync2) of
                  (Inl e, st3) \<Rightarrow> (Inl e, sync2\<lparr>sync_storage := st3\<rparr>)
                | (Inr stored, st3) \<Rightarrow> (Inr True, sync2\<lparr>sync_storage := st3\<rparr>))))"

definition LookAhead ::
  "Collab \<Rightarrow> ElectrumClient \<Rightarrow> Chain \<Rightarrow> string \<Rightarrow> string \<Rightarrow> int \<Rightarrow> bool \<Rightarrow> ElectrumSynchronizer
     \<Rightarrow> (error + bool) \<times> ElectrumSynchronizer" where
  "LookAhead env client chain wallet_id address index internal sync =
     (if sync_status sync \<noteq> READY \<and> sync_status sync \<noteq> SYNCING then (Inr False, sync)
      else if chain \<noteq> sync_chain sync then (Inr False, sync)
      else
        case SubscribeAddress env wallet_id address sync of
          (scripthash, sync1) \<Rightarrow>
            (let history = blockchain_scripthash_get_history client scripthash
             in if history = None \<or> history = Some [] then (Inr False, sync1)
                else LookAhead_persist env client chain wallet_id address index internal
                       scripthash history sync1))"

section \<open>Example values\<close>

text \<open>
  Concrete collaborators and stores, on which the theorems below are instantiated.
  \<open>dec\<close> prints a natural number in decimal and \<open>undec\<close> reads it back.
\<close>

fun dec :: "nat \<Rightarrow> string" where
  "dec n = (if n < 10 then [char_of (48 + n)] else dec (n div 10) @ [char_of (48 + n mod 10)])"

definition undec :: "string \<Rightarrow> nat" where
  "undec s = foldl (\<lambda>a c. 10 * a + ((of_char c :: nat) - 48)) 0 s"

text \<open>
  Example collaborators: derivation paths of the form \<^verbatim>\<open>m/48h/1h/5h\<close>, whose last
  component is the index; a descriptor text that lists the keys in order; a checksum of
  eight hexadecimal digits (four bytes, each the exclusive or of every fourth character
  of the text); a fixed table of transactions and UTXO snapshots.
\<close>

definition demo_purpose :: "WalletType \<Rightarrow> AddressType \<Rightarrow> string" where
  "demo_purpose w a =
     (case w of
        SINGLE_SIG \<Rightarrow>
          (case a of NATIVE_SEGWIT \<Rightarrow> ''84'' | NESTED_SEGWIT \<Rightarrow> ''49''
                   | LEGACY \<Rightarrow> ''44'' | ANY \<Rightarrow> ''44'')
      | MULTI_SIG \<Rightarrow> ''48''
      | ESCROW \<Rightarrow> ''45'')"

definition demo_GetBip32Path :: "Chain \<Rightarrow> WalletType \<Rightarrow> AddressType \<Rightarrow> int \<Rightarrow> string" where
  "demo_GetBip32Path c w a i =
     ''m/'' @ demo_purpose w a @ ''h/'' @ (if c = MAIN then ''0'' else ''1'') @ ''h/''
       @ dec (nat i) @ ''h''"

definition demo_GetIndexFromPath :: "string \<Rightarrow> int" where
  "demo_GetIndexFromPath path = int (undec (butlast (drop 9 path)))"

definition demo_FormalizePath :: "string \<Rightarrow> string" where
  "demo_FormalizePath path = map (\<lambda>c. if c = CHR ''h'' then CHR 0x27 else c) path"

definition demo_GetDescriptorForSigners ::
  "SingleSigner list \<Rightarrow> int \<Rightarrow> DescriptorPath \<Rightarrow> AddressType \<Rightarrow> WalletType \<Rightarrow> string" where
  "demo_GetDescriptorForSigners signers m path address_type wallet_type =
     ''multi('' @ dec (nat m)
       @ concat (map (\<lambda>s. '',['' @ ss_master_fingerprint s
                         @ demo_FormalizePath (tl (ss_derivation_path s)) @ '']''
                         @ ss_xpub s @ ss_public_key s) signers)
       @ '')''"

fun xor_char :: "char \<Rightarrow> char \<Rightarrow> char" where
  "xor_char (Char a0 a1 a2 a3 a4 a5 a6 a7) (Char b0 b1 b2 b3 b4 b5 b6 b7) =
     Char (a0 \<noteq> b0) (a1 \<noteq> b1) (a2 \<noteq> b2) (a3 \<noteq> b3) (a4 \<noteq> b4) (a5 \<noteq> b5) (a6 \<noteq> b6)
       (a7 \<noteq> b7)"

definition hex_digit :: "bool \<Rightarrow> bool \<Rightarrow> bool \<Rightarrow> bool \<Rightarrow> char" where
  "hex_digit b3 b2 b1 b0 =
     hd (drop (if b0 then 1 else 0)
           (drop (if b1 then 2 else 0)
              (drop (if b2 then 4 else 0)
                 (drop (if b3 then 8 else 0) ''0123456789abcdef''))))"

fun hex_of_char :: "char \<Rightarrow> string" where
  "hex_of_char (Char b0 b1 b2 b3 b4 b5 b6 b7) = [hex_digit b7 b6 b5 b4, hex_digit b3 b2 b1 b0]"

definition demo_GetDescriptorChecksum :: "string \<Rightarrow> string" where
  "demo_GetDescriptorChecksum d =
     concat (map hex_of_char
               (foldl (\<lambda>h c. tl h @ [xor_char (hd h) c])
                  [CHR 0x5a, CHR 0x3c, CHR 0x96, CHR 0xe1] d))"

definition demo_DbKey :: "DbKeys \<Rightarrow> int" where
  "demo_DbKey k =
     (case k of
        ID \<Rightarrow> 0 | IMMUTABLE_DATA \<Rightarrow> 1 | NAME \<Rightarrow> 2 | FINGERPRINT \<Rightarrow> 3 | VERSION \<Rightarrow> 4
      | DESCRIPTION \<Rightarrow> 5 | CHAIN_TIP \<Rightarrow> 6 | SELECTED_WALLET \<Rightarrow> 7 | MNEMONIC \<Rightarrow> 8
      | LAST_HEALTH_CHECK \<Rightarrow> 9 | SIGNER_DEVICE_TYPE \<Rightarrow> 10 | SIGNER_DEVICE_MODEL \<Rightarrow> 11)"

definition demo_decode :: "string \<Rightarrow> string \<times> (string \<times> int) list \<times> (string \<times> Amount) list" where
  "demo_decode text =
     (if text = ''raw:fund'' then (''tx_fund'', [(''tx_ext'', 0)], [(''tb1qreceive0'', 70000)])
      else if text = ''psbt:spend'' \<or> text = ''raw:spend''
      then (''tx_spend'', [(''tx_fund'', 0)], [(''tb1qother'', 50000), (''tb1qchange0'', 19000)])
      else if text = ''raw:next''
      then (''tx_next'', [(''tx_spend'', 1)], [(''tb1qother'', 18000)])
      else (''tx_'' @ text, [], []))"

definition demo_tx_of_raw :: "string \<Rightarrow> SingleSigner list \<Rightarrow> int \<Rightarrow> Transaction" where
  "demo_tx_of_raw text signers height =
     \<lparr>tx_txid = fst (demo_decode text), tx_height = height,
      tx_inputs = fst (snd (demo_decode text)), tx_outputs = snd (snd (demo_decode text)),
      tx_memo = [],
      tx_status = (if height > 0 then CONFIRMED
                   else if height = 0 then PENDING_CONFIRMATION else NETWORK_REJECTED),
      tx_replaced_by_txid = []\<rparr>"

definition demo_tx_of_psbt :: "string \<Rightarrow> SingleSigner list \<Rightarrow> int \<Rightarrow> Transaction" where
  "demo_tx_of_psbt text signers m =
     \<lparr>tx_txid = fst (demo_decode text), tx_height = - 1,
      tx_inputs = fst (snd (demo_decode text)), tx_outputs = snd (snd (demo_decode text)),
      tx_memo = [], tx_status = PENDING_SIGNATURES, tx_replaced_by_txid = []\<rparr>"

definition demo_ParseUtxos :: "string \<Rightarrow> (string \<times> int \<times> Amount) list option" where
  "demo_ParseUtxos text =
     (if text = ''utxo:fund'' then Some [(''tx_fund'', 0, 70000)]
      else if text = ''utxo:huge''
      then Some [(''tx_fund'', 0, 4611686018427387904), (''tx_fund'', 1, 4611686018427387904)]
      else if text = ''[]'' then Some []
      else None)"

definition demo_env :: Collab where
  "demo_env =
     \<lparr>GetBip32Path = demo_GetBip32Path,
      GetBip32Type = (\<lambda>w a. ''bip'' @ demo_purpose w a),
      GetIndexFromPath = demo_GetIndexFromPath,
      FormalizePath = demo_FormalizePath,
      GetDescriptorForSigners = demo_GetDescriptorForSigners,
      GetDescriptorChecksum = demo_GetDescriptorChecksum,
      has_master_signer = (\<lambda>s. ss_master_signer_id s \<noteq> []),
      AddressToScriptHash = (\<lambda>a. ''sh:'' @ a),
      DbKey = demo_DbKey,
      STORAGE_VER = 3,
      DecodeRawTransaction = (\<lambda>text. fst (demo_decode text)),
      DecodePsbt = (\<lambda>text. fst (demo_decode text)),
      GetTransactionFromCMutableTransaction = demo_tx_of_raw,
      GetTransactionFromPartiallySignedTransaction = demo_tx_of_psbt,
      ImmutableDataDump = (\<lambda>m n a e d. ''m='' @ dec (nat m) @ '';n='' @ dec (nat n)),
      ImmutableDataM =
        (\<lambda>text. if take 2 text = ''m=''
                then Some (int (undec (takeWhile (\<lambda>c. c \<noteq> CHR '';'') (drop 2 text))))
                else None),
      ParseUtxos = demo_ParseUtxos,
      ExtraOnBroadcast = (\<lambda>old tx msg. if old = [] then None else Some (old @ ''+signers'')),
      ExtraReplaceTxid = (\<lambda>extra. None),
      ExtraSetReplacedBy =
        (\<lambda>extra new_txid. if extra = [] then None
                           else Some (extra @ ''+replaced_by='' @ new_txid)),
      ExtraReplacedBy = (\<lambda>extra. Some None),
      default_memo = [],
      default_change_pos = - 1,
      default_reject_msg = []\<rparr>"

definition demo_db :: "DbFile NunchukDb" where
  "demo_db =
     \<lparr>db_id = ''a1b2c3d4'', db_chain = TESTNET, db_changes = 0,
      db_file = \<lparr>VSTR = Some [(2, ''vault'')], VINT = Some [(5, 3)]\<rparr>\<rparr>"

definition demo_ledger :: "NunchukWalletDb" where
  "demo_ledger =
     \<lparr>db_id = ''a1b2c3d4'', db_chain = TESTNET, db_changes = 0,
      db_file =
        \<lparr>VSTR = Some [], VINT = Some [], VTX = Some [],
         ADDRESS = Some
           [(''tb1qreceive0'',
             \<lparr>addr_IDX = 0, addr_INTERNAL = 0, addr_USED = 0, addr_UTXO = None\<rparr>),
            (''tb1qchange0'',
             \<lparr>addr_IDX = 0, addr_INTERNAL = 1, addr_USED = 0, addr_UTXO = None\<rparr>)],
         SIGNER = Some []\<rparr>\<rparr>"

definition demo_remote_signer_db :: NunchukSignerDb where
  "demo_remote_signer_db =
     \<lparr>db_id = ''f00dbabe'', db_chain = TESTNET, db_changes = 0,
      db_file =
        \<lparr>VSTR = None, VINT = None, BIP32 = None,
         REMOTE = Some
           [(''m/48h/1h/0h'',
             \<lparr>remote_XPUB = ''tpubAirgap0'', remote_PUBKEY = [], remote_NAME = ''airgap'',
              remote_LAST_HEALTHCHECK = 0, remote_USED = 1\<rparr>),
            (''m/48h/1h/1h'',
             \<lparr>remote_XPUB = ''tpubAirgap1'', remote_PUBKEY = [], remote_NAME = ''airgap'',
              remote_LAST_HEALTHCHECK = 0, remote_USED = - 1\<rparr>)]\<rparr>\<rparr>"


text \<open>
  The operations that write to the derived-key cache of a signer store, for indices
  that are natural numbers, as values; and two predicates on the cache. An index of a
  bucket is allocated when the row of its canonical path exists and is not unallocated.
  The rows of a bucket are canonical when the path of each row that carries the bucket's
  type is the canonical path of the index read from it.
\<close>

datatype SignerOp =
    Op_AddXPub WalletType AddressType nat string
  | Op_UseIndex WalletType AddressType nat

fun apply_signer_op :: "Collab \<Rightarrow> SignerOp \<Rightarrow> NunchukSignerDb \<Rightarrow> NunchukSignerDb" where
  "apply_signer_op env (Op_AddXPub w a j xpub) db = snd (AddXPub_index env w a (int j) xpub db)"
| "apply_signer_op env (Op_UseIndex w a j) db = snd (UseIndex env w a (int j) db)"

definition apply_signer_ops :: "Collab \<Rightarrow> SignerOp list \<Rightarrow> NunchukSignerDb \<Rightarrow> NunchukSignerDb" where
  "apply_signer_ops env ops db = foldl (\<lambda>d op. apply_signer_op env op d) db ops"

definition index_allocated :: "Collab \<Rightarrow> WalletType \<Rightarrow> AddressType \<Rightarrow> int \<Rightarrow> NunchukSignerDb \<Rightarrow> bool" where
  "index_allocated env w a i db =
     (case map_of (rows (BIP32 (db_file db))) (GetBip32Path env (db_chain db) w a i) of
        None \<Rightarrow> False
      | Some r \<Rightarrow> bip32_USED r \<noteq> - 1)"

definition bucket_canonical ::
  "Collab \<Rightarrow> Chain \<Rightarrow> WalletType \<Rightarrow> AddressType \<Rightarrow> (string, Bip32Row) table \<Rightarrow> bool" where
  "bucket_canonical env chain w a t =
     list_all (\<lambda>(path, r). bip32_TYPE r = GetBip32Type env w a \<longrightarrow>
                 path = GetBip32Path env chain w a (GetIndexFromPath env path)) t"

definition cache_ok :: "Collab \<Rightarrow> Chain \<Rightarrow> WalletType \<Rightarrow> AddressType \<Rightarrow> NunchukSignerDb \<Rightarrow> bool" where
  "cache_ok env c w a db =
     (db_chain db = c \<and>
      (case BIP32 (db_file db) of
         None \<Rightarrow> False
       | Some t \<Rightarrow> distinct (map fst t) \<and> bucket_canonical env c w a t))"

definition demo_master_signer_db :: NunchukSignerDb where
  "demo_master_signer_db =
     \<lparr>db_id = ''0badcafe'', db_chain = TESTNET, db_changes = 0,
      db_file =
        \<lparr>VSTR = Some [], VINT = Some [],
         BIP32 = Some
           [(''m/48h/1h/0h'',
             \<lparr>bip32_XPUB = ''tpubKey0'', bip32_TYPE = ''bip48'', bip32_USED = - 1\<rparr>),
            (''m/48h/1h/1h'',
             \<lparr>bip32_XPUB = ''tpubKey1'', bip32_TYPE = ''bip48'', bip32_USED = - 1\<rparr>),
            (''m/84h/1h/0h'',
             \<lparr>bip32_XPUB = ''tpubKey2'', bip32_TYPE = ''bip84'', bip32_USED = - 1\<rparr>)],
         REMOTE = None\<rparr>\<rparr>"





definition demo_wallet_with_draft :: NunchukWalletDb where
  "demo_wallet_with_draft =
     \<lparr>db_id = ''a1b2c3d4'', db_chain = TESTNET, db_changes = 0,
      db_file =
        \<lparr>VSTR = Some [(1, ''m=1;n=1'')], VINT = Some [(4, 3)],
         VTX = Some
           [(''tx_fund'',
             \<lparr>vtx_VALUE = ''raw:fund'', vtx_HEIGHT = 120, vtx_FEE = 0, vtx_MEMO = [],
              vtx_CHANGEPOS = - 1, vtx_BLOCKTIME = 1600000000, vtx_EXTRA = Some []\<rparr>),
            (''tx_spend'',
             \<lparr>vtx_VALUE = ''psbt:spend'', vtx_HEIGHT = - 1, vtx_FEE = 1000, vtx_MEMO = [],
              vtx_CHANGEPOS = 1, vtx_BLOCKTIME = 0, vtx_EXTRA = Some ''{}''\<rparr>)],
         ADDRESS = Some
           [(''tb1qreceive0'',
             \<lparr>addr_IDX = 0, addr_INTERNAL = 0, addr_USED = 1,
              addr_UTXO = Some ''utxo:fund''\<rparr>),
            (''tb1qchange0'',
             \<lparr>addr_IDX = 0, addr_INTERNAL = 1, addr_USED = 0, addr_UTXO = None\<rparr>)],
         SIGNER = Some []\<rparr>\<rparr>"

definition demo_wallet_with_broadcast :: NunchukWalletDb where
  "demo_wallet_with_broadcast =
     snd (UpdateTransaction demo_env ''raw:spend'' 0 0 [] demo_wallet_with_draft)"



text \<open>
  The local record of a transaction is confirmed when the facade's \<open>GetTransaction\<close>
  returns it with the status \<open>CONFIRMED\<close>.
\<close>

definition confirmed_locally :: "Collab \<Rightarrow> Chain \<Rightarrow> string \<Rightarrow> NunchukStorage \<Rightarrow> string \<Rightarrow> bool" where
  "confirmed_locally env chain wallet_id st tx_id =
     (case Storage_GetTransaction env chain wallet_id tx_id st of
        Inl e \<Rightarrow> False
      | Inr tx \<Rightarrow> tx_status tx = CONFIRMED)"

definition demo_storage :: NunchukStorage where
  "demo_storage =
     \<lparr>wallet_files = [(TESTNET, ''a1b2c3d4'') \<mapsto> db_file demo_wallet_with_broadcast],
      signer_files = Map.empty\<rparr>"

definition demo_client :: ElectrumClient where
  "demo_client =
     \<lparr>blockchain_transaction_get =
        (\<lambda>tx_id. if tx_id = ''tx_spend'' then (''raw:spend'', Some 1600000500)
                  else if tx_id = ''tx_fund'' then (''raw:fund'', Some 1600000000)
                  else if tx_id = ''tx_next'' then (''raw:next'', None)
                  else (''raw:'' @ tx_id, None)),
      blockchain_scripthash_get_history =
        (\<lambda>scripthash. if scripthash = ''sh:tb1qchange0''
                       then Some [\<lparr>h_tx_hash = ''tx_spend'', h_height = 150, h_fee = 0\<rparr>]
                       else if scripthash = ''sh:tb1qreceive5''
                       then Some [\<lparr>h_tx_hash = ''tx_fund'', h_height = 120, h_fee = 0\<rparr>]
                       else if scripthash = ''sh:tb1qreceive6''
                       then Some [\<lparr>h_tx_hash = ''tx_spend'', h_height = 150, h_fee = 0\<rparr>,
                                  \<lparr>h_tx_hash = ''tx_next'', h_height = 0, h_fee = 1000\<rparr>]
                       else Some []),
      blockchain_scripthash_listunspent =
        (\<lambda>scripthash. if scripthash = ''sh:tb1qreceive0'' then ''utxo:fund'' else ''[]'')\<rparr>"

definition demo_sync :: ElectrumSynchronizer where
  "demo_sync =
     \<lparr>sync_status = READY, sync_chain = TESTNET, sync_storage = demo_storage,
      scripthash_to_wallet_address = Map.empty, subscriptions = [], events = []\<rparr>"

text \<open>
  An address is in the ledger of a wallet store, or of a wallet of the storage, with a
  given index and change flag.
\<close>

definition ledger_entry :: "string \<Rightarrow> int \<Rightarrow> bool \<Rightarrow> NunchukWalletDb \<Rightarrow> bool" where
  "ledger_entry address index internal db =
     (case map_of (rows (ADDRESS (db_file db))) address of
        None \<Rightarrow> False
      | Some r \<Rightarrow> addr_IDX r = index \<and> addr_INTERNAL r = (if internal then 1 else 0))"

definition in_ledger :: "Chain \<Rightarrow> string \<Rightarrow> string \<Rightarrow> int \<Rightarrow> bool \<Rightarrow> NunchukStorage \<Rightarrow> bool" where
  "in_ledger chain wallet_id address index internal st =
     (case wallet_files st (chain, wallet_id) of
        None \<Rightarrow> False
      | Some f \<Rightarrow> ledger_entry address index internal (open_wallet_db chain wallet_id st))"

definition stored_utxo :: "Chain \<Rightarrow> string \<Rightarrow> string \<Rightarrow> NunchukStorage \<Rightarrow> string option" where
  "stored_utxo chain wallet_id address st =
     (case map_of (rows (ADDRESS (db_file (open_wallet_db chain wallet_id st)))) address of
        None \<Rightarrow> None
      | Some r \<Rightarrow> addr_UTXO r)"

definition demo_sync_connecting :: ElectrumSynchronizer where
  "demo_sync_connecting = demo_sync\<lparr>sync_status := CONNECTING\<rparr>"

text \<open>
  The key material of a signer, which a descriptor is built from, and the row that
  \<^verbatim>\<open>AddSigner\<close> writes for a signer.
\<close>

definition descriptor_key :: "SingleSigner \<Rightarrow> string \<times> string \<times> string \<times> string" where
  "descriptor_key s =
     (ss_xpub s, ss_public_key s, ss_derivation_path s, ss_master_fingerprint s)"

definition signer_row :: "SingleSigner \<Rightarrow> SignerKey \<times> SignerRow" where
  "signer_row s =
     (GetSingleSignerKey s,
      \<lparr>signer_NAME = ss_name s, signer_MASTER_ID = to_lower_copy (ss_master_signer_id s),
       signer_LAST_HEALTHCHECK = ss_last_health_check s\<rparr>)"

text \<open>
  A path is in use in the derived-key cache, or among the remote entries, of a signer
  store when the table has a row of that path whose \<^verbatim>\<open>USED\<close> is not \<open>-1\<close>. A signer of
  a wallet is marked in the storage when its record shows the effect of the loop of
  \<^verbatim>\<open>CreateWallet\<close>: for a master signer the canonical path of the signer's index is in
  use in the cache, for any other signer the signer's path is in use among the remote
  entries.
\<close>

definition used_bip32 :: "string \<Rightarrow> NunchukSignerDb \<Rightarrow> bool" where
  "used_bip32 p db =
     list_ex (\<lambda>(path, r). path = p \<and> bip32_USED r \<noteq> - 1) (rows (BIP32 (db_file db)))"

definition used_remote :: "string \<Rightarrow> NunchukSignerDb \<Rightarrow> bool" where
  "used_remote p db =
     list_ex (\<lambda>(path, r). path = p \<and> remote_USED r \<noteq> - 1) (rows (REMOTE (db_file db)))"

definition signer_marked ::
  "Collab \<Rightarrow> Chain \<Rightarrow> WalletType \<Rightarrow> AddressType \<Rightarrow> SingleSigner \<Rightarrow> NunchukStorage \<Rightarrow> bool" where
  "signer_marked env chain wallet_type address_type signer st =
     (let db = open_signer_db chain (ss_master_fingerprint signer) st
      in if IsMaster db \<and> has_master_signer env signer
         then used_bip32 (GetBip32Path env chain wallet_type address_type
                            (GetIndexFromPath env (ss_derivation_path signer))) db
         else used_remote (ss_derivation_path signer) db)"

definition signer_db_grows :: "NunchukSignerDb \<Rightarrow> NunchukSignerDb \<Rightarrow> bool" where
  "signer_db_grows db db' =
     (IsMaster db' = IsMaster db
      \<and> (\<forall>p. used_bip32 p db \<longrightarrow> used_bip32 p db')
      \<and> (\<forall>p. used_remote p db \<longrightarrow> used_remote p db'))"

text \<open>
  Three signers of a wallet on testnet: a key of the software signer \<open>0badcafe\<close> at its
  index 0, a key of the air-gapped signer \<open>f00dbabe\<close> that is among its remote entries
  and not in use, and a key of a signer \<open>deadbeef\<close> that the storage has no record of.
\<close>

definition demo_signers :: "SingleSigner list" where
  "demo_signers =
     [\<lparr>ss_name = ''phone'', ss_xpub = ''tpubKey0'', ss_public_key = [],
       ss_derivation_path = ''m/48h/1h/0h'', ss_master_fingerprint = ''0badcafe'',
       ss_last_health_check = 0, ss_master_signer_id = ''0badcafe'', ss_used = False\<rparr>,
      \<lparr>ss_name = ''airgap'', ss_xpub = ''tpubAirgap1'', ss_public_key = [],
       ss_derivation_path = ''m/48h/1h/1h'', ss_master_fingerprint = ''f00dbabe'',
       ss_last_health_check = 0, ss_master_signer_id = [], ss_used = False\<rparr>,
      \<lparr>ss_name = ''paper'', ss_xpub = ''tpubPaper0'', ss_public_key = [],
       ss_derivation_path = ''m/48h/1h/0h'', ss_master_fingerprint = ''deadbeef'',
       ss_last_health_check = 0, ss_master_signer_id = [], ss_used = False\<rparr>]"

text \<open>
  A storage with the signer files of \<open>f00dbabe\<close> and \<open>0badcafe\<close> and no wallet, and
  the same storage with a wallet file of the id of these signers' 2-of-3 wallet, as
  importing the wallet's file puts it there.
\<close>

definition demo_signer_storage :: NunchukStorage where
  "demo_signer_storage =
     \<lparr>wallet_files = Map.empty,
      signer_files = [(TESTNET, ''f00dbabe'') \<mapsto> db_file demo_remote_signer_db,
                      (TESTNET, ''0badcafe'') \<mapsto> db_file demo_master_signer_db]\<rparr>"

definition demo_imported_storage :: NunchukStorage where
  "demo_imported_storage =
     demo_signer_storage
       \<lparr>wallet_files :=
          [(TESTNET, WalletId demo_env demo_signers 2 NATIVE_SEGWIT MULTI_SIG)
             \<mapsto> empty_wallet_file]\<rparr>"


definition demo_used_storage :: NunchukStorage where
  "demo_used_storage =
     snd (CreateWallet demo_env 1600000000 TESTNET ''vault'' 2 3 demo_signers NATIVE_SEGWIT
            False ''savings'' demo_signer_storage)"

text \<open>
  The operations of a wallet store that write to it, as values, so that a theorem can
  speak of every sequence of them; \<open>apply_wallet_op\<close> runs one and keeps the store.
\<close>

datatype WalletOp =
    Op_AddAddress string int bool
  | Op_UseAddress string
  | Op_SetUtxos string string
  | Op_InsertTransaction string int int int string int
  | Op_UpdateTransaction string int int string

fun apply_wallet_op :: "Collab \<Rightarrow> WalletOp \<Rightarrow> NunchukWalletDb \<Rightarrow> NunchukWalletDb" where
  "apply_wallet_op env (Op_AddAddress address index internal) db =
     snd (AddAddress address index internal db)"
| "apply_wallet_op env (Op_UseAddress address) db = snd (UseAddress address db)"
| "apply_wallet_op env (Op_SetUtxos address utxo) db = snd (SetUtxos address utxo db)"
| "apply_wallet_op env (Op_InsertTransaction raw_tx height blocktime fee memo change_pos) db =
     snd (InsertTransaction env raw_tx height blocktime fee memo change_pos db)"
| "apply_wallet_op env (Op_UpdateTransaction raw_tx height blocktime reject_msg) db =
     snd (UpdateTransaction env raw_tx height blocktime reject_msg db)"

definition apply_wallet_ops :: "Collab \<Rightarrow> WalletOp list \<Rightarrow> NunchukWalletDb \<Rightarrow> NunchukWalletDb" where
  "apply_wallet_ops env ops db = foldl (\<lambda>d op. apply_wallet_op env op d) db ops"

text \<open>The \<^verbatim>\<open>USED\<close> flag of an address of the ledger (false for an address not in it).\<close>

definition address_used :: "string \<Rightarrow> NunchukWalletDb \<Rightarrow> bool" where
  "address_used address db =
     (case map_of (rows (ADDRESS (db_file db))) address of
        None \<Rightarrow> False
      | Some r \<Rightarrow> addr_USED r = 1)"

section \<open>Statements on tables: basic facts\<close>

lemma map_of_sql_update:
  "map_of (fst (sql_update (\<lambda>k' r'. k' = k) f t)) k' =
     (if k' = k then map_option f (map_of t k) else map_of t k')"
  by (induction t) (auto simp: sql_update_def)

lemma select_first_map_of:
  "(case sql_select (\<lambda>k' v. k' = k) t of [] \<Rightarrow> d | (k', v) # rest \<Rightarrow> g v) =
     (case map_of t k of None \<Rightarrow> d | Some v \<Rightarrow> g v)"
  by (induction t) (auto simp: sql_select_def)

lemma map_of_sql_upsert:
  "map_of (fst (sql_upsert k v (\<lambda>old. v) t)) k' = (if k' = k then Some v else map_of t k')"
  by (cases "map_of t k")
     (auto simp: sql_upsert_def map_of_sql_update map_add_def split: option.splits)

lemma snd_sql_upsert: "snd (sql_upsert k v f t) = 1"
  by (simp add: sql_upsert_def split: option.splits)

section \<open>PutString and PutInt\<close>

lemma PutString_result:
  assumes "VSTR (db_file db) = Some t"
  shows "fst (PutString key val db)"
    and "VSTR (db_file (snd (PutString key val db))) = Some (fst (sql_upsert key val (\<lambda>old. val) t))"
  using assms by (simp_all add: PutString_def run_dml_def snd_sql_upsert)

lemma PutInt_result:
  assumes "VINT (db_file db) = Some t"
  shows "fst (PutInt key val db)"
    and "VINT (db_file (snd (PutInt key val db))) = Some (fst (sql_upsert key val (\<lambda>old. val) t))"
  using assms by (simp_all add: PutInt_def run_dml_def snd_sql_upsert)

lemma GetString_map_of:
  "GetString key db =
     (case map_of (rows (VSTR (db_file db))) key of None \<Rightarrow> [] | Some v \<Rightarrow> c_string v)"
  unfolding GetString_def by (rule select_first_map_of [where g = c_string])

lemma c_string_without_NUL: "CHR 0x00 \<notin> set s \<Longrightarrow> c_string s = s"
  by (auto simp: c_string_def takeWhile_eq_all_conv)

lemma GetInt_map_of:
  "GetInt key db = (case map_of (rows (VINT (db_file db))) key of None \<Rightarrow> 0 | Some v \<Rightarrow> v)"
  unfolding GetInt_def by (rule select_first_map_of [where g = "\<lambda>v. v"])

text \<open>
  C7, counterexample. The store \<open>demo_db\<close> holds \<open>''vault''\<close> under key 2 and 3 under
  key 5. Writing the same values again returns \<open>True\<close> from both \<open>PutString\<close> and
  \<open>PutInt\<close>: the upsert updates the row that is there and SQLite counts it, so the
  result does not tell whether the stored value differed.
\<close>

theorem C7_identical_write_returns_true:
  "GetString 2 demo_db = ''vault'' \<and> fst (PutString 2 ''vault'' demo_db) = True
   \<and> GetInt 5 demo_db = 3 \<and> fst (PutInt 5 3 demo_db) = True"
  by (simp add: demo_db_def GetString_def GetInt_def PutString_def PutInt_def run_dml_def
        sql_upsert_def sql_update_def sql_select_def rows_def c_string_def)

text \<open>
  C7, as amended. On a store whose \<^verbatim>\<open>VSTR\<close> and \<^verbatim>\<open>VINT\<close> tables exist, \<open>PutString\<close>
  and \<open>PutInt\<close> insert or update: afterwards the key reads back as the value written (a
  string as the part of it before its first NUL byte, which is all of it when it has none)
  and every other key reads as before. Their result is \<open>True\<close> on every such write, for a
  new key, a changed value and an unchanged value alike.
\<close>

theorem C7_put_is_upsert_and_returns_true:
  assumes "VSTR (db_file db) = Some ts" and "VINT (db_file db) = Some ti"
  shows "fst (PutString skey sval db) = True
       \<and> GetString skey (snd (PutString skey sval db)) = takeWhile (\<lambda>c. c \<noteq> CHR 0x00) sval
       \<and> (CHR 0x00 \<notin> set sval \<longrightarrow> GetString skey (snd (PutString skey sval db)) = sval)
       \<and> (\<forall>k. k \<noteq> skey \<longrightarrow> GetString k (snd (PutString skey sval db)) = GetString k db)
       \<and> fst (PutInt ikey ival db) = True
       \<and> GetInt ikey (snd (PutInt ikey ival db)) = ival
       \<and> (\<forall>k. k \<noteq> ikey \<longrightarrow> GetInt k (snd (PutInt ikey ival db)) = GetInt k db)"
proof -
  have s: "GetString k (snd (PutString skey sval db))
             = (if k = skey then c_string sval else GetString k db)"
    for k
    using assms(1)
    by (simp add: GetString_map_of PutString_result(2) rows_def map_of_sql_upsert)
  have c: "c_string sval = takeWhile (\<lambda>c. c \<noteq> CHR 0x00) sval"
    by (simp add: c_string_def)
  have i: "GetInt k (snd (PutInt ikey ival db)) = (if k = ikey then ival else GetInt k db)"
    for k
    using assms(2)
    by (simp add: GetInt_map_of PutInt_result(2) rows_def map_of_sql_upsert)
  show ?thesis
    using PutString_result(1) [OF assms(1)] PutInt_result(1) [OF assms(2)] s i
    by (simp add: c [symmetric] c_string_without_NUL)
qed

theorem C7_put_is_upsert_witness:
  "fst (PutString 2 ''cold'' demo_db) = True
   \<and> GetString 2 (snd (PutString 2 ''cold'' demo_db)) = ''cold''
   \<and> fst (PutString 9 ''new'' demo_db) = True
   \<and> GetString 9 (snd (PutString 9 ''new'' demo_db)) = ''new''
   \<and> GetString 2 (snd (PutString 9 ''new'' demo_db)) = ''vault''
   \<and> GetString 2 (snd (PutString 2 [CHR ''c'', CHR 0x00, CHR ''d''] demo_db)) = ''c''
   \<and> fst (PutInt 5 4 demo_db) = True
   \<and> GetInt 5 (snd (PutInt 5 4 demo_db)) = 4"
proof -
  have a: "VSTR (db_file demo_db) = Some [(2, ''vault'')]"
    and b: "VINT (db_file demo_db) = Some [(5, 3)]"
    by (simp_all add: demo_db_def)
  have g: "GetString 2 demo_db = ''vault''"
    by (simp add: demo_db_def GetString_def sql_select_def rows_def c_string_def)
  show ?thesis
    using C7_put_is_upsert_and_returns_true
            [OF a b, where skey = 2 and sval = "''cold''" and ikey = 5 and ival = 4]
      C7_put_is_upsert_and_returns_true
            [OF a b, where skey = 9 and sval = "''new''" and ikey = 5 and ival = 4]
      C7_put_is_upsert_and_returns_true
            [OF a b, where skey = 2 and sval = "[CHR ''c'', CHR 0x00, CHR ''d'']"
              and ikey = 5 and ival = 4] g
    by simp
qed

section \<open>The address ledger\<close>

lemma count_key_distinct:
  "distinct (map fst t) \<Longrightarrow> map_of t k = Some r \<Longrightarrow> length (filter (\<lambda>(k', r'). k' = k) t) = 1"
proof (induction t)
  case Nil
  then show ?case by simp
next
  case (Cons x t)
  obtain k0 r0 where x: "x = (k0, r0)" by (cases x)
  show ?case
  proof (cases "k0 = k")
    case True
    with Cons.prems x have "k \<notin> fst ` set t" by auto
    then have "filter (\<lambda>(k', r'). k' = k) t = []"
      by (force simp: filter_empty_conv)
    with True x show ?thesis by simp
  next
    case False
    with Cons x show ?thesis by simp
  qed
qed

lemma map_fst_sql_update: "map fst (fst (sql_update P f t)) = map fst t"
  by (induction t) (auto simp: sql_update_def)

lemma count_sql_update_key:
  "length (filter (\<lambda>(k', r'). k' = k) (fst (sql_update (\<lambda>k' r'. k' = k) f t)))
     = length (filter (\<lambda>(k', r'). k' = k) t)"
  by (induction t) (auto simp: sql_update_def split: if_splits)

lemma sql_update_key_idem:
  "(\<And>r. f (f r) = f r) \<Longrightarrow>
   fst (sql_update (\<lambda>k' r'. k' = k) f (fst (sql_update (\<lambda>k' r'. k' = k) f t)))
     = fst (sql_update (\<lambda>k' r'. k' = k) f t)"
  by (induction t) (auto simp: sql_update_def)

lemma rows_UseAddress:
  "rows (ADDRESS (db_file (snd (UseAddress a db)))) =
     (if a = [] then rows (ADDRESS (db_file db))
      else fst (sql_update (\<lambda>k r. k = a) (\<lambda>r. r\<lparr>addr_USED := 1\<rparr>) (rows (ADDRESS (db_file db)))))"
  by (simp add: UseAddress_def run_dml_def rows_def sql_update_def split: option.splits)

lemma address_used_UseAddress:
  "address_used a db \<Longrightarrow> address_used a (snd (UseAddress b db))"
  by (auto simp: address_used_def rows_UseAddress map_of_sql_update split: option.splits)

lemma address_used_UseAddresses:
  "address_used a db \<Longrightarrow> address_used a (UseAddresses bs db)"
  unfolding UseAddresses_def
  by (induction bs arbitrary: db) (simp_all add: address_used_UseAddress)

lemma address_used_cong:
  "ADDRESS (db_file db') = ADDRESS (db_file db) \<Longrightarrow> address_used a db' = address_used a db"
  by (simp add: address_used_def)

lemma map_of_run_insert:
  "map_of (rows (fst (snd (run_insert k r tbl ch)))) k' =
     (case map_of (rows tbl) k' of
        Some old \<Rightarrow> Some old
      | None \<Rightarrow> if tbl \<noteq> None \<and> k' = k then Some r else None)"
  by (auto simp: run_insert_def rows_def map_add_def split: option.splits)

lemma AddAddress_table:
  "ADDRESS (db_file (snd (AddAddress b i c db)))
     = fst (snd (run_insert b
                   \<lparr>addr_IDX = i, addr_INTERNAL = (if c then 1 else 0), addr_USED = 0,
                    addr_UTXO = None\<rparr>
                   (ADDRESS (db_file db)) (db_changes db)))"
  by (simp add: AddAddress_def split: prod.splits)

lemma map_of_run_insert_kept:
  "map_of (rows tbl) a = Some x \<Longrightarrow> map_of (rows (fst (snd (run_insert k r tbl ch)))) a = Some x"
  by (simp add: map_of_run_insert)

lemma address_used_AddAddress:
  assumes "address_used a db"
  shows "address_used a (snd (AddAddress b i c db))"
proof -
  from assms obtain x where m: "map_of (rows (ADDRESS (db_file db))) a = Some x"
    and u: "addr_USED x = 1"
    by (auto simp: address_used_def split: option.splits)
  have "map_of (rows (ADDRESS (db_file (snd (AddAddress b i c db))))) a = Some x"
    unfolding AddAddress_table using m by (rule map_of_run_insert_kept)
  then show ?thesis
    by (simp add: address_used_def u)
qed

lemma address_used_SetUtxos:
  "address_used a db \<Longrightarrow> address_used a (snd (SetUtxos b u db))"
  by (auto simp: address_used_def SetUtxos_def run_dml_def rows_def map_of_sql_update
      split: option.splits)

lemma ADDRESS_SetReplacedBy:
  "ADDRESS (db_file (snd (SetReplacedBy env old new db))) = ADDRESS (db_file db)"
  by (simp add: SetReplacedBy_def split: list.splits option.splits prod.splits)

lemma InsertTransaction_ledger:
  "\<exists>db1 bs. ADDRESS (db_file db1) = ADDRESS (db_file db)
     \<and> db_id db1 = db_id db \<and> db_chain db1 = db_chain db
     \<and> (snd (InsertTransaction env raw h bt fee memo cp db) = db1
        \<or> snd (InsertTransaction env raw h bt fee memo cp db) = UseAddresses bs db1)"
proof -
  define ins where "ins = run_insert (DecodeRawTransaction env raw)
                \<lparr>vtx_VALUE = raw, vtx_HEIGHT = h, vtx_FEE = fee, vtx_MEMO = memo,
                 vtx_CHANGEPOS = cp, vtx_BLOCKTIME = bt, vtx_EXTRA = Some []\<rparr>
              (VTX (db_file db)) (db_changes db)"
  define db1 where "db1 = db\<lparr>db_changes := snd (snd ins),
                               db_file := (db_file db)\<lparr>VTX := fst (snd ins)\<rparr>\<rparr>"
  have "snd (InsertTransaction env raw h bt fee memo cp db) = db1
      \<or> (\<exists>bs. snd (InsertTransaction env raw h bt fee memo cp db) = UseAddresses bs db1)"
    by (auto simp: InsertTransaction_def Let_def db1_def ins_def
        split: sum.splits option.splits)
  moreover have "ADDRESS (db_file db1) = ADDRESS (db_file db)"
    and "db_id db1 = db_id db" and "db_chain db1 = db_chain db"
    by (simp_all add: db1_def)
  ultimately show ?thesis by blast
qed

lemma address_used_InsertTransaction:
  assumes "address_used a db"
  shows "address_used a (snd (InsertTransaction env raw h bt fee memo cp db))"
proof -
  obtain db1 bs where e: "ADDRESS (db_file db1) = ADDRESS (db_file db)"
    and r: "snd (InsertTransaction env raw h bt fee memo cp db) = db1
          \<or> snd (InsertTransaction env raw h bt fee memo cp db) = UseAddresses bs db1"
    using InsertTransaction_ledger by blast
  have "address_used a db1"
    using assms address_used_cong [OF e] by simp
  with r show ?thesis
    by (auto simp: address_used_UseAddresses)
qed

lemma ADDRESS_UpdateTransaction_extra:
  "ADDRESS (db_file (snd (UpdateTransaction_extra env tx_id h msg db))) = ADDRESS (db_file db)"
proof -
  have "ADDRESS (db_file (snd (case SetReplacedBy env old new db of
                                 (Some e, db1) \<Rightarrow> (Inl e, db1)
                               | (None, db1) \<Rightarrow> (Inr extra, db1))))
          = ADDRESS (db_file db)" for old new and extra :: string
    using ADDRESS_SetReplacedBy [of env old new db]
    by (cases "SetReplacedBy env old new db") (auto split: option.splits)
  then show ?thesis
    by (simp add: UpdateTransaction_extra_def Let_def split: list.splits option.splits)
qed

lemma ADDRESS_UpdateTransaction_row:
  "ADDRESS (db_file (UpdateTransaction_row tx_id raw h bt extra db)) = ADDRESS (db_file db)"
  by (simp add: UpdateTransaction_row_def split: prod.splits)

lemma UpdateTransaction_ledger:
  "\<exists>db2 bs. ADDRESS (db_file db2) = ADDRESS (db_file db)
     \<and> (snd (UpdateTransaction env raw h bt msg db) = db2
        \<or> snd (UpdateTransaction env raw h bt msg db) = UseAddresses bs db2)"
proof (cases "h = - 1")
  case True
  then show ?thesis by (auto simp: UpdateTransaction_def)
next
  case False
  obtain r db1 where x: "UpdateTransaction_extra env (DecodeRawTransaction env raw) h msg db
                           = (r, db1)"
    by (cases "UpdateTransaction_extra env (DecodeRawTransaction env raw) h msg db")
  have a1: "ADDRESS (db_file db1) = ADDRESS (db_file db)"
    using ADDRESS_UpdateTransaction_extra [of env "DecodeRawTransaction env raw" h msg db]
    by (simp add: x)
  show ?thesis
  proof (cases r)
    case (Inl e)
    with False x have "snd (UpdateTransaction env raw h bt msg db) = db1"
      by (simp add: UpdateTransaction_def Let_def)
    with a1 show ?thesis by blast
  next
    case (Inr extra)
    define db2 where "db2 =
      UpdateTransaction_row (DecodeRawTransaction env raw) raw h bt extra db1"
    have a2: "ADDRESS (db_file db2) = ADDRESS (db_file db)"
      by (simp add: db2_def ADDRESS_UpdateTransaction_row a1)
    have "snd (UpdateTransaction env raw h bt msg db) = db2
       \<or> (\<exists>bs. snd (UpdateTransaction env raw h bt msg db) = UseAddresses bs db2)"
      using False x Inr
      by (auto simp: UpdateTransaction_def Let_def db2_def split: sum.splits)
    with a2 show ?thesis by blast
  qed
qed

lemma address_used_UpdateTransaction:
  assumes "address_used a db"
  shows "address_used a (snd (UpdateTransaction env raw h bt msg db))"
proof -
  obtain db2 bs where a: "ADDRESS (db_file db2) = ADDRESS (db_file db)"
    and r: "snd (UpdateTransaction env raw h bt msg db) = db2
          \<or> snd (UpdateTransaction env raw h bt msg db) = UseAddresses bs db2"
    using UpdateTransaction_ledger by blast
  have "address_used a db2"
    using assms address_used_cong [OF a] by simp
  with r show ?thesis
    by (auto simp: address_used_UseAddresses)
qed

lemma address_used_apply_wallet_op:
  "address_used a db \<Longrightarrow> address_used a (apply_wallet_op env op db)"
  by (cases op)
     (simp_all add: address_used_AddAddress address_used_UseAddress address_used_SetUtxos
        address_used_InsertTransaction address_used_UpdateTransaction)

lemma address_used_apply_wallet_ops:
  "address_used a db \<Longrightarrow> address_used a (apply_wallet_ops env ops db)"
  unfolding apply_wallet_ops_def
  by (induction ops arbitrary: db) (simp_all add: address_used_apply_wallet_op)

text \<open>
  C4, counterexample. The address \<open>''tb1qreceive0''\<close> is in the ledger of \<open>demo_ledger\<close>,
  unused. The first \<open>UseAddress\<close> returns \<open>True\<close>, and so does the second: the
  \<^verbatim>\<open>UPDATE ADDRESS SET USED = 1 WHERE ADDR = ?\<close> selects the row whatever its flag is.
\<close>

theorem C4_second_UseAddress_returns_true:
  "fst (UseAddress ''tb1qreceive0'' demo_ledger) = True
   \<and> fst (UseAddress ''tb1qreceive0'' (snd (UseAddress ''tb1qreceive0'' demo_ledger))) = True"
  by (simp add: demo_ledger_def UseAddress_def run_dml_def sql_update_def)

text \<open>
  C4, as amended. For a non-empty address recorded in the ledger (\<^verbatim>\<open>ADDR\<close> being the
  table's primary key), \<open>UseAddress\<close> returns \<open>True\<close> on the first call and on a second
  call; the second call leaves the store as the first one left it; and after the first
  call the address stays used through every sequence of the store's writing operations
  (\<open>AddAddress\<close>, \<open>UseAddress\<close>, \<open>SetUtxos\<close>, \<open>InsertTransaction\<close>,
  \<open>UpdateTransaction\<close>).
\<close>

theorem C4_UseAddress_idempotent_on_store:
  assumes "ADDRESS (db_file db) = Some t" and "distinct (map fst t)"
    and "address \<noteq> []" and "map_of t address = Some r"
  shows "fst (UseAddress address db) = True
       \<and> fst (UseAddress address (snd (UseAddress address db))) = True
       \<and> snd (UseAddress address (snd (UseAddress address db))) = snd (UseAddress address db)
       \<and> address_used address (apply_wallet_ops env ops (snd (UseAddress address db)))"
proof -
  let ?f = "\<lambda>r. r\<lparr>addr_USED := 1\<rparr>"
  let ?t1 = "fst (sql_update (\<lambda>k r. k = address) ?f t)"
  have c: "length (filter (\<lambda>(k', r'). k' = address) t) = 1"
    using assms(2,4) by (rule count_key_distinct)
  have r1: "UseAddress address db =
      (True, db\<lparr>db_changes := 1, db_file := (db_file db)\<lparr>ADDRESS := Some ?t1\<rparr>\<rparr>)"
    using assms(1,3) c by (simp add: UseAddress_def run_dml_def sql_update_def)
  have c1: "length (filter (\<lambda>(k', r'). k' = address) ?t1) = 1"
    using c by (simp add: count_sql_update_key)
  have i: "fst (sql_update (\<lambda>k r. k = address) ?f ?t1) = ?t1"
    by (rule sql_update_key_idem) simp
  define db1 where
    "db1 = db\<lparr>db_changes := 1, db_file := (db_file db)\<lparr>ADDRESS := Some ?t1\<rparr>\<rparr>"
  have n1: "snd (sql_update (\<lambda>k r. k = address) ?f ?t1) = 1"
    using c1 by (simp add: sql_update_def)
  have "UseAddress address db1 = (True, db1)"
    using assms(3) n1 i by (simp add: UseAddress_def run_dml_def db1_def)
  then have r2: "UseAddress address (snd (UseAddress address db)) = (True, snd (UseAddress address db))"
    by (simp add: r1 db1_def)
  have u: "address_used address (snd (UseAddress address db))"
    using assms(4) by (simp add: r1 address_used_def rows_def map_of_sql_update)
  show ?thesis
    using r1 r2 address_used_apply_wallet_ops [OF u] by simp
qed

theorem C4_UseAddress_idempotent_witness:
  "fst (UseAddress ''tb1qreceive0'' demo_ledger) = True
   \<and> snd (UseAddress ''tb1qreceive0'' (snd (UseAddress ''tb1qreceive0'' demo_ledger)))
       = snd (UseAddress ''tb1qreceive0'' demo_ledger)
   \<and> address_used ''tb1qreceive0''
        (apply_wallet_ops demo_env
           [Op_AddAddress ''tb1qreceive0'' 7 False, Op_SetUtxos ''tb1qreceive0'' ''utxo:fund'',
            Op_InsertTransaction ''raw:fund'' 120 1600000000 0 [] (- 1)]
           (snd (UseAddress ''tb1qreceive0'' demo_ledger)))"
proof -
  have a: "ADDRESS (db_file demo_ledger) = Some
           [(''tb1qreceive0'',
             \<lparr>addr_IDX = 0, addr_INTERNAL = 0, addr_USED = 0, addr_UTXO = None\<rparr>),
            (''tb1qchange0'',
             \<lparr>addr_IDX = 0, addr_INTERNAL = 1, addr_USED = 0, addr_UTXO = None\<rparr>)]"
    by (simp add: demo_ledger_def)
  show ?thesis
    using C4_UseAddress_idempotent_on_store [OF a, of "''tb1qreceive0''" _ demo_env]
    by simp
qed

section \<open>Remote entries of a signer upgraded to a master\<close>









section \<open>The derived-key cache\<close>

declare dec.simps [simp del]

lemma undec_dec: "undec (dec n) = n"
proof (induction n rule: dec.induct)
  case (1 n)
  show ?case
  proof (cases "n < 10")
    case True
    then show ?thesis
      by (subst dec.simps) (simp add: undec_def)
  next
    case False
    with 1 have "undec (dec (n div 10)) = n div 10" by simp
    with False show ?thesis
      by (subst dec.simps) (simp add: undec_def)
  qed
qed

lemma demo_purpose_length: "length (demo_purpose w a) = 2"
  by (cases w; cases a) (simp_all add: demo_purpose_def)

lemma demo_index_of_path:
  "GetIndexFromPath demo_env (GetBip32Path demo_env c w a (int j)) = int j"
  by (simp add: demo_env_def demo_GetIndexFromPath_def demo_GetBip32Path_def
      demo_purpose_length butlast_append undec_dec)

lemma demo_type_path:
  "GetBip32Type demo_env w' a' = GetBip32Type demo_env w a
   \<Longrightarrow> GetBip32Path demo_env c w' a' i = GetBip32Path demo_env c w a i"
  by (simp add: demo_env_def demo_GetBip32Path_def)

lemma map_of_sql_update_gen:
  "map_of (fst (sql_update P f t)) k = map_option (\<lambda>r. if P k r then f r else r) (map_of t k)"
  by (induction t) (auto simp: sql_update_def)

lemma bucket_canonical_sql_update:
  "(\<And>r. bip32_TYPE (f r) = bip32_TYPE r) \<Longrightarrow> bucket_canonical env c w a t
   \<Longrightarrow> bucket_canonical env c w a (fst (sql_update P f t))"
  by (induction t) (auto simp: sql_update_def bucket_canonical_def split: if_splits)

lemma UseIndex_table:
  assumes "BIP32 (db_file db) = Some t"
  shows "UseIndex env w a i db =
     (snd (sql_update (\<lambda>k r. k = GetBip32Path env (db_chain db) w a i \<and> bip32_USED r = - 1)
             (\<lambda>r. r\<lparr>bip32_USED := 1\<rparr>) t) = 1,
      db\<lparr>db_changes :=
            snd (sql_update (\<lambda>k r. k = GetBip32Path env (db_chain db) w a i \<and> bip32_USED r = - 1)
                   (\<lambda>r. r\<lparr>bip32_USED := 1\<rparr>) t),
         db_file := (db_file db)\<lparr>BIP32 := Some
            (fst (sql_update (\<lambda>k r. k = GetBip32Path env (db_chain db) w a i \<and> bip32_USED r = - 1)
                    (\<lambda>r. r\<lparr>bip32_USED := 1\<rparr>) t))\<rparr>\<rparr>)"
  using assms by (simp add: UseIndex_def run_dml_def)

lemma AddXPub_table:
  assumes "BIP32 (db_file db) = Some t"
  shows "snd (AddXPub path xpub type db) =
      db\<lparr>db_changes := 1,
         db_file := (db_file db)\<lparr>BIP32 := Some
            (fst (sql_upsert path \<lparr>bip32_XPUB = xpub, bip32_TYPE = type, bip32_USED = - 1\<rparr>
                    (\<lambda>r. r\<lparr>bip32_XPUB := xpub\<rparr>) t))\<rparr>\<rparr>"
  using assms by (simp add: AddXPub_def run_dml_def snd_sql_upsert)

lemma cache_ok_UseIndex:
  assumes "cache_ok env c w a db"
  shows "cache_ok env c w a (snd (UseIndex env w' a' j db))"
proof -
  from assms obtain t where t: "BIP32 (db_file db) = Some t" and d: "distinct (map fst t)"
    and b: "bucket_canonical env c w a t" and c: "db_chain db = c"
    by (auto simp: cache_ok_def split: option.splits)
  show ?thesis
    using d b c
    by (simp add: UseIndex_table [OF t] cache_ok_def map_fst_sql_update
        bucket_canonical_sql_update)
qed

lemma allocated_UseIndex:
  assumes "cache_ok env c w a db" and "index_allocated env w a i db"
  shows "index_allocated env w a i (snd (UseIndex env w' a' j db))"
proof -
  from assms(1) obtain t where t: "BIP32 (db_file db) = Some t"
    by (auto simp: cache_ok_def split: option.splits)
  show ?thesis
    using assms(2)
    by (auto simp: UseIndex_table [OF t] index_allocated_def t rows_def map_of_sql_update_gen
        split: option.splits)
qed

lemma map_fst_sql_upsert:
  "map fst (fst (sql_upsert k r f t)) =
     (case map_of t k of None \<Rightarrow> map fst t @ [k] | Some old \<Rightarrow> map fst t)"
  by (simp add: sql_upsert_def map_fst_sql_update split: option.splits)

lemma map_of_sql_upsert_gen:
  "map_of (fst (sql_upsert k r f t)) k' =
     (case map_of t k of
        None \<Rightarrow> (case map_of t k' of Some old \<Rightarrow> Some old
                  | None \<Rightarrow> if k' = k then Some r else None)
      | Some old \<Rightarrow> if k' = k then Some (f old) else map_of t k')"
  by (auto simp: sql_upsert_def map_of_sql_update map_add_def split: option.splits)

lemma cache_ok_AddXPub_index:
  assumes h1: "\<And>w' a' j. GetIndexFromPath env (GetBip32Path env c w' a' (int j)) = int j"
    and h2: "\<And>w' a' j. GetBip32Type env w' a' = GetBip32Type env w a
               \<Longrightarrow> GetBip32Path env c w' a' (int j) = GetBip32Path env c w a (int j)"
    and ok: "cache_ok env c w a db"
  shows "cache_ok env c w a (snd (AddXPub_index env w' a' (int j) xpub db))"
proof -
  from ok obtain t where t: "BIP32 (db_file db) = Some t" and d: "distinct (map fst t)"
    and b: "bucket_canonical env c w a t" and c: "db_chain db = c"
    by (auto simp: cache_ok_def split: option.splits)
  let ?path = "GetBip32Path env c w' a' (int j)"
  let ?row = "\<lparr>bip32_XPUB = xpub, bip32_TYPE = GetBip32Type env w' a', bip32_USED = - 1\<rparr>"
  let ?t' = "fst (sql_upsert ?path ?row (\<lambda>r. r\<lparr>bip32_XPUB := xpub\<rparr>) t)"
  have d': "distinct (map fst ?t')"
  proof (cases "map_of t ?path")
    case None
    then have "?path \<notin> fst ` set t" by (simp add: map_of_eq_None_iff)
    with d None show ?thesis by (simp add: map_fst_sql_upsert)
  next
    case (Some old)
    with d show ?thesis by (simp add: map_fst_sql_upsert)
  qed
  have new: "bip32_TYPE ?row = GetBip32Type env w a
       \<longrightarrow> ?path = GetBip32Path env c w a (GetIndexFromPath env ?path)"
    using h1 [of w a j] h2 [of w' a' j] by auto
  have b': "bucket_canonical env c w a ?t'"
  proof (cases "map_of t ?path")
    case None
    with b new show ?thesis
      by (simp add: sql_upsert_def bucket_canonical_def)
  next
    case (Some old)
    with b show ?thesis
      by (simp add: sql_upsert_def bucket_canonical_sql_update)
  qed
  show ?thesis
    using d' b' c
    by (simp add: AddXPub_index_def AddXPub_table [OF t] cache_ok_def)
qed

lemma allocated_AddXPub_index:
  assumes "cache_ok env c w a db" and "index_allocated env w a i db"
  shows "index_allocated env w a i (snd (AddXPub_index env w' a' j xpub db))"
proof -
  from assms(1) obtain t where t: "BIP32 (db_file db) = Some t"
    by (auto simp: cache_ok_def split: option.splits)
  show ?thesis
    using assms(2)
    by (auto simp: AddXPub_index_def AddXPub_table [OF t] index_allocated_def t rows_def
        map_of_sql_upsert_gen split: option.splits)
qed

lemma cache_after_ops:
  assumes h1: "\<And>w' a' j. GetIndexFromPath env (GetBip32Path env c w' a' (int j)) = int j"
    and h2: "\<And>w' a' j. GetBip32Type env w' a' = GetBip32Type env w a
               \<Longrightarrow> GetBip32Path env c w' a' (int j) = GetBip32Path env c w a (int j)"
  shows "cache_ok env c w a db \<Longrightarrow> index_allocated env w a i db
     \<Longrightarrow> cache_ok env c w a (apply_signer_ops env ops db)
       \<and> index_allocated env w a i (apply_signer_ops env ops db)"
  unfolding apply_signer_ops_def
proof (induction ops arbitrary: db)
  case Nil
  then show ?case by simp
next
  case (Cons op ops)
  have "cache_ok env c w a (apply_signer_op env op db)
      \<and> index_allocated env w a i (apply_signer_op env op db)"
  proof (cases op)
    case (Op_AddXPub w' a' j xpub)
    then show ?thesis
      using Cons.prems cache_ok_AddXPub_index [OF h1 h2] allocated_AddXPub_index by simp
  next
    case (Op_UseIndex w' a' j)
    then show ?thesis
      using Cons.prems cache_ok_UseIndex allocated_UseIndex by simp
  qed
  then show ?case
    using Cons.IH by simp
qed

lemma unused_index_not_allocated:
  assumes ok: "cache_ok env c w a db" and al: "index_allocated env w a (int i) db"
  shows "GetUnusedIndex env w a db \<noteq> int i"
proof -
  from ok obtain t where t: "BIP32 (db_file db) = Some t" and d: "distinct (map fst t)"
    and b: "bucket_canonical env c w a t" and c: "db_chain db = c"
    by (auto simp: cache_ok_def split: option.splits)
  let ?sel = "sql_select (\<lambda>k r. bip32_TYPE r = GetBip32Type env w a \<and> bip32_USED r = - 1) t"
  show ?thesis
  proof (cases ?sel)
    case Nil
    then show ?thesis by (simp add: GetUnusedIndex_def t rows_def)
  next
    case (Cons x rest)
    obtain path r where x: "x = (path, r)" by (cases x)
    have "(path, r) \<in> set ?sel" using Cons x by simp
    then have mem: "(path, r) \<in> set t" and ty: "bip32_TYPE r = GetBip32Type env w a"
      and un: "bip32_USED r = - 1"
      by (auto simp: sql_select_def)
    from b mem ty have canon: "path = GetBip32Path env c w a (GetIndexFromPath env path)"
      by (auto simp: bucket_canonical_def list_all_iff)
    have m: "map_of t path = Some r"
      using d mem by simp
    have "GetIndexFromPath env path \<noteq> int i"
    proof
      assume "GetIndexFromPath env path = int i"
      with canon have "path = GetBip32Path env c w a (int i)" by simp
      with al m un c t show False
        by (simp add: index_allocated_def rows_def)
    qed
    with Cons x show ?thesis
      by (simp add: GetUnusedIndex_def t rows_def)
  qed
qed

lemma count_key_cond_distinct:
  "distinct (map fst t) \<Longrightarrow>
   length (filter (\<lambda>(k, r). k = p \<and> Q r) t) =
     (case map_of t p of None \<Rightarrow> 0 | Some r \<Rightarrow> if Q r then 1 else 0)"
proof (induction t)
  case Nil
  then show ?case by simp
next
  case (Cons x t)
  obtain k0 r0 where x: "x = (k0, r0)" by (cases x)
  show ?case
  proof (cases "k0 = p")
    case True
    with Cons.prems x have "p \<notin> fst ` set t" by auto
    then have "filter (\<lambda>(k, r). k = p \<and> Q r) t = []"
      by (force simp: filter_empty_conv)
    with True x show ?thesis by simp
  next
    case False
    with Cons x show ?thesis by simp
  qed
qed

lemma sql_update_no_match:
  "length (filter (\<lambda>(k, r). P k r) t) = 0 \<Longrightarrow> fst (sql_update P f t) = t"
  by (induction t) (auto simp: sql_update_def split: if_splits)

text \<open>
  C3, counterexample. Two stores on which the claim fails. The store of the air-gapped
  signer has no derived-key cache (no \<^verbatim>\<open>BIP32\<close> table), so index 0 has no entry; after
  \<open>UseRemote\<close> has changed one row on the connection, \<open>UseIndex\<close> for index 0
  returns \<open>True\<close>: its statement cannot be prepared and the change counter still holds
  the 1 of the statement before. In the store of the software signer, the three-argument
  \<open>AddXPub\<close> writes a row of type \<open>bip48\<close> whose path is the mainnet one of index 0;
  \<open>UseIndex\<close> then allocates the indices 0 and 1 of the bucket, and \<open>GetUnusedIndex\<close>
  of the bucket returns 0, read from the row that was added.
\<close>

theorem C3_UseIndex_outside_canonical_cache:
  "BIP32 (db_file (snd (UseRemote ''m/48h/1h/1h'' demo_remote_signer_db))) = None
   \<and> fst (UseIndex demo_env MULTI_SIG ANY 0
            (snd (UseRemote ''m/48h/1h/1h'' demo_remote_signer_db))) = True
   \<and> fst (UseIndex demo_env MULTI_SIG ANY 0
            (snd (AddXPub ''m/48h/0h/0h'' ''tpubOther'' ''bip48'' demo_master_signer_db))) = True
   \<and> fst (UseIndex demo_env MULTI_SIG ANY 1
            (snd (UseIndex demo_env MULTI_SIG ANY 0
                    (snd (AddXPub ''m/48h/0h/0h'' ''tpubOther'' ''bip48''
                            demo_master_signer_db))))) = True
   \<and> GetUnusedIndex demo_env MULTI_SIG ANY
        (snd (UseIndex demo_env MULTI_SIG ANY 1
                (snd (UseIndex demo_env MULTI_SIG ANY 0
                        (snd (AddXPub ''m/48h/0h/0h'' ''tpubOther'' ''bip48''
                                demo_master_signer_db)))))) = 0"
  by code_simp

text \<open>
  C3, as amended. Let the collaborators be such that \<open>GetIndexFromPath\<close> reads back the index of a
  canonical path and two buckets of the same type have the same canonical paths, and
  let the cache table exist, with \<^verbatim>\<open>PATH\<close> as its primary key and canonical rows for
  the bucket \<open>(w, a)\<close>. Then \<open>UseIndex\<close> returns \<open>True\<close> exactly when the entry of the
  index exists and is unallocated, and it leaves that entry allocated (\<^verbatim>\<open>USED = 1\<close>);
  when it returns \<open>False\<close> (the entry is allocated already, or there is none) the file is
  unchanged; and once \<open>UseIndex\<close> has returned \<open>True\<close> for index \<open>i\<close>, after every
  sequence of \<open>AddXPub\<close> and \<open>UseIndex\<close> calls on the store, \<open>GetUnusedIndex\<close> of
  the bucket is not \<open>i\<close>.
\<close>

theorem C3_UseIndex_allocates_monotonically:
  assumes h1: "\<And>w' a' j. GetIndexFromPath env (GetBip32Path env (db_chain db) w' a' (int j)) = int j"
    and h2: "\<And>w' a' j. GetBip32Type env w' a' = GetBip32Type env w a
               \<Longrightarrow> GetBip32Path env (db_chain db) w' a' (int j)
                     = GetBip32Path env (db_chain db) w a (int j)"
    and ok: "cache_ok env (db_chain db) w a db"
  shows "fst (UseIndex env w a (int i) db) =
           (case map_of (rows (BIP32 (db_file db))) (GetBip32Path env (db_chain db) w a (int i)) of
              None \<Rightarrow> False
            | Some r \<Rightarrow> bip32_USED r = - 1)
       \<and> (fst (UseIndex env w a (int i) db) \<longrightarrow>
            (case map_of (rows (BIP32 (db_file (snd (UseIndex env w a (int i) db)))))
                    (GetBip32Path env (db_chain db) w a (int i)) of
               None \<Rightarrow> False
             | Some r \<Rightarrow> bip32_USED r = 1))
       \<and> (\<not> fst (UseIndex env w a (int i) db) \<longrightarrow>
            db_file (snd (UseIndex env w a (int i) db)) = db_file db)
       \<and> (fst (UseIndex env w a (int i) db) \<longrightarrow>
            GetUnusedIndex env w a (apply_signer_ops env ops (snd (UseIndex env w a (int i) db)))
              \<noteq> int i)"
proof -
  from ok obtain t where t: "BIP32 (db_file db) = Some t" and d: "distinct (map fst t)"
    by (auto simp: cache_ok_def split: option.splits)
  let ?p = "GetBip32Path env (db_chain db) w a (int i)"
  let ?P = "\<lambda>k r. k = ?p \<and> bip32_USED r = - 1"
  let ?f = "\<lambda>r. r\<lparr>bip32_USED := 1\<rparr>"
  let ?db' = "snd (UseIndex env w a (int i) db)"
  have cnt: "snd (sql_update ?P ?f t) =
      (case map_of t ?p of None \<Rightarrow> 0 | Some r \<Rightarrow> if bip32_USED r = - 1 then 1 else 0)"
    using count_key_cond_distinct [OF d, of ?p "\<lambda>r. bip32_USED r = - 1"]
    by (simp add: sql_update_def)
  have r1: "fst (UseIndex env w a (int i) db) =
      (case map_of t ?p of None \<Rightarrow> False | Some r \<Rightarrow> bip32_USED r = - 1)"
    by (simp add: UseIndex_table [OF t] cnt split: option.splits)
  have tab: "BIP32 (db_file ?db') = Some (fst (sql_update ?P ?f t))"
    by (simp add: UseIndex_table [OF t])
  have r2: "case map_of (rows (BIP32 (db_file ?db'))) ?p of
              None \<Rightarrow> False | Some r \<Rightarrow> bip32_USED r = 1"
    if "fst (UseIndex env w a (int i) db)"
    using that r1
    by (auto simp: tab rows_def map_of_sql_update_gen split: option.splits)
  have r3: "db_file ?db' = db_file db" if "\<not> fst (UseIndex env w a (int i) db)"
  proof -
    from that r1 cnt have "snd (sql_update ?P ?f t) = 0"
      by (auto split: option.splits)
    then have "length (filter (\<lambda>(k, r). ?P k r) t) = 0"
      by (simp add: sql_update_def)
    then have "fst (sql_update ?P ?f t) = t"
      by (rule sql_update_no_match)
    then show ?thesis
      using t by (simp add: UseIndex_table [OF t])
  qed
  have r4: "GetUnusedIndex env w a (apply_signer_ops env ops ?db') \<noteq> int i"
    if "fst (UseIndex env w a (int i) db)"
  proof -
    have ok': "cache_ok env (db_chain db) w a ?db'"
      using ok by (rule cache_ok_UseIndex)
    have ch: "db_chain ?db' = db_chain db"
      by (simp add: UseIndex_table [OF t])
    have al: "index_allocated env w a (int i) ?db'"
      using r2 [OF that] by (auto simp: index_allocated_def ch split: option.splits)
    from cache_after_ops [of env "db_chain db" w a ?db' "int i" ops, OF h1 h2 ok' al]
    show ?thesis
      using unused_index_not_allocated by blast
  qed
  show ?thesis
    using r1 r2 r3 r4 by (simp add: t rows_def)
qed

theorem C3_UseIndex_witness:
  "fst (UseIndex demo_env MULTI_SIG ANY 0 demo_master_signer_db) = True
   \<and> fst (UseIndex demo_env MULTI_SIG ANY 0
           (snd (UseIndex demo_env MULTI_SIG ANY 0 demo_master_signer_db))) = False
   \<and> fst (UseIndex demo_env MULTI_SIG ANY 7 demo_master_signer_db) = False
   \<and> GetUnusedIndex demo_env MULTI_SIG ANY demo_master_signer_db = 0
   \<and> GetUnusedIndex demo_env MULTI_SIG ANY
        (snd (UseIndex demo_env MULTI_SIG ANY 0 demo_master_signer_db)) = 1
   \<and> GetUnusedIndex demo_env MULTI_SIG ANY
        (apply_signer_ops demo_env
           [Op_AddXPub MULTI_SIG ANY 2 ''tpubKey3'', Op_UseIndex MULTI_SIG ANY 1]
           (snd (UseIndex demo_env MULTI_SIG ANY 0 demo_master_signer_db))) \<noteq> 0"
proof -
  have ok: "cache_ok demo_env (db_chain demo_master_signer_db) MULTI_SIG ANY
              demo_master_signer_db"
    by code_simp
  have e1: "fst (UseIndex demo_env MULTI_SIG ANY 0 demo_master_signer_db) = True"
    by code_simp
  have e2: "fst (UseIndex demo_env MULTI_SIG ANY 0
           (snd (UseIndex demo_env MULTI_SIG ANY 0 demo_master_signer_db))) = False"
    by code_simp
  have e3: "fst (UseIndex demo_env MULTI_SIG ANY 7 demo_master_signer_db) = False"
    by code_simp
  have e4: "GetUnusedIndex demo_env MULTI_SIG ANY demo_master_signer_db = 0"
    by code_simp
  have e5: "GetUnusedIndex demo_env MULTI_SIG ANY
        (snd (UseIndex demo_env MULTI_SIG ANY 0 demo_master_signer_db)) = 1"
    by code_simp
  show ?thesis
    using C3_UseIndex_allocates_monotonically
            [of demo_env demo_master_signer_db MULTI_SIG ANY 0
               "[Op_AddXPub MULTI_SIG ANY 2 ''tpubKey3'', Op_UseIndex MULTI_SIG ANY 1]",
             OF demo_index_of_path demo_type_path ok]
      e1 e2 e3 e4 e5
    by simp
qed

section \<open>Unspent outputs and balance\<close>






















section \<open>History reconciliation\<close>

lemma UpdateTransactions_item_confirmed:
  assumes "confirmed_locally env chain wallet_id (sync_storage sync) (h_tx_hash item)"
  shows "UpdateTransactions_item env client chain wallet_id item sync = (None, sync)"
  using assms
  by (auto simp: confirmed_locally_def UpdateTransactions_item_def UpdateTransactions_try_def
      split: sum.splits)

lemma UpdateTransactions_loop_confirmed:
  "list_all (\<lambda>item. confirmed_locally env chain wallet_id (sync_storage sync) (h_tx_hash item)) items
   \<Longrightarrow> UpdateTransactions_loop env client chain wallet_id items sync = (None, sync)"
  by (induction items) (simp_all add: UpdateTransactions_item_confirmed)

text \<open>
  C6. If the local record of the transaction of a history item is confirmed, one pass of
  \<open>UpdateTransactions\<close> over the item returns without an exception and leaves the
  synchronizer as it was: the storage is the same and no call to the transaction listener
  is added. The same holds for a whole history of such items, whatever heights the
  backend reports.
\<close>

theorem C6_UpdateTransactions_noop_on_confirmed:
  "(confirmed_locally env chain wallet_id (sync_storage sync) (h_tx_hash item) \<longrightarrow>
      UpdateTransactions_item env client chain wallet_id item sync = (None, sync)
      \<and> UpdateTransactions env client chain wallet_id (Some [item]) sync = (None, sync))
   \<and> (list_all (\<lambda>item. confirmed_locally env chain wallet_id (sync_storage sync) (h_tx_hash item))
         items \<longrightarrow>
       UpdateTransactions env client chain wallet_id (Some items) sync = (None, sync))"
  by (simp add: UpdateTransactions_def UpdateTransactions_item_confirmed
      UpdateTransactions_loop_confirmed)

theorem C6_UpdateTransactions_witness:
  "\<not> confirmed_locally demo_env TESTNET ''a1b2c3d4'' (sync_storage demo_sync) ''tx_spend''
   \<and> fst (UpdateTransactions demo_env demo_client TESTNET ''a1b2c3d4''
           (Some [\<lparr>h_tx_hash = ''tx_spend'', h_height = 150, h_fee = 0\<rparr>]) demo_sync) = None
   \<and> events (snd (UpdateTransactions demo_env demo_client TESTNET ''a1b2c3d4''
           (Some [\<lparr>h_tx_hash = ''tx_spend'', h_height = 150, h_fee = 0\<rparr>]) demo_sync))
       = [transaction_listener ''tx_spend'' CONFIRMED ''a1b2c3d4'']
   \<and> confirmed_locally demo_env TESTNET ''a1b2c3d4''
        (sync_storage (snd (UpdateTransactions demo_env demo_client TESTNET ''a1b2c3d4''
           (Some [\<lparr>h_tx_hash = ''tx_spend'', h_height = 150, h_fee = 0\<rparr>]) demo_sync)))
        ''tx_spend''
   \<and> UpdateTransactions demo_env demo_client TESTNET ''a1b2c3d4''
        (Some [\<lparr>h_tx_hash = ''tx_spend'', h_height = 150, h_fee = 0\<rparr>])
        (snd (UpdateTransactions demo_env demo_client TESTNET ''a1b2c3d4''
           (Some [\<lparr>h_tx_hash = ''tx_spend'', h_height = 150, h_fee = 0\<rparr>]) demo_sync))
       = (None,
          snd (UpdateTransactions demo_env demo_client TESTNET ''a1b2c3d4''
           (Some [\<lparr>h_tx_hash = ''tx_spend'', h_height = 150, h_fee = 0\<rparr>]) demo_sync))"
proof -
  let ?item = "\<lparr>h_tx_hash = ''tx_spend'', h_height = 150, h_fee = 0\<rparr>"
  let ?s1 = "snd (UpdateTransactions demo_env demo_client TESTNET ''a1b2c3d4''
                    (Some [?item]) demo_sync)"
  have a: "\<not> confirmed_locally demo_env TESTNET ''a1b2c3d4'' (sync_storage demo_sync) ''tx_spend''"
    by code_simp
  have b: "fst (UpdateTransactions demo_env demo_client TESTNET ''a1b2c3d4''
                  (Some [?item]) demo_sync) = None"
    by code_simp
  have c: "events ?s1 = [transaction_listener ''tx_spend'' CONFIRMED ''a1b2c3d4'']"
    by code_simp
  have d: "confirmed_locally demo_env TESTNET ''a1b2c3d4'' (sync_storage ?s1) (h_tx_hash ?item)"
    by code_simp
  from C6_UpdateTransactions_noop_on_confirmed
         [of demo_env TESTNET "''a1b2c3d4''" ?s1 ?item demo_client "[]"] d
  have e: "UpdateTransactions demo_env demo_client TESTNET ''a1b2c3d4'' (Some [?item]) ?s1
             = (None, ?s1)"
    by simp
  from a b c d e show ?thesis by simp
qed

section \<open>Look-ahead\<close>

lemma ledger_entry_cong:
  "ADDRESS (db_file db') = ADDRESS (db_file db)
   \<Longrightarrow> ledger_entry a i n db' = ledger_entry a i n db"
  by (simp add: ledger_entry_def)

lemma ledger_entry_UseAddress:
  "ledger_entry a i n db \<Longrightarrow> ledger_entry a i n (snd (UseAddress b db))"
  by (auto simp: ledger_entry_def rows_UseAddress map_of_sql_update split: option.splits)

lemma ledger_entry_UseAddresses:
  "ledger_entry a i n db \<Longrightarrow> ledger_entry a i n (UseAddresses bs db)"
  unfolding UseAddresses_def
  by (induction bs arbitrary: db) (simp_all add: ledger_entry_UseAddress)

lemma UseAddress_ident:
  "db_id (snd (UseAddress b db)) = db_id db" "db_chain (snd (UseAddress b db)) = db_chain db"
  by (simp_all add: UseAddress_def split: prod.splits)

lemma UseAddresses_ident:
  "db_id (UseAddresses bs db) = db_id db \<and> db_chain (UseAddresses bs db) = db_chain db"
  unfolding UseAddresses_def
  by (induction bs arbitrary: db) (simp_all add: UseAddress_ident)

lemma SetReplacedBy_ident:
  "db_id (snd (SetReplacedBy env old new db)) = db_id db"
  "db_chain (snd (SetReplacedBy env old new db)) = db_chain db"
  by (simp_all add: SetReplacedBy_def split: list.splits option.splits prod.splits)

lemma UpdateTransaction_extra_ident:
  "db_id (snd (UpdateTransaction_extra env tx_id h msg db)) = db_id db"
  "db_chain (snd (UpdateTransaction_extra env tx_id h msg db)) = db_chain db"
proof -
  have "db_id (snd (case SetReplacedBy env old new db of
                      (Some e, db1) \<Rightarrow> (Inl e, db1)
                    | (None, db1) \<Rightarrow> (Inr extra, db1))) = db_id db
        \<and> db_chain (snd (case SetReplacedBy env old new db of
                      (Some e, db1) \<Rightarrow> (Inl e, db1)
                    | (None, db1) \<Rightarrow> (Inr extra, db1))) = db_chain db"
    for old new and extra :: string
    using SetReplacedBy_ident [of env old new db]
    by (cases "SetReplacedBy env old new db") (auto split: option.splits)
  then show "db_id (snd (UpdateTransaction_extra env tx_id h msg db)) = db_id db"
    and "db_chain (snd (UpdateTransaction_extra env tx_id h msg db)) = db_chain db"
    by (simp_all add: UpdateTransaction_extra_def Let_def split: list.splits option.splits)
qed

lemma UpdateTransaction_row_ident:
  "db_id (UpdateTransaction_row tx_id raw h bt extra db) = db_id db"
  "db_chain (UpdateTransaction_row tx_id raw h bt extra db) = db_chain db"
  by (simp_all add: UpdateTransaction_row_def split: prod.splits)

lemma UpdateTransaction_ident:
  "db_id (snd (UpdateTransaction env raw h bt msg db)) = db_id db
   \<and> db_chain (snd (UpdateTransaction env raw h bt msg db)) = db_chain db"
proof -
  obtain r db1 where x: "UpdateTransaction_extra env (DecodeRawTransaction env raw) h msg db
                           = (r, db1)"
    by (cases "UpdateTransaction_extra env (DecodeRawTransaction env raw) h msg db")
  have "db_id db1 = db_id db" and "db_chain db1 = db_chain db"
    using UpdateTransaction_extra_ident [of env "DecodeRawTransaction env raw" h msg db]
    by (simp_all add: x)
  then show ?thesis
    by (simp add: UpdateTransaction_def Let_def x UseAddresses_ident
        UpdateTransaction_row_ident split: sum.splits)
qed

lemma ledger_entry_UpdateTransaction:
  assumes "ledger_entry a i n db"
  shows "ledger_entry a i n (snd (UpdateTransaction env raw h bt msg db))"
proof -
  obtain db2 bs where e: "ADDRESS (db_file db2) = ADDRESS (db_file db)"
    and r: "snd (UpdateTransaction env raw h bt msg db) = db2
          \<or> snd (UpdateTransaction env raw h bt msg db) = UseAddresses bs db2"
    using UpdateTransaction_ledger by blast
  have "ledger_entry a i n db2"
    using assms ledger_entry_cong [OF e] by simp
  with r show ?thesis
    by (auto simp: ledger_entry_UseAddresses)
qed

lemma ledger_entry_InsertTransaction:
  assumes "ledger_entry a i n db"
  shows "ledger_entry a i n (snd (InsertTransaction env raw h bt fee memo cp db))"
proof -
  obtain db1 bs where e: "ADDRESS (db_file db1) = ADDRESS (db_file db)"
    and r: "snd (InsertTransaction env raw h bt fee memo cp db) = db1
          \<or> snd (InsertTransaction env raw h bt fee memo cp db) = UseAddresses bs db1"
    using InsertTransaction_ledger by blast
  have "ledger_entry a i n db1"
    using assms ledger_entry_cong [OF e] by simp
  with r show ?thesis
    by (auto simp: ledger_entry_UseAddresses)
qed

lemma InsertTransaction_ident:
  "db_id (snd (InsertTransaction env raw h bt fee memo cp db)) = db_id db
   \<and> db_chain (snd (InsertTransaction env raw h bt fee memo cp db)) = db_chain db"
proof -
  obtain db1 bs where "db_id db1 = db_id db" and "db_chain db1 = db_chain db"
    and "snd (InsertTransaction env raw h bt fee memo cp db) = db1
       \<or> snd (InsertTransaction env raw h bt fee memo cp db) = UseAddresses bs db1"
    using InsertTransaction_ledger by blast
  then show ?thesis
    by (auto simp: UseAddresses_ident)
qed

lemma in_ledger_close:
  "db_chain db = chain \<Longrightarrow> db_id db = wallet_id \<Longrightarrow> ledger_entry a i n db
   \<Longrightarrow> in_ledger chain wallet_id a i n (close_wallet_db db st)"
  by (simp add: in_ledger_def close_wallet_db_def open_wallet_db_def ledger_entry_def)

lemma in_ledger_open:
  "in_ledger chain wallet_id a i n st \<Longrightarrow>
   GetWalletDb chain wallet_id st = Inr (open_wallet_db chain wallet_id st)
   \<and> ledger_entry a i n (open_wallet_db chain wallet_id st)"
  by (auto simp: in_ledger_def GetWalletDb_def split: option.splits)

lemma open_wallet_db_ident:
  "db_id (open_wallet_db chain wallet_id st) = wallet_id"
  "db_chain (open_wallet_db chain wallet_id st) = chain"
  by (simp_all add: open_wallet_db_def)

lemma in_ledger_Storage_UpdateTransaction:
  assumes "in_ledger chain wallet_id a i n st"
  shows "in_ledger chain wallet_id a i n
           (snd (Storage_UpdateTransaction env chain wallet_id raw h bt msg st))"
proof -
  let ?db = "open_wallet_db chain wallet_id st"
  from in_ledger_open [OF assms]
  have g: "GetWalletDb chain wallet_id st = Inr ?db" and l: "ledger_entry a i n ?db"
    by simp_all
  have "snd (Storage_UpdateTransaction env chain wallet_id raw h bt msg st)
          = close_wallet_db (snd (UpdateTransaction env raw h bt msg ?db)) st"
    by (simp add: Storage_UpdateTransaction_def g split: prod.splits)
  then show ?thesis
    using in_ledger_close [of "snd (UpdateTransaction env raw h bt msg ?db)" chain wallet_id a i n st]
      ledger_entry_UpdateTransaction [OF l] UpdateTransaction_ident [of env raw h bt msg ?db]
    by (simp add: open_wallet_db_ident)
qed

lemma in_ledger_Storage_InsertTransaction:
  assumes "in_ledger chain wallet_id a i n st"
  shows "in_ledger chain wallet_id a i n
           (snd (Storage_InsertTransaction env chain wallet_id raw h bt fee memo cp st))"
proof -
  let ?db = "open_wallet_db chain wallet_id st"
  from in_ledger_open [OF assms]
  have g: "GetWalletDb chain wallet_id st = Inr ?db" and l: "ledger_entry a i n ?db"
    by simp_all
  have "snd (Storage_InsertTransaction env chain wallet_id raw h bt fee memo cp st)
          = close_wallet_db (snd (InsertTransaction env raw h bt fee memo cp ?db)) st"
    by (simp add: Storage_InsertTransaction_def g split: prod.splits)
  then show ?thesis
    using in_ledger_close
            [of "snd (InsertTransaction env raw h bt fee memo cp ?db)" chain wallet_id a i n st]
      ledger_entry_InsertTransaction [OF l]
      InsertTransaction_ident [of env raw h bt fee memo cp ?db]
    by (simp add: open_wallet_db_ident)
qed

lemma in_ledger_update_result:
  "Storage_UpdateTransaction env chain wallet_id raw h bt msg st = (r, st1)
   \<Longrightarrow> in_ledger chain wallet_id a i n st \<Longrightarrow> in_ledger chain wallet_id a i n st1"
  using in_ledger_Storage_UpdateTransaction [of chain wallet_id a i n st env raw h bt msg]
  by simp

lemma in_ledger_insert_result:
  "Storage_InsertTransaction env chain wallet_id raw h bt fee memo cp st = (r, st1)
   \<Longrightarrow> in_ledger chain wallet_id a i n st \<Longrightarrow> in_ledger chain wallet_id a i n st1"
  using in_ledger_Storage_InsertTransaction [of chain wallet_id a i n st env raw h bt fee memo cp]
  by simp

lemma in_ledger_UpdateTransactions_try:
  assumes "in_ledger chain wallet_id a i n (sync_storage sync)"
  shows "in_ledger chain wallet_id a i n
           (sync_storage (snd (UpdateTransactions_try env client chain wallet_id item sync)))"
  using assms
  by (auto simp: UpdateTransactions_try_def split: sum.splits prod.splits option.splits
      dest: in_ledger_update_result)

lemma in_ledger_UpdateTransactions_insert:
  assumes "in_ledger chain wallet_id a i n (sync_storage sync)"
  shows "in_ledger chain wallet_id a i n
           (sync_storage (snd (UpdateTransactions_insert env client chain wallet_id item sync)))"
  using assms
  by (auto simp: UpdateTransactions_insert_def Let_def split: sum.splits prod.splits
      dest: in_ledger_insert_result)

lemma in_ledger_UpdateTransactions_item:
  assumes "in_ledger chain wallet_id a i n (sync_storage sync)"
  shows "in_ledger chain wallet_id a i n
           (sync_storage (snd (UpdateTransactions_item env client chain wallet_id item sync)))"
proof -
  obtain r sync1 where t: "UpdateTransactions_try env client chain wallet_id item sync = (r, sync1)"
    by (cases "UpdateTransactions_try env client chain wallet_id item sync")
  have l1: "in_ledger chain wallet_id a i n (sync_storage sync1)"
    using in_ledger_UpdateTransactions_try [OF assms, of env client item] t by simp
  show ?thesis
    using l1 in_ledger_UpdateTransactions_insert [OF l1, of env client item]
    by (simp add: UpdateTransactions_item_def t split: option.splits)
qed

lemma in_ledger_UpdateTransactions_loop:
  "in_ledger chain wallet_id a i n (sync_storage sync)
   \<Longrightarrow> in_ledger chain wallet_id a i n
         (sync_storage (snd (UpdateTransactions_loop env client chain wallet_id items sync)))"
proof (induction items arbitrary: sync)
  case Nil
  then show ?case by simp
next
  case (Cons item items)
  obtain r sync1 where t: "UpdateTransactions_item env client chain wallet_id item sync = (r, sync1)"
    by (cases "UpdateTransactions_item env client chain wallet_id item sync")
  have l1: "in_ledger chain wallet_id a i n (sync_storage sync1)"
    using in_ledger_UpdateTransactions_item [OF Cons.prems, of env client item] t by simp
  show ?case
    using l1 Cons.IH [OF l1] by (simp add: t split: option.splits)
qed

lemma in_ledger_UpdateTransactions:
  "in_ledger chain wallet_id a i n (sync_storage sync)
   \<Longrightarrow> in_ledger chain wallet_id a i n
         (sync_storage (snd (UpdateTransactions env client chain wallet_id history sync)))"
  by (cases history) (simp_all add: UpdateTransactions_def in_ledger_UpdateTransactions_loop)

lemma Storage_AddAddress_new:
  assumes "wallet_files st (chain, wallet_id) = Some f" and "ADDRESS f = Some t"
    and "map_of t address = None"
  shows "fst (Storage_AddAddress chain wallet_id address index internal st) = Inr True"
    and "in_ledger chain wallet_id address index internal
           (snd (Storage_AddAddress chain wallet_id address index internal st))"
  using assms
  by (simp_all add: Storage_AddAddress_def GetWalletDb_def AddAddress_def open_wallet_db_def
      close_wallet_db_def run_insert_def in_ledger_def ledger_entry_def rows_def
      map_add_def)

lemma Storage_SetUtxos_in_ledger:
  assumes "in_ledger chain wallet_id address index internal st"
  shows "fst (Storage_SetUtxos chain wallet_id address utxo st) = Inr True
       \<or> fst (Storage_SetUtxos chain wallet_id address utxo st) = Inr False"
    and "in_ledger chain wallet_id address index internal
           (snd (Storage_SetUtxos chain wallet_id address utxo st))"
    and "stored_utxo chain wallet_id address
           (snd (Storage_SetUtxos chain wallet_id address utxo st)) = Some utxo"
  using assms
  by (auto simp: Storage_SetUtxos_def GetWalletDb_def SetUtxos_def open_wallet_db_def
      close_wallet_db_def run_dml_def in_ledger_def ledger_entry_def stored_utxo_def rows_def
      map_of_sql_update split: option.splits)

lemma Storage_GetTransaction_SetUtxos:
  "Storage_GetTransaction env chain wallet_id tx_id
     (snd (Storage_SetUtxos chain wallet_id address utxo st))
   = Storage_GetTransaction env chain wallet_id tx_id st"
proof (cases "wallet_files st (chain, wallet_id)")
  case None
  then show ?thesis
    by (simp add: Storage_SetUtxos_def GetWalletDb_def)
next
  case (Some f)
  let ?db = "open_wallet_db chain wallet_id st"
  let ?db1 = "snd (SetUtxos address utxo ?db)"
  have f1: "VTX (db_file ?db1) = VTX (db_file ?db)" "VSTR (db_file ?db1) = VSTR (db_file ?db)"
    "SIGNER (db_file ?db1) = SIGNER (db_file ?db)"
    and i: "db_chain ?db1 = chain" "db_id ?db1 = wallet_id"
    by (simp_all add: SetUtxos_def open_wallet_db_def split: prod.splits)
  have st1: "snd (Storage_SetUtxos chain wallet_id address utxo st) = close_wallet_db ?db1 st"
    using Some by (simp add: Storage_SetUtxos_def GetWalletDb_def split: prod.splits)
  have g: "GetTransaction env tx_id db' = GetTransaction env tx_id db"
    if "VTX (db_file db') = VTX (db_file db)" "VSTR (db_file db') = VSTR (db_file db)"
      "SIGNER (db_file db') = SIGNER (db_file db)" for db' db :: NunchukWalletDb
  proof -
    have "GetSigners db' = GetSigners db"
      and "GetString (DbKey env IMMUTABLE_DATA) db' = GetString (DbKey env IMMUTABLE_DATA) db"
      using that by (simp_all add: GetString_def GetSigners_def)
    then have "row_to_Transaction env db' tx_id row = row_to_Transaction env db tx_id row"
      for row
      by (simp add: row_to_Transaction_def split: option.splits)
    with that(1) show ?thesis
      by (simp add: GetTransaction_def split: list.splits prod.splits)
  qed
  have "GetTransaction env tx_id (open_wallet_db chain wallet_id (close_wallet_db ?db1 st))
          = GetTransaction env tx_id ?db"
    by (rule g) (simp_all add: open_wallet_db_def close_wallet_db_def i f1 [unfolded open_wallet_db_def])
  then show ?thesis
    using Some
    by (simp add: st1 Storage_GetTransaction_def GetWalletDb_def close_wallet_db_def i)
qed

text \<open>
  C8, counterexample. The synchronizer \<open>demo_sync_connecting\<close> is reconnecting. The
  address \<open>tb1qreceive5\<close> is not in the ledger of the wallet and the backend's history
  for it is not empty, yet \<open>LookAhead\<close> returns \<open>False\<close> and leaves the synchronizer,
  and with it the ledger, as it was: the status is neither \<open>READY\<close> nor \<open>SYNCING\<close>.
\<close>

theorem C8_LookAhead_not_ready_skips_used_address:
  "blockchain_scripthash_get_history demo_client (AddressToScriptHash demo_env ''tb1qreceive5'')
     = Some [\<lparr>h_tx_hash = ''tx_fund'', h_height = 120, h_fee = 0\<rparr>]
   \<and> \<not> in_ledger TESTNET ''a1b2c3d4'' ''tb1qreceive5'' 5 False (sync_storage demo_sync_connecting)
   \<and> LookAhead demo_env demo_client TESTNET ''a1b2c3d4'' ''tb1qreceive5'' 5 False
        demo_sync_connecting = (Inr False, demo_sync_connecting)"
proof -
  have a: "blockchain_scripthash_get_history demo_client
             (AddressToScriptHash demo_env ''tb1qreceive5'')
           = Some [\<lparr>h_tx_hash = ''tx_fund'', h_height = 120, h_fee = 0\<rparr>]"
    by (simp add: demo_client_def demo_env_def)
  have b: "\<not> in_ledger TESTNET ''a1b2c3d4'' ''tb1qreceive5'' 5 False
               (sync_storage demo_sync_connecting)"
    by code_simp
  have c: "LookAhead demo_env demo_client TESTNET ''a1b2c3d4'' ''tb1qreceive5'' 5 False
        demo_sync_connecting = (Inr False, demo_sync_connecting)"
    by (simp add: LookAhead_def demo_sync_connecting_def)
  from a b c show ?thesis by simp
qed

text \<open>
  C8, as amended. Let the candidate address be absent from the ledger of an existing
  wallet. When the synchronizer is neither \<open>READY\<close> nor \<open>SYNCING\<close>, or the chain is not
  the one of its settings, \<open>LookAhead\<close> returns \<open>False\<close> and changes nothing. Otherwise:
  if the history queried for the address is empty (or not an array), \<open>LookAhead\<close>
  returns \<open>False\<close> and the storage is unchanged; if the history is not empty, the address
  is in the ledger afterwards with the given index and change flag and \<open>LookAhead\<close> does
  not return \<open>False\<close>; and when it returns \<open>True\<close>, \<open>UpdateTransactions\<close> has run on the
  history, after the address was added, and ended without an exception; the synchronizer
  is the one \<open>UpdateTransactions\<close> left, with the UTXO snapshot the backend listed stored
  for the address; so the listener calls are those of \<open>UpdateTransactions\<close>, and every
  transaction of the wallet reads as \<open>UpdateTransactions\<close> left it.
\<close>

theorem C8_LookAhead_persists_iff_history_when_ready:
  assumes w: "wallet_files (sync_storage sync) (chain, wallet_id) = Some f"
    and t: "ADDRESS f = Some t"
    and new: "map_of t address = None"
  shows "((sync_status sync \<noteq> READY \<and> sync_status sync \<noteq> SYNCING) \<or> chain \<noteq> sync_chain sync
          \<longrightarrow> LookAhead env client chain wallet_id address index internal sync = (Inr False, sync))
    \<and> ((sync_status sync = READY \<or> sync_status sync = SYNCING) \<and> chain = sync_chain sync
          \<longrightarrow>
        ((blockchain_scripthash_get_history client (AddressToScriptHash env address) = None
          \<or> blockchain_scripthash_get_history client (AddressToScriptHash env address) = Some []
          \<longrightarrow>
            fst (LookAhead env client chain wallet_id address index internal sync) = Inr False
            \<and> sync_storage (snd (LookAhead env client chain wallet_id address index internal sync))
                = sync_storage sync)
         \<and> (blockchain_scripthash_get_history client (AddressToScriptHash env address) \<noteq> None
            \<and> blockchain_scripthash_get_history client (AddressToScriptHash env address) \<noteq> Some []
            \<longrightarrow>
              in_ledger chain wallet_id address index internal
                (sync_storage (snd (LookAhead env client chain wallet_id address index internal sync)))
              \<and> fst (LookAhead env client chain wallet_id address index internal sync) \<noteq> Inr False
              \<and> (fst (LookAhead env client chain wallet_id address index internal sync) = Inr True
                  \<longrightarrow>
                  stored_utxo chain wallet_id address
                    (sync_storage
                       (snd (LookAhead env client chain wallet_id address index internal sync)))
                    = Some (blockchain_scripthash_listunspent client
                              (AddressToScriptHash env address))
                  \<and> fst (UpdateTransactions env client chain wallet_id
                           (blockchain_scripthash_get_history client
                              (AddressToScriptHash env address))
                           ((snd (SubscribeAddress env wallet_id address sync))
                              \<lparr>sync_storage :=
                                 snd (Storage_AddAddress chain wallet_id address index internal
                                        (sync_storage sync))\<rparr>)) = None
                  \<and> events (snd (LookAhead env client chain wallet_id address index internal sync))
                      = events (snd (UpdateTransactions env client chain wallet_id
                           (blockchain_scripthash_get_history client
                              (AddressToScriptHash env address))
                           ((snd (SubscribeAddress env wallet_id address sync))
                              \<lparr>sync_storage :=
                                 snd (Storage_AddAddress chain wallet_id address index internal
                                        (sync_storage sync))\<rparr>)))
                  \<and> snd (LookAhead env client chain wallet_id address index internal sync)
                      = (snd (UpdateTransactions env client chain wallet_id
                           (blockchain_scripthash_get_history client
                              (AddressToScriptHash env address))
                           ((snd (SubscribeAddress env wallet_id address sync))
                              \<lparr>sync_storage :=
                                 snd (Storage_AddAddress chain wallet_id address index internal
                                        (sync_storage sync))\<rparr>)))
                          \<lparr>sync_storage :=
                             snd (Storage_SetUtxos chain wallet_id address
                                    (blockchain_scripthash_listunspent client
                                       (AddressToScriptHash env address))
                                    (sync_storage (snd (UpdateTransactions env client chain wallet_id
                           (blockchain_scripthash_get_history client
                              (AddressToScriptHash env address))
                           ((snd (SubscribeAddress env wallet_id address sync))
                              \<lparr>sync_storage :=
                                 snd (Storage_AddAddress chain wallet_id address index internal
                                        (sync_storage sync))\<rparr>)))))\<rparr>
                  \<and> (\<forall>tx_id.
                        Storage_GetTransaction env chain wallet_id tx_id
                          (sync_storage
                             (snd (LookAhead env client chain wallet_id address index internal
                                     sync)))
                        = Storage_GetTransaction env chain wallet_id tx_id
                            (sync_storage (snd (UpdateTransactions env client chain wallet_id
                           (blockchain_scripthash_get_history client
                              (AddressToScriptHash env address))
                           ((snd (SubscribeAddress env wallet_id address sync))
                              \<lparr>sync_storage :=
                                 snd (Storage_AddAddress chain wallet_id address index internal
                                        (sync_storage sync))\<rparr>)))))))))"
proof -
  let ?look = "LookAhead env client chain wallet_id address index internal sync"
  let ?sh = "AddressToScriptHash env address"
  let ?history = "blockchain_scripthash_get_history client ?sh"
  let ?sync1 = "sync\<lparr>scripthash_to_wallet_address :=
                       (scripthash_to_wallet_address sync)(?sh \<mapsto> (wallet_id, address)),
                     subscriptions := subscriptions sync @ [?sh]\<rparr>"
  let ?add = "Storage_AddAddress chain wallet_id address index internal (sync_storage sync)"
  let ?added = "?sync1\<lparr>sync_storage := snd ?add\<rparr>"
  let ?upd = "UpdateTransactions env client chain wallet_id ?history ?added"
  let ?set = "Storage_SetUtxos chain wallet_id address
                (blockchain_scripthash_listunspent client ?sh) (sync_storage (snd ?upd))"
  have sub: "SubscribeAddress env wallet_id address sync = (?sh, ?sync1)"
    and st1: "sync_storage ?sync1 = sync_storage sync"
    by (simp_all add: SubscribeAddress_def Let_def)
  have off: "?look = (Inr False, sync)"
    if "(sync_status sync \<noteq> READY \<and> sync_status sync \<noteq> SYNCING) \<or> chain \<noteq> sync_chain sync"
    using that by (auto simp: LookAhead_def)
  have empty: "fst ?look = Inr False \<and> sync_storage (snd ?look) = sync_storage sync"
    if "sync_status sync = READY \<or> sync_status sync = SYNCING" and "chain = sync_chain sync"
      and "?history = None \<or> ?history = Some []"
    using that st1 by (auto simp: LookAhead_def sub Let_def)
  have add: "?add = (Inr True, snd ?add)"
    using Storage_AddAddress_new(1) [OF w t new, of index internal]
    by (metis prod.collapse)
  have l1: "in_ledger chain wallet_id address index internal (sync_storage ?added)"
    using Storage_AddAddress_new(2) [OF w t new, of index internal] by simp
  have l2: "in_ledger chain wallet_id address index internal (sync_storage (snd ?upd))"
    using l1 by (rule in_ledger_UpdateTransactions)
  have full: "?look =
      (case ?upd of
         (Some e, sync2) \<Rightarrow> (Inl e, sync2)
       | (None, sync2) \<Rightarrow>
           (case Storage_SetUtxos chain wallet_id address
                   (blockchain_scripthash_listunspent client ?sh) (sync_storage sync2) of
              (Inl e, st3) \<Rightarrow> (Inl e, sync2\<lparr>sync_storage := st3\<rparr>)
            | (Inr stored, st3) \<Rightarrow> (Inr True, sync2\<lparr>sync_storage := st3\<rparr>)))"
    if "sync_status sync = READY \<or> sync_status sync = SYNCING" and "chain = sync_chain sync"
      and "?history \<noteq> None" and "?history \<noteq> Some []"
  proof -
    have "?look = LookAhead_persist env client chain wallet_id address index internal
                    ?sh ?history ?sync1"
      using that by (auto simp: LookAhead_def sub Let_def)
    also have "\<dots> =
       (case ?add of
          (Inl e, st1) \<Rightarrow> (Inl e, ?sync1\<lparr>sync_storage := st1\<rparr>)
        | (Inr added, st1) \<Rightarrow>
            (case UpdateTransactions env client chain wallet_id ?history
                    (?sync1\<lparr>sync_storage := st1\<rparr>) of
               (Some e, sync2) \<Rightarrow> (Inl e, sync2)
             | (None, sync2) \<Rightarrow>
                 (case Storage_SetUtxos chain wallet_id address
                         (blockchain_scripthash_listunspent client ?sh) (sync_storage sync2) of
                    (Inl e, st3) \<Rightarrow> (Inl e, sync2\<lparr>sync_storage := st3\<rparr>)
                  | (Inr stored, st3) \<Rightarrow> (Inr True, sync2\<lparr>sync_storage := st3\<rparr>))))"
      by (simp add: LookAhead_persist_def st1)
    also have "\<dots> =
      (case ?upd of
         (Some e, sync2) \<Rightarrow> (Inl e, sync2)
       | (None, sync2) \<Rightarrow>
           (case Storage_SetUtxos chain wallet_id address
                   (blockchain_scripthash_listunspent client ?sh) (sync_storage sync2) of
              (Inl e, st3) \<Rightarrow> (Inl e, sync2\<lparr>sync_storage := st3\<rparr>)
            | (Inr stored, st3) \<Rightarrow> (Inr True, sync2\<lparr>sync_storage := st3\<rparr>)))"
      by (subst add) simp
    finally show ?thesis .
  qed
  have nonempty:
    "in_ledger chain wallet_id address index internal (sync_storage (snd ?look))
     \<and> fst ?look \<noteq> Inr False
     \<and> (fst ?look = Inr True \<longrightarrow>
          stored_utxo chain wallet_id address (sync_storage (snd ?look))
            = Some (blockchain_scripthash_listunspent client ?sh)
          \<and> fst ?upd = None
          \<and> events (snd ?look) = events (snd ?upd)
          \<and> snd ?look = (snd ?upd)\<lparr>sync_storage := snd ?set\<rparr>
          \<and> (\<forall>tx_id. Storage_GetTransaction env chain wallet_id tx_id (sync_storage (snd ?look))
                      = Storage_GetTransaction env chain wallet_id tx_id
                          (sync_storage (snd ?upd))))"
    if r: "sync_status sync = READY \<or> sync_status sync = SYNCING" and c: "chain = sync_chain sync"
      and h1: "?history \<noteq> None" and h2: "?history \<noteq> Some []"
  proof (cases "fst ?upd")
    case (Some e)
    then have u: "?upd = (Some e, snd ?upd)" by (metis prod.collapse)
    have "?look = (Inl e, snd ?upd)"
      by (subst full [OF r c h1 h2], subst u) simp
    with l2 show ?thesis by simp
  next
    case None
    then have u: "?upd = (None, snd ?upd)" by (metis prod.collapse)
    from Storage_SetUtxos_in_ledger(1) [OF l2, of "blockchain_scripthash_listunspent client ?sh"]
    obtain stored where sv: "?set = (Inr stored, snd ?set)"
      by (metis prod.collapse)
    have lk: "?look = (Inr True, (snd ?upd)\<lparr>sync_storage := snd ?set\<rparr>)"
      by (subst full [OF r c h1 h2], subst u, simp, subst sv, simp)
    have g: "Storage_GetTransaction env chain wallet_id tx_id (sync_storage (snd ?look))
               = Storage_GetTransaction env chain wallet_id tx_id (sync_storage (snd ?upd))"
      for tx_id
      by (simp add: lk Storage_GetTransaction_SetUtxos)
    have p1: "in_ledger chain wallet_id address index internal (sync_storage (snd ?look))"
      using Storage_SetUtxos_in_ledger(2)
              [OF l2, of "blockchain_scripthash_listunspent client ?sh"]
      by (simp add: lk)
    have p2: "stored_utxo chain wallet_id address (sync_storage (snd ?look))
                = Some (blockchain_scripthash_listunspent client ?sh)"
      using Storage_SetUtxos_in_ledger(3)
              [OF l2, of "blockchain_scripthash_listunspent client ?sh"]
      by (simp add: lk)
    have p3: "fst ?look \<noteq> Inr False"
      by (simp add: lk)
    have p4: "events (snd ?look) = events (snd ?upd)"
      by (simp add: lk)
    have p5: "snd ?look = (snd ?upd)\<lparr>sync_storage := snd ?set\<rparr>"
      by (simp add: lk)
    show ?thesis
      by (intro conjI impI allI) (rule p1 p2 p3 p4 p5 None g)+
  qed
  have sn: "snd (SubscribeAddress env wallet_id address sync) = ?sync1"
    by (simp add: sub)
  show ?thesis
    unfolding sn
  proof (intro conjI impI allI)
    assume "(sync_status sync \<noteq> READY \<and> sync_status sync \<noteq> SYNCING) \<or> chain \<noteq> sync_chain sync"
    then show "?look = (Inr False, sync)" by (rule off)
  next
    assume a: "(sync_status sync = READY \<or> sync_status sync = SYNCING) \<and> chain = sync_chain sync"
      and e: "?history = None \<or> ?history = Some []"
    from a have r: "sync_status sync = READY \<or> sync_status sync = SYNCING"
      and c: "chain = sync_chain sync" by simp_all
    from empty [OF r c e] show "fst ?look = Inr False"
      and "sync_storage (snd ?look) = sync_storage sync" by simp_all
  next
    assume a: "(sync_status sync = READY \<or> sync_status sync = SYNCING) \<and> chain = sync_chain sync"
      and h: "?history \<noteq> None \<and> ?history \<noteq> Some []"
    from a have r: "sync_status sync = READY \<or> sync_status sync = SYNCING"
      and c: "chain = sync_chain sync" by simp_all
    from h have h1: "?history \<noteq> None" and h2: "?history \<noteq> Some []" by simp_all
    note n = nonempty [OF r c h1 h2]
    from n show "in_ledger chain wallet_id address index internal (sync_storage (snd ?look))"
      by simp
    from n show "fst ?look \<noteq> Inr False" by simp
    assume "fst ?look = Inr True"
    with n have m: "stored_utxo chain wallet_id address (sync_storage (snd ?look))
            = Some (blockchain_scripthash_listunspent client ?sh)
          \<and> fst ?upd = None
          \<and> events (snd ?look) = events (snd ?upd)
          \<and> snd ?look = (snd ?upd)\<lparr>sync_storage := snd ?set\<rparr>
          \<and> (\<forall>tx_id. Storage_GetTransaction env chain wallet_id tx_id (sync_storage (snd ?look))
                      = Storage_GetTransaction env chain wallet_id tx_id
                          (sync_storage (snd ?upd)))"
      by (rule mp [OF conjunct2 [OF conjunct2]])
    show "stored_utxo chain wallet_id address (sync_storage (snd ?look))
            = Some (blockchain_scripthash_listunspent client ?sh)"
      using m by (rule conjunct1)
    show "fst ?upd = None"
      using m by (rule conjunct1 [OF conjunct2])
    show "events (snd ?look) = events (snd ?upd)"
      using m by (rule conjunct1 [OF conjunct2 [OF conjunct2]])
    show "snd ?look = (snd ?upd)\<lparr>sync_storage := snd ?set\<rparr>"
      using m by (rule conjunct1 [OF conjunct2 [OF conjunct2 [OF conjunct2]]])
    fix tx_id
    show "Storage_GetTransaction env chain wallet_id tx_id (sync_storage (snd ?look))
            = Storage_GetTransaction env chain wallet_id tx_id (sync_storage (snd ?upd))"
      using m [THEN conjunct2, THEN conjunct2, THEN conjunct2, THEN conjunct2] by (rule spec)
  qed
qed

text \<open>
  The theorem on the synchronizer \<open>demo_sync\<close>, whose wallet holds the confirmed
  \<open>tx_fund\<close> and the broadcast \<open>tx_spend\<close>. The backend's history of \<open>tb1qreceive6\<close> is
  \<open>tx_spend\<close> at height 150 and \<open>tx_next\<close>, unconfirmed and unknown to the wallet.
  \<open>LookAhead\<close> returns \<open>True\<close>; afterwards the address is in the ledger with the snapshot
  the backend listed, \<open>tx_spend\<close> is confirmed at height 150, \<open>tx_next\<close> is in the
  store, pending confirmation, and the listener was called for both. The history of
  \<open>tb1qreceive9\<close> is empty: \<open>LookAhead\<close> returns \<open>False\<close> and the storage is unchanged.
\<close>

theorem C8_LookAhead_witness:
  "fst (LookAhead demo_env demo_client TESTNET ''a1b2c3d4'' ''tb1qreceive6'' 6 False demo_sync)
     = Inr True
   \<and> map_sum id tx_status
        (Storage_GetTransaction demo_env TESTNET ''a1b2c3d4'' ''tx_spend''
           (sync_storage demo_sync)) = Inr PENDING_CONFIRMATION
   \<and> Storage_GetTransaction demo_env TESTNET ''a1b2c3d4'' ''tx_next'' (sync_storage demo_sync)
       = Inl TX_NOT_FOUND
   \<and> in_ledger TESTNET ''a1b2c3d4'' ''tb1qreceive6'' 6 False
        (sync_storage
           (snd (LookAhead demo_env demo_client TESTNET ''a1b2c3d4'' ''tb1qreceive6'' 6 False
                   demo_sync)))
   \<and> stored_utxo TESTNET ''a1b2c3d4'' ''tb1qreceive6''
        (sync_storage
           (snd (LookAhead demo_env demo_client TESTNET ''a1b2c3d4'' ''tb1qreceive6'' 6 False
                   demo_sync))) = Some ''[]''
   \<and> map_sum id (\<lambda>tx. (tx_height tx, tx_status tx))
        (Storage_GetTransaction demo_env TESTNET ''a1b2c3d4'' ''tx_spend''
           (sync_storage
              (snd (LookAhead demo_env demo_client TESTNET ''a1b2c3d4'' ''tb1qreceive6'' 6 False
                      demo_sync)))) = Inr (150, CONFIRMED)
   \<and> map_sum id (\<lambda>tx. (tx_height tx, tx_status tx))
        (Storage_GetTransaction demo_env TESTNET ''a1b2c3d4'' ''tx_next''
           (sync_storage
              (snd (LookAhead demo_env demo_client TESTNET ''a1b2c3d4'' ''tb1qreceive6'' 6 False
                      demo_sync)))) = Inr (0, PENDING_CONFIRMATION)
   \<and> events (snd (LookAhead demo_env demo_client TESTNET ''a1b2c3d4'' ''tb1qreceive6'' 6 False
                     demo_sync))
       = [transaction_listener ''tx_spend'' CONFIRMED ''a1b2c3d4'',
          transaction_listener ''tx_next'' PENDING_CONFIRMATION ''a1b2c3d4'']
   \<and> fst (LookAhead demo_env demo_client TESTNET ''a1b2c3d4'' ''tb1qreceive9'' 9 False demo_sync)
       = Inr False
   \<and> sync_storage
        (snd (LookAhead demo_env demo_client TESTNET ''a1b2c3d4'' ''tb1qreceive9'' 9 False
                demo_sync)) = sync_storage demo_sync"
proof -
  let ?t = "[(''tb1qreceive0'',
              \<lparr>addr_IDX = 0, addr_INTERNAL = 0, addr_USED = 1, addr_UTXO = Some ''utxo:fund''\<rparr>),
             (''tb1qchange0'',
              \<lparr>addr_IDX = 0, addr_INTERNAL = 1, addr_USED = 0, addr_UTXO = None\<rparr>)]"
  let ?look = "LookAhead demo_env demo_client TESTNET ''a1b2c3d4'' ''tb1qreceive6'' 6 False
                 demo_sync"
  let ?upd = "UpdateTransactions demo_env demo_client TESTNET ''a1b2c3d4''
                (blockchain_scripthash_get_history demo_client
                   (AddressToScriptHash demo_env ''tb1qreceive6''))
                ((snd (SubscribeAddress demo_env ''a1b2c3d4'' ''tb1qreceive6'' demo_sync))
                   \<lparr>sync_storage :=
                      snd (Storage_AddAddress TESTNET ''a1b2c3d4'' ''tb1qreceive6'' 6 False
                             (sync_storage demo_sync))\<rparr>)"
  have w: "wallet_files (sync_storage demo_sync) (TESTNET, ''a1b2c3d4'')
             = Some (db_file demo_wallet_with_broadcast)"
    by (simp add: demo_sync_def demo_storage_def)
  have t: "ADDRESS (db_file demo_wallet_with_broadcast) = Some ?t"
    by code_simp
  have n6: "map_of ?t ''tb1qreceive6'' = None" and n9: "map_of ?t ''tb1qreceive9'' = None"
    by simp_all
  have rc: "(sync_status demo_sync = READY \<or> sync_status demo_sync = SYNCING)
            \<and> TESTNET = sync_chain demo_sync"
    by (simp add: demo_sync_def)
  have h6: "blockchain_scripthash_get_history demo_client
              (AddressToScriptHash demo_env ''tb1qreceive6'') \<noteq> None
            \<and> blockchain_scripthash_get_history demo_client
              (AddressToScriptHash demo_env ''tb1qreceive6'') \<noteq> Some []"
    and h9: "blockchain_scripthash_get_history demo_client
              (AddressToScriptHash demo_env ''tb1qreceive9'') = None
             \<or> blockchain_scripthash_get_history demo_client
              (AddressToScriptHash demo_env ''tb1qreceive9'') = Some []"
    and u6: "blockchain_scripthash_listunspent demo_client
              (AddressToScriptHash demo_env ''tb1qreceive6'') = ''[]''"
    by (simp_all add: demo_client_def demo_env_def)
  have e: "fst ?look = Inr True"
    by code_simp
  have b1: "map_sum id tx_status
        (Storage_GetTransaction demo_env TESTNET ''a1b2c3d4'' ''tx_spend''
           (sync_storage demo_sync)) = Inr PENDING_CONFIRMATION"
    by code_simp
  have b2: "Storage_GetTransaction demo_env TESTNET ''a1b2c3d4'' ''tx_next''
              (sync_storage demo_sync) = Inl TX_NOT_FOUND"
    by code_simp
  have g1: "map_sum id (\<lambda>tx. (tx_height tx, tx_status tx))
              (Storage_GetTransaction demo_env TESTNET ''a1b2c3d4'' ''tx_spend''
                 (sync_storage (snd ?upd))) = Inr (150, CONFIRMED)"
    by code_simp
  have g2: "map_sum id (\<lambda>tx. (tx_height tx, tx_status tx))
              (Storage_GetTransaction demo_env TESTNET ''a1b2c3d4'' ''tx_next''
                 (sync_storage (snd ?upd))) = Inr (0, PENDING_CONFIRMATION)"
    by code_simp
  have ev: "events (snd ?upd)
              = [transaction_listener ''tx_spend'' CONFIRMED ''a1b2c3d4'',
                 transaction_listener ''tx_next'' PENDING_CONFIRMATION ''a1b2c3d4'']"
    by code_simp
  note T6 = C8_LookAhead_persists_iff_history_when_ready
              [OF w t n6, of demo_env demo_client 6 False,
               THEN conjunct2, rule_format, OF rc, THEN conjunct2, rule_format, OF h6]
  note R6 = T6 [THEN conjunct2, THEN conjunct2, rule_format, OF e]
  have a1: "in_ledger TESTNET ''a1b2c3d4'' ''tb1qreceive6'' 6 False (sync_storage (snd ?look))"
    using T6 by (rule conjunct1)
  have a2: "stored_utxo TESTNET ''a1b2c3d4'' ''tb1qreceive6'' (sync_storage (snd ?look))
              = Some ''[]''"
    using R6 [THEN conjunct1] by (simp only: u6)
  have a3: "events (snd ?look) = events (snd ?upd)"
    using R6 by (rule conjunct1 [OF conjunct2 [OF conjunct2]])
  have a4: "Storage_GetTransaction demo_env TESTNET ''a1b2c3d4'' tx_id
              (sync_storage (snd ?look))
            = Storage_GetTransaction demo_env TESTNET ''a1b2c3d4'' tx_id
                (sync_storage (snd ?upd))" for tx_id
    using R6 [THEN conjunct2, THEN conjunct2, THEN conjunct2, THEN conjunct2] by (rule spec)
  note T9 = C8_LookAhead_persists_iff_history_when_ready
              [OF w t n9, of demo_env demo_client 9 False,
               THEN conjunct2, rule_format, OF rc, THEN conjunct1, rule_format, OF h9]
  show ?thesis
    using e b1 b2 a1 a2 g1 [folded a4] g2 [folded a4] ev [folded a3] T9
    by (intro conjI) simp_all
qed

section \<open>Wallet creation\<close>

lemma wallet_files_CreateWallet_signer:
  "wallet_files (snd (CreateWallet_signer env chain w a signer st)) = wallet_files st"
  by (simp add: CreateWallet_signer_def Let_def close_signer_db_def
      split: prod.splits sum.splits)

lemma wallet_files_CreateWallet_signers:
  "wallet_files (snd (CreateWallet_signers env chain w a signers st)) = wallet_files st"
proof (induction signers arbitrary: st)
  case Nil
  then show ?case by simp
next
  case (Cons signer signers)
  obtain r st1 where t: "CreateWallet_signer env chain w a signer st = (r, st1)"
    by (cases "CreateWallet_signer env chain w a signer st")
  have "wallet_files st1 = wallet_files st"
    using wallet_files_CreateWallet_signer [of env chain w a signer st] t by simp
  then show ?case
    using Cons.IH [of st1] by (simp add: t split: option.splits)
qed

lemma PutString_wallet_frame:
  "SIGNER (db_file (snd (PutString k v db))) = SIGNER (db_file (db :: NunchukWalletDb))"
  by (simp add: PutString_def split: prod.splits)

lemma PutInt_wallet_frame:
  "SIGNER (db_file (snd (PutInt k v db))) = SIGNER (db_file (db :: NunchukWalletDb))"
  by (simp add: PutInt_def split: prod.splits)

lemma CreateTable_wallet_frame:
  "SIGNER (db_file (CreateTable env db)) = SIGNER (db_file (db :: NunchukWalletDb))"
  by (simp add: CreateTable_def Let_def PutString_wallet_frame PutInt_wallet_frame)

lemma AddSigner_new:
  "SIGNER (db_file db) = Some t \<Longrightarrow> map_of t (GetSingleSignerKey signer) = None
   \<Longrightarrow> AddSigner signer db
       = (Inr True,
          db\<lparr>db_changes := 1,
             db_file := (db_file db)\<lparr>SIGNER := Some (t @ [signer_row signer])\<rparr>\<rparr>)"
  by (simp add: AddSigner_def run_insert_def signer_row_def)

lemma AddSigner_duplicate:
  "SIGNER (db_file db) = Some t \<Longrightarrow> map_of t (GetSingleSignerKey signer) = Some r
   \<Longrightarrow> fst (AddSigner signer db) = Inl SQL_ERROR"
  by (simp add: AddSigner_def run_insert_def)

lemma InitWallet_loop_result:
  "SIGNER (db_file db) = Some t \<Longrightarrow> distinct (map fst t)
   \<Longrightarrow> fst (InitWallet_loop signers db)
         = (if distinct (map fst t @ map GetSingleSignerKey signers) then None
            else Some SQL_ERROR)
       \<and> (distinct (map fst t @ map GetSingleSignerKey signers)
            \<longrightarrow> SIGNER (db_file (snd (InitWallet_loop signers db)))
                  = Some (t @ map signer_row signers))"
proof (induction signers arbitrary: db t)
  case Nil
  then show ?case by simp
next
  case (Cons signer signers)
  show ?case
  proof (cases "map_of t (GetSingleSignerKey signer)")
    case (Some r)
    then have "GetSingleSignerKey signer \<in> fst ` set t"
      by (meson domI domIff map_of_eq_None_iff)
    then have nd: "distinct (map fst t @ map GetSingleSignerKey (signer # signers)) = False"
      by auto
    have err: "fst (InitWallet_loop (signer # signers) db) = Some SQL_ERROR"
      using AddSigner_duplicate [OF Cons.prems(1) Some]
      by (cases "AddSigner signer db") simp
    show ?thesis
      unfolding nd err by simp
  next
    case None
    let ?db1 = "db\<lparr>db_changes := 1,
                   db_file := (db_file db)\<lparr>SIGNER := Some (t @ [signer_row signer])\<rparr>\<rparr>"
    have fresh: "GetSingleSignerKey signer \<notin> fst ` set t"
      using None by (simp add: map_of_eq_None_iff)
    have step: "InitWallet_loop (signer # signers) db = InitWallet_loop signers ?db1"
      by (simp add: AddSigner_new [OF Cons.prems(1) None])
    have t1: "SIGNER (db_file ?db1) = Some (t @ [signer_row signer])"
      by simp
    have d1: "distinct (map fst (t @ [signer_row signer]))"
      using Cons.prems(2) fresh by (simp add: signer_row_def)
    have e: "distinct (map fst (t @ [signer_row signer]) @ map GetSingleSignerKey signers)
               = distinct (map fst t @ map GetSingleSignerKey (signer # signers))"
      by (auto simp: signer_row_def)
    show ?thesis
      using Cons.IH [OF t1 d1] unfolding step e by simp
  qed
qed

lemma InitWallet_loop_ident:
  "db_id (snd (InitWallet_loop signers db)) = db_id db
   \<and> db_chain (snd (InitWallet_loop signers db)) = db_chain db"
proof (induction signers arbitrary: db)
  case Nil
  then show ?case by simp
next
  case (Cons signer signers)
  obtain r db1 where a: "AddSigner signer db = (r, db1)"
    by (cases "AddSigner signer db")
  then have i: "db_id db1 = db_id db" "db_chain db1 = db_chain db"
    by (auto simp: AddSigner_def split: prod.splits)
  show ?case
    using Cons.IH [of db1] i by (cases r) (simp_all add: a)
qed

lemma PutString_ident:
  "db_id (snd (PutString k v db)) = db_id db" "db_chain (snd (PutString k v db)) = db_chain db"
  by (simp_all add: PutString_def split: prod.splits)

lemma PutInt_ident:
  "db_id (snd (PutInt k v db)) = db_id db" "db_chain (snd (PutInt k v db)) = db_chain db"
  by (simp_all add: PutInt_def split: prod.splits)

lemma CreateTable_ident:
  "db_id (CreateTable env db) = db_id db" "db_chain (CreateTable env db) = db_chain db"
  by (simp_all add: CreateTable_def Let_def PutString_ident PutInt_ident)

lemma InitWallet_ident:
  "db_id (snd (InitWallet env name m n signers address_type is_escrow create_date description
                 db)) = db_id db"
  "db_chain (snd (InitWallet env name m n signers address_type is_escrow create_date
                    description db)) = db_chain db"
  by (simp_all add: InitWallet_def Let_def InitWallet_loop_ident PutString_ident
      CreateTable_ident)

lemma InitWallet_result:
  assumes "SIGNER (db_file db) = None"
  shows "fst (InitWallet env name m n signers address_type is_escrow create_date description db)
           = (if distinct (map GetSingleSignerKey signers) then None else Some SQL_ERROR)"
    and "distinct (map GetSingleSignerKey signers)
         \<Longrightarrow> SIGNER (db_file (snd (InitWallet env name m n signers address_type is_escrow
                                       create_date description db)))
               = Some (map signer_row signers)"
proof -
  let ?db1 = "CreateTable env db"
  let ?db2 = "?db1\<lparr>db_file := (db_file ?db1)
                  \<lparr>VTX := create_table_if_not_exists (VTX (db_file ?db1)),
                   ADDRESS := create_table_if_not_exists (ADDRESS (db_file ?db1)),
                   SIGNER := create_table_if_not_exists (SIGNER (db_file ?db1))\<rparr>\<rparr>"
  let ?db5 = "snd (PutString (DbKey env IMMUTABLE_DATA)
                     (ImmutableDataDump env m n address_type is_escrow create_date)
                     (snd (PutString (DbKey env DESCRIPTION) description
                             (snd (PutString (DbKey env NAME) name ?db2)))))"
  have t: "SIGNER (db_file ?db5) = Some []"
    using assms
    by (simp add: PutString_wallet_frame CreateTable_wallet_frame create_table_if_not_exists_def)
  have i: "InitWallet env name m n signers address_type is_escrow create_date description db
             = InitWallet_loop signers ?db5"
    by (simp add: InitWallet_def Let_def)
  from InitWallet_loop_result [OF t, of signers]
  show "fst (InitWallet env name m n signers address_type is_escrow create_date description db)
           = (if distinct (map GetSingleSignerKey signers) then None else Some SQL_ERROR)"
    and "distinct (map GetSingleSignerKey signers)
         \<Longrightarrow> SIGNER (db_file (snd (InitWallet env name m n signers address_type is_escrow
                                       create_date description db)))
               = Some (map signer_row signers)"
    unfolding i by simp_all
qed

lemma to_lower_char_idem: "to_lower_char (to_lower_char c) = to_lower_char c"
  by (auto simp: to_lower_char_def)

lemma to_lower_copy_idem: "to_lower_copy (to_lower_copy s) = to_lower_copy s"
  by (simp add: to_lower_copy_def to_lower_char_idem)

lemma GetSigners_signer_rows:
  assumes "SIGNER (db_file db) = Some (map signer_row signers)"
  shows "GetSigners db
         = map (\<lambda>s. \<lparr>ss_name = c_string (ss_name s), ss_xpub = ss_xpub s,
                      ss_public_key = ss_public_key s,
                      ss_derivation_path = ss_derivation_path s,
                      ss_master_fingerprint = to_lower_copy (ss_master_fingerprint s),
                      ss_last_health_check = ss_last_health_check s,
                      ss_master_signer_id = c_string (to_lower_copy (ss_master_signer_id s)),
                      ss_used = False\<rparr>) signers"
  by (simp add: GetSigners_def assms rows_def signer_row_def GetSingleSignerKey_def
      to_lower_copy_idem)

lemma GetSigners_cong:
  "SIGNER (db_file db) = SIGNER (db_file db') \<Longrightarrow> GetSigners db = GetSigners db'"
  by (simp add: GetSigners_def)

lemma reopen_wallet_db:
  "db_chain db = chain \<Longrightarrow> db_id db = ident
   \<Longrightarrow> db_file (open_wallet_db chain ident (close_wallet_db db st)) = db_file db"
  by (simp add: open_wallet_db_def close_wallet_db_def)

lemma create_wallet_file_outcome:
  "fst (create_wallet_file env chain name m n signers address_type is_escrow description
          create_date st)
     = (if wallet_files st (chain, WalletId env signers m address_type
                                     (wallet_type_of n is_escrow)) \<noteq> None
        then Inl WALLET_EXISTED
        else if distinct (map GetSingleSignerKey signers)
        then Inr \<lparr>w_id = WalletId env signers m address_type (wallet_type_of n is_escrow),
                  w_m = m, w_n = n, w_signers = signers, w_address_type = address_type,
                  w_is_escrow = is_escrow, w_create_date = create_date, w_name = name,
                  w_description = description, w_balance = 0\<rparr>
        else Inl SQL_ERROR)"
proof -
  let ?ident = "WalletId env signers m address_type (wallet_type_of n is_escrow)"
  let ?init = "InitWallet env name m n signers address_type is_escrow create_date description
                 (open_wallet_db chain ?ident st)"
  show ?thesis
  proof (cases "wallet_files st (chain, ?ident)")
    case (Some f)
    then show ?thesis
      by (simp add: create_wallet_file_def Let_def)
  next
    case None
    then have "SIGNER (db_file (open_wallet_db chain ?ident st)) = None"
      by (simp add: open_wallet_db_def empty_wallet_file_def)
    from InitWallet_result(1) [OF this, of env name m n signers address_type is_escrow
        create_date description]
    show ?thesis
      using None by (cases ?init) (simp add: create_wallet_file_def Let_def)
  qed
qed

lemma create_wallet_file_state:
  "wallet_files st (chain, WalletId env signers m address_type (wallet_type_of n is_escrow))
     = None
   \<Longrightarrow> snd (create_wallet_file env chain name m n signers address_type is_escrow description
             create_date st)
       = close_wallet_db
           (snd (InitWallet env name m n signers address_type is_escrow create_date description
                   (open_wallet_db chain
                      (WalletId env signers m address_type (wallet_type_of n is_escrow)) st)))
           st"
  by (simp add: create_wallet_file_def Let_def split: prod.splits option.splits)

lemma create_wallet_file_signers:
  assumes "wallet_files st (chain, WalletId env signers m address_type
                                     (wallet_type_of n is_escrow)) = None"
    and "distinct (map GetSingleSignerKey signers)"
  shows "GetSigners
           (open_wallet_db chain
              (WalletId env signers m address_type (wallet_type_of n is_escrow))
              (snd (create_wallet_file env chain name m n signers address_type is_escrow
                      description create_date st)))
         = map (\<lambda>s. \<lparr>ss_name = c_string (ss_name s), ss_xpub = ss_xpub s,
                      ss_public_key = ss_public_key s,
                      ss_derivation_path = ss_derivation_path s,
                      ss_master_fingerprint = to_lower_copy (ss_master_fingerprint s),
                      ss_last_health_check = ss_last_health_check s,
                      ss_master_signer_id = c_string (to_lower_copy (ss_master_signer_id s)),
                      ss_used = False\<rparr>) signers"
    and "wallet_files
           (snd (create_wallet_file env chain name m n signers address_type is_escrow
                   description create_date st))
           (chain, WalletId env signers m address_type (wallet_type_of n is_escrow)) \<noteq> None"
proof -
  let ?ident = "WalletId env signers m address_type (wallet_type_of n is_escrow)"
  let ?db = "snd (InitWallet env name m n signers address_type is_escrow create_date
                    description (open_wallet_db chain ?ident st))"
  have fresh: "SIGNER (db_file (open_wallet_db chain ?ident st)) = None"
    using assms(1) by (simp add: open_wallet_db_def empty_wallet_file_def)
  have tbl: "SIGNER (db_file ?db) = Some (map signer_row signers)"
    using fresh assms(2) by (rule InitWallet_result(2))
  have i: "db_id ?db = ?ident" "db_chain ?db = chain"
    by (simp_all add: InitWallet_ident open_wallet_db_def)
  have s: "snd (create_wallet_file env chain name m n signers address_type is_escrow
                  description create_date st) = close_wallet_db ?db st"
    using assms(1) by (rule create_wallet_file_state)
  have "SIGNER (db_file (open_wallet_db chain ?ident (close_wallet_db ?db st)))
          = SIGNER (db_file ?db)"
    using reopen_wallet_db [OF i(2) i(1), of st] by simp
  then have "GetSigners (open_wallet_db chain ?ident (close_wallet_db ?db st)) = GetSigners ?db"
    by (rule GetSigners_cong)
  then show "GetSigners
           (open_wallet_db chain ?ident
              (snd (create_wallet_file env chain name m n signers address_type is_escrow
                      description create_date st)))
         = map (\<lambda>s. \<lparr>ss_name = c_string (ss_name s), ss_xpub = ss_xpub s,
                      ss_public_key = ss_public_key s,
                      ss_derivation_path = ss_derivation_path s,
                      ss_master_fingerprint = to_lower_copy (ss_master_fingerprint s),
                      ss_last_health_check = ss_last_health_check s,
                      ss_master_signer_id = c_string (to_lower_copy (ss_master_signer_id s)),
                      ss_used = False\<rparr>) signers"
    unfolding s by (simp only: GetSigners_signer_rows [OF tbl])
  show "wallet_files
           (snd (create_wallet_file env chain name m n signers address_type is_escrow
                   description create_date st)) (chain, ?ident) \<noteq> None"
    unfolding s by (simp add: close_wallet_db_def i)
qed

lemma demo_descriptor_of_keys:
  assumes "map descriptor_key ss = map descriptor_key ss'"
  shows "demo_GetDescriptorForSigners ss m p a w = demo_GetDescriptorForSigners ss' m p a w"
proof -
  let ?f = "\<lambda>s. '',['' @ ss_master_fingerprint s
                   @ demo_FormalizePath (tl (ss_derivation_path s)) @ '']''
                   @ ss_xpub s @ ss_public_key s"
  let ?g = "\<lambda>(xpub, public_key, path, fingerprint).
              '',['' @ fingerprint @ demo_FormalizePath (tl path) @ '']'' @ xpub @ public_key"
  have e: "map ?f xs = map ?g (map descriptor_key xs)" for xs
    by (simp add: descriptor_key_def)
  have "map ?f ss = map ?g (map descriptor_key ss)"
    by (rule e)
  also have "\<dots> = map ?g (map descriptor_key ss')"
    by (simp only: assms)
  also have "\<dots> = map ?f ss'"
    by (rule e [symmetric])
  finally have m: "map ?f ss = map ?f ss'" .
  show ?thesis
    by (simp only: demo_GetDescriptorForSigners_def m)
qed

text \<open>
  C1, counterexample. \<^verbatim>\<open>CreateWallet\<close> creates the 2-of-3 wallet of \<open>demo_signers\<close> on
  \<open>demo_signer_storage\<close>, with the checksum \<open>6716aee5\<close> of its descriptor as id.
  Creating the same wallet again, on the storage the first call has left (in which the
  store of that id exists), does not fail with \<^verbatim>\<open>WALLET_EXISTED\<close>: the loop over the
  signers runs first, finds the index of the software signer allocated and throws
  \<^verbatim>\<open>SIGNER_USED\<close>.
\<close>

theorem C1_second_creation_fails_with_SIGNER_USED:
  "fst (CreateWallet demo_env 1600000000 TESTNET ''vault'' 2 3 demo_signers NATIVE_SEGWIT False
          ''savings'' demo_signer_storage)
     = Inr \<lparr>w_id = ''6716aee5'', w_m = 2, w_n = 3, w_signers = demo_signers,
            w_address_type = NATIVE_SEGWIT, w_is_escrow = False, w_create_date = 1600000000,
            w_name = ''vault'', w_description = ''savings'', w_balance = 0\<rparr>
   \<and> GetDescriptorChecksum demo_env
        (GetDescriptorForSigners demo_env demo_signers 2 EXTERNAL_ALL NATIVE_SEGWIT MULTI_SIG)
      = ''6716aee5''
   \<and> wallet_files demo_used_storage (TESTNET, ''6716aee5'') \<noteq> None
   \<and> fst (CreateWallet demo_env 1600000001 TESTNET ''vault'' 2 3 demo_signers NATIVE_SEGWIT
            False ''savings'' demo_used_storage) = Inl SIGNER_USED"
  by code_simp

text \<open>
  C1, as amended. \<^verbatim>\<open>CreateWallet\<close> computes the wallet id as the checksum of the
  external descriptor of \<open>(signers, m, address_type, wallet_type)\<close>, a function of these
  inputs alone. Its outcome is: the error of the loop over the signers if there is one
  (\<^verbatim>\<open>SIGNER_USED\<close>); else \<^verbatim>\<open>WALLET_EXISTED\<close> if a wallet store of that id exists; else
  \<^verbatim>\<open>SQL_ERROR\<close> if two signers have the same key (xpub, public key, derivation path,
  lower-cased master fingerprint); else the wallet of that id. So with a store of that id
  in place it never returns a wallet. When it returns a wallet, no store of the id existed
  before and one exists afterwards; \<^verbatim>\<open>GetSigners\<close> reads from it the signers given, in
  their order, with lower-cased master fingerprint and master signer id, name and master
  signer id cut at a NUL byte, and the \<open>used\<close> flag reset; and if the descriptor depends
  on the signers through their key material only and the master fingerprints given are
  lower-case, the checksum of the descriptor of these persisted signers is the wallet's id.
\<close>

theorem C1_wallet_id_is_descriptor_checksum:
  "fst (CreateWallet env create_date chain name m n signers address_type is_escrow
                description st)
     = (case fst (CreateWallet_signers env chain (wallet_type_of n is_escrow) address_type
                    signers st) of
          Some e \<Rightarrow> Inl e
        | None \<Rightarrow>
            if wallet_files st
                 (chain,
                  GetDescriptorChecksum env
                (GetDescriptorForSigners env signers m EXTERNAL_ALL address_type
                   (wallet_type_of n is_escrow))) \<noteq> None
            then Inl WALLET_EXISTED
            else if distinct (map GetSingleSignerKey signers)
            then Inr \<lparr>w_id = GetDescriptorChecksum env
                (GetDescriptorForSigners env signers m EXTERNAL_ALL address_type
                   (wallet_type_of n is_escrow)),
                      w_m = m, w_n = n, w_signers = signers, w_address_type = address_type,
                      w_is_escrow = is_escrow, w_create_date = create_date, w_name = name,
                      w_description = description, w_balance = 0\<rparr>
            else Inl SQL_ERROR)
   \<and> (\<forall>wallet.
         fst (CreateWallet env create_date chain name m n signers address_type is_escrow
                description st) = Inr wallet
         \<longrightarrow> w_id wallet
               = GetDescriptorChecksum env
                (GetDescriptorForSigners env signers m EXTERNAL_ALL address_type
                   (wallet_type_of n is_escrow))
             \<and> wallet_files st (chain, w_id wallet) = None
             \<and> wallet_files
                  (snd (CreateWallet env create_date chain name m n signers address_type is_escrow
                description st))
                  (chain, w_id wallet) \<noteq> None
             \<and> GetSigners
                  (open_wallet_db chain (w_id wallet)
                     (snd (CreateWallet env create_date chain name m n signers address_type is_escrow
                description st)))
                = map (\<lambda>s. \<lparr>ss_name = c_string (ss_name s), ss_xpub = ss_xpub s,
                              ss_public_key = ss_public_key s,
                              ss_derivation_path = ss_derivation_path s,
                              ss_master_fingerprint
                                = to_lower_copy (ss_master_fingerprint s),
                              ss_last_health_check = ss_last_health_check s,
                              ss_master_signer_id
                                = c_string (to_lower_copy (ss_master_signer_id s)),
                              ss_used = False\<rparr>) signers
             \<and> ((\<forall>ss ss'. map descriptor_key ss = map descriptor_key ss'
                     \<longrightarrow> GetDescriptorForSigners env ss m EXTERNAL_ALL address_type
                           (wallet_type_of n is_escrow)
                         = GetDescriptorForSigners env ss' m EXTERNAL_ALL address_type
                             (wallet_type_of n is_escrow))
                  \<and> (\<forall>s \<in> set signers.
                        to_lower_copy (ss_master_fingerprint s) = ss_master_fingerprint s)
                  \<longrightarrow> GetDescriptorChecksum env
                        (GetDescriptorForSigners env
                           (GetSigners
                              (open_wallet_db chain (w_id wallet)
                                 (snd (CreateWallet env create_date chain name m n signers address_type is_escrow
                description st))))
                           m EXTERNAL_ALL address_type (wallet_type_of n is_escrow))
                      = w_id wallet))"
proof -
  let ?wt = "wallet_type_of n is_escrow"
  let ?ident = "WalletId env signers m address_type ?wt"
  let ?create = "CreateWallet env create_date chain name m n signers address_type is_escrow
                description st"
  let ?stored = "map (\<lambda>s. \<lparr>ss_name = c_string (ss_name s), ss_xpub = ss_xpub s,
                              ss_public_key = ss_public_key s,
                              ss_derivation_path = ss_derivation_path s,
                              ss_master_fingerprint
                                = to_lower_copy (ss_master_fingerprint s),
                              ss_last_health_check = ss_last_health_check s,
                              ss_master_signer_id
                                = c_string (to_lower_copy (ss_master_signer_id s)),
                              ss_used = False\<rparr>) signers"
  have ident: "?ident = GetDescriptorChecksum env
                (GetDescriptorForSigners env signers m EXTERNAL_ALL address_type
                   (wallet_type_of n is_escrow))"
    by (simp add: WalletId_def)
  obtain r st1 where L: "CreateWallet_signers env chain ?wt address_type signers st = (r, st1)"
    by (cases "CreateWallet_signers env chain ?wt address_type signers st")
  have wf: "wallet_files st1 = wallet_files st"
    using wallet_files_CreateWallet_signers [of env chain ?wt address_type signers st] L
    by simp
  have outcome: "fst ?create
           = (case r of
                Some e \<Rightarrow> Inl e
              | None \<Rightarrow>
                  if wallet_files st (chain, ?ident) \<noteq> None then Inl WALLET_EXISTED
                  else if distinct (map GetSingleSignerKey signers)
                  then Inr \<lparr>w_id = ?ident, w_m = m, w_n = n, w_signers = signers,
                            w_address_type = address_type, w_is_escrow = is_escrow,
                            w_create_date = create_date, w_name = name,
                            w_description = description, w_balance = 0\<rparr>
                  else Inl SQL_ERROR)"
    by (cases r) (simp_all add: CreateWallet_def L create_wallet_file_outcome wf)
  have success: "w_id wallet = ?ident
           \<and> wallet_files st (chain, w_id wallet) = None
           \<and> wallet_files (snd ?create) (chain, w_id wallet) \<noteq> None
           \<and> GetSigners (open_wallet_db chain (w_id wallet) (snd ?create)) = ?stored
           \<and> ((\<forall>ss ss'. map descriptor_key ss = map descriptor_key ss'
                   \<longrightarrow> GetDescriptorForSigners env ss m EXTERNAL_ALL address_type ?wt
                       = GetDescriptorForSigners env ss' m EXTERNAL_ALL address_type ?wt)
                \<and> (\<forall>s \<in> set signers.
                      to_lower_copy (ss_master_fingerprint s) = ss_master_fingerprint s)
                \<longrightarrow> GetDescriptorChecksum env
                      (GetDescriptorForSigners env
                         (GetSigners (open_wallet_db chain (w_id wallet) (snd ?create)))
                         m EXTERNAL_ALL address_type ?wt)
                    = w_id wallet)"
    if ok: "fst ?create = Inr wallet" for wallet
  proof -
    from ok outcome have r: "r = None"
      by (cases r) simp_all
    have free: "wallet_files st (chain, ?ident) = None"
    proof (rule ccontr)
      assume "wallet_files st (chain, ?ident) \<noteq> None"
      with outcome r have "fst ?create = Inl WALLET_EXISTED"
        by simp
      with ok show False
        by simp
    qed
    have d: "distinct (map GetSingleSignerKey signers)"
    proof (rule ccontr)
      assume "\<not> distinct (map GetSingleSignerKey signers)"
      with outcome r free have "fst ?create = Inl SQL_ERROR"
        by simp
      with ok show False
        by simp
    qed
    from outcome r free d have "fst ?create
          = Inr \<lparr>w_id = ?ident, w_m = m, w_n = n, w_signers = signers,
                  w_address_type = address_type, w_is_escrow = is_escrow,
                  w_create_date = create_date, w_name = name,
                  w_description = description, w_balance = 0\<rparr>"
      by simp
    with ok have "wallet = \<lparr>w_id = ?ident, w_m = m, w_n = n, w_signers = signers,
                  w_address_type = address_type, w_is_escrow = is_escrow,
                  w_create_date = create_date, w_name = name,
                  w_description = description, w_balance = 0\<rparr>"
      by simp
    then have w: "w_id wallet = ?ident"
      by simp
    have free1: "wallet_files st1 (chain, ?ident) = None"
      using free wf by simp
    have s: "snd ?create
               = snd (create_wallet_file env chain name m n signers address_type is_escrow
                        description create_date st1)"
      by (simp add: CreateWallet_def L r)
    have exists: "wallet_files (snd ?create) (chain, ?ident) \<noteq> None"
      unfolding s using free1 d by (rule create_wallet_file_signers(2))
    have stored: "GetSigners (open_wallet_db chain ?ident (snd ?create)) = ?stored"
      unfolding s using free1 d by (rule create_wallet_file_signers(1))
    have again: "GetDescriptorChecksum env
                   (GetDescriptorForSigners env
                      (GetSigners (open_wallet_db chain ?ident (snd ?create)))
                      m EXTERNAL_ALL address_type ?wt) = ?ident"
      if D: "\<forall>ss ss'. map descriptor_key ss = map descriptor_key ss'
                   \<longrightarrow> GetDescriptorForSigners env ss m EXTERNAL_ALL address_type ?wt
                       = GetDescriptorForSigners env ss' m EXTERNAL_ALL address_type ?wt"
        and lower: "\<forall>s \<in> set signers.
                      to_lower_copy (ss_master_fingerprint s) = ss_master_fingerprint s"
    proof -
      have "map descriptor_key ?stored = map descriptor_key signers"
        using lower by (simp add: descriptor_key_def)
      with D have "GetDescriptorForSigners env ?stored m EXTERNAL_ALL address_type ?wt
                     = GetDescriptorForSigners env signers m EXTERNAL_ALL address_type ?wt"
        by blast
      then show ?thesis
        unfolding stored by (simp only: WalletId_def)
    qed
    show ?thesis
      unfolding w using free exists stored again by blast
  qed
  show ?thesis
    unfolding ident [symmetric]
  proof (rule conjI)
    show "fst ?create
           = (case fst (CreateWallet_signers env chain ?wt address_type signers st) of
                Some e \<Rightarrow> Inl e
              | None \<Rightarrow>
                  if wallet_files st (chain, ?ident) \<noteq> None then Inl WALLET_EXISTED
                  else if distinct (map GetSingleSignerKey signers)
                  then Inr \<lparr>w_id = ?ident, w_m = m, w_n = n, w_signers = signers,
                            w_address_type = address_type, w_is_escrow = is_escrow,
                            w_create_date = create_date, w_name = name,
                            w_description = description, w_balance = 0\<rparr>
                  else Inl SQL_ERROR)"
      unfolding outcome by (simp only: L fst_conv)
  next
    show "\<forall>wallet. fst ?create = Inr wallet
           \<longrightarrow> w_id wallet = ?ident
           \<and> wallet_files st (chain, w_id wallet) = None
           \<and> wallet_files (snd ?create) (chain, w_id wallet) \<noteq> None
           \<and> GetSigners (open_wallet_db chain (w_id wallet) (snd ?create)) = ?stored
           \<and> ((\<forall>ss ss'. map descriptor_key ss = map descriptor_key ss'
                   \<longrightarrow> GetDescriptorForSigners env ss m EXTERNAL_ALL address_type ?wt
                       = GetDescriptorForSigners env ss' m EXTERNAL_ALL address_type ?wt)
                \<and> (\<forall>s \<in> set signers.
                      to_lower_copy (ss_master_fingerprint s) = ss_master_fingerprint s)
                \<longrightarrow> GetDescriptorChecksum env
                      (GetDescriptorForSigners env
                         (GetSigners (open_wallet_db chain (w_id wallet) (snd ?create)))
                         m EXTERNAL_ALL address_type ?wt)
                    = w_id wallet)"
      using success by blast
  qed
qed

theorem C1_wallet_id_witness:
  "fst (CreateWallet demo_env 1600000000 TESTNET ''vault'' 2 3 demo_signers NATIVE_SEGWIT False
          ''savings'' demo_signer_storage)
     = Inr \<lparr>w_id = ''6716aee5'', w_m = 2, w_n = 3, w_signers = demo_signers,
            w_address_type = NATIVE_SEGWIT, w_is_escrow = False, w_create_date = 1600000000,
            w_name = ''vault'', w_description = ''savings'', w_balance = 0\<rparr>
   \<and> wallet_files demo_signer_storage (TESTNET, ''6716aee5'') = None
   \<and> wallet_files demo_used_storage (TESTNET, ''6716aee5'') \<noteq> None
   \<and> GetDescriptorChecksum demo_env
        (GetDescriptorForSigners demo_env
           (GetSigners (open_wallet_db TESTNET ''6716aee5'' demo_used_storage))
           2 EXTERNAL_ALL NATIVE_SEGWIT MULTI_SIG)
      = ''6716aee5''
   \<and> fst (CreateWallet demo_env 1600000000 TESTNET ''vault'' 2 3 demo_signers NATIVE_SEGWIT
            False ''savings'' demo_imported_storage) = Inl WALLET_EXISTED
   \<and> fst (CreateWallet demo_env 1600000000 TESTNET ''twice'' 2 2
            [demo_signers ! 1, demo_signers ! 1] NATIVE_SEGWIT False [] demo_signer_storage)
      = Inl SQL_ERROR"
proof -
  let ?w = "\<lparr>w_id = ''6716aee5'', w_m = 2, w_n = 3, w_signers = demo_signers,
            w_address_type = NATIVE_SEGWIT, w_is_escrow = False, w_create_date = 1600000000,
            w_name = ''vault'', w_description = ''savings'', w_balance = 0\<rparr>"
  let ?create = "CreateWallet demo_env 1600000000 TESTNET ''vault'' 2 3 demo_signers
                   NATIVE_SEGWIT False ''savings'' demo_signer_storage"
  have g: "GetDescriptorForSigners demo_env = demo_GetDescriptorForSigners"
    by (simp add: demo_env_def)
  have D: "\<forall>ss ss'. map descriptor_key ss = map descriptor_key ss'
             \<longrightarrow> GetDescriptorForSigners demo_env ss 2 EXTERNAL_ALL NATIVE_SEGWIT
                   (wallet_type_of 3 False)
                 = GetDescriptorForSigners demo_env ss' 2 EXTERNAL_ALL NATIVE_SEGWIT
                     (wallet_type_of 3 False)"
    unfolding g by (intro allI impI) (rule demo_descriptor_of_keys)
  have lower: "\<forall>s \<in> set demo_signers.
                 to_lower_copy (ss_master_fingerprint s) = ss_master_fingerprint s"
    by code_simp
  have wt: "wallet_type_of 3 False = MULTI_SIG"
    by code_simp
  have ok: "fst ?create = Inr ?w"
    by code_simp
  have wi: "w_id ?w = ''6716aee5''"
    by simp
  have used: "snd ?create = demo_used_storage"
    by (simp add: demo_used_storage_def)
  note t = C1_wallet_id_is_descriptor_checksum [where env = demo_env
      and create_date = 1600000000 and chain = TESTNET and name = "''vault''" and m = 2
      and n = 3 and signers = demo_signers and address_type = NATIVE_SEGWIT
      and is_escrow = False and description = "''savings''" and st = demo_signer_storage]
  note t2 = t [THEN conjunct2, rule_format, OF ok, unfolded wi used]
  from t2 have free: "wallet_files demo_signer_storage (TESTNET, ''6716aee5'') = None"
    by (elim conjE)
  from t2 have exists: "wallet_files demo_used_storage (TESTNET, ''6716aee5'') \<noteq> None"
    by (elim conjE)
  note t3 = t2 [THEN conjunct2, THEN conjunct2, THEN conjunct2, THEN conjunct2, rule_format,
      OF conjI [OF D lower], unfolded wt]
  have existed: "fst (CreateWallet demo_env 1600000000 TESTNET ''vault'' 2 3 demo_signers
                        NATIVE_SEGWIT False ''savings'' demo_imported_storage)
                   = Inl WALLET_EXISTED"
    by code_simp
  have l2: "fst (CreateWallet_signers demo_env TESTNET (wallet_type_of 2 False) NATIVE_SEGWIT
                   [demo_signers ! 1, demo_signers ! 1] demo_signer_storage) = None"
    by code_simp
  have f2: "wallet_files demo_signer_storage
              (TESTNET,
               GetDescriptorChecksum demo_env
                 (GetDescriptorForSigners demo_env [demo_signers ! 1, demo_signers ! 1] 2
                    EXTERNAL_ALL NATIVE_SEGWIT (wallet_type_of 2 False))) = None"
    by (simp add: demo_signer_storage_def)
  have d2: "distinct (map GetSingleSignerKey [demo_signers ! 1, demo_signers ! 1]) = False"
    by simp
  have twice: "fst (CreateWallet demo_env 1600000000 TESTNET ''twice'' 2 2
                      [demo_signers ! 1, demo_signers ! 1] NATIVE_SEGWIT False []
                      demo_signer_storage) = Inl SQL_ERROR"
    using C1_wallet_id_is_descriptor_checksum [where env = demo_env
      and create_date = 1600000000 and chain = TESTNET and name = "''twice''" and m = 2
      and n = 2 and signers = "[demo_signers ! 1, demo_signers ! 1]"
      and address_type = NATIVE_SEGWIT and is_escrow = False and description = "[]"
      and st = demo_signer_storage, THEN conjunct1]
    unfolding l2 f2 d2 by simp
  show ?thesis
    by (intro conjI) (rule ok free exists t3 existed twice)+
qed

section \<open>Signer records during wallet creation\<close>

lemma set_sql_update:
  "(k, r) \<in> set t \<Longrightarrow> (k, if P k r then f r else r) \<in> set (fst (sql_update P f t))"
  by (induction t) (auto simp: sql_update_def)

lemma list_ex_sql_update:
  assumes "list_ex (\<lambda>(k, r). k = p \<and> g r) t" and "\<And>r. g (f r)"
  shows "list_ex (\<lambda>(k, r). k = p \<and> g r) (fst (sql_update P f t))"
proof -
  from assms(1) obtain r where m: "(p, r) \<in> set t" "g r"
    by (auto simp: list_ex_iff)
  have a: "(p, if P p r then f r else r) \<in> set (fst (sql_update P f t))"
    using m(1) by (rule set_sql_update)
  have b: "g (if P p r then f r else r)"
    using m(2) assms(2) by simp
  show ?thesis
    unfolding list_ex_iff by (rule bexI [OF _ a]) (simp add: b)
qed

lemma sql_update_hit:
  assumes "snd (sql_update P f t) = 1"
  shows "\<exists>k r. (k, r) \<in> set t \<and> P k r"
proof -
  from assms have "filter (\<lambda>(k, r). P k r) t \<noteq> []"
    by (auto simp: sql_update_def)
  then show ?thesis
    by (auto simp: filter_empty_conv)
qed

lemma list_ex_run_insert:
  "list_ex Q (rows tbl) \<Longrightarrow> list_ex Q (rows (fst (snd (run_insert k r tbl ch))))"
  by (auto simp: run_insert_def rows_def split: option.splits)

lemma UseIndex_ident:
  "db_id (snd (UseIndex env w a i db)) = db_id db"
  "db_chain (snd (UseIndex env w a i db)) = db_chain db"
  by (simp_all add: UseIndex_def split: prod.splits)

lemma UseRemote_ident:
  "db_id (snd (UseRemote p db)) = db_id db" "db_chain (snd (UseRemote p db)) = db_chain db"
  by (simp_all add: UseRemote_def split: prod.splits)

lemma AddRemote_ident:
  "db_id (snd (AddRemote name xpub pk p u db)) = db_id db"
  "db_chain (snd (AddRemote name xpub pk p u db)) = db_chain db"
  by (simp_all add: AddRemote_def InitRemote_def Let_def split: prod.splits)

lemma signer_db_grows_refl: "signer_db_grows db db"
  by (simp add: signer_db_grows_def)

lemma UseIndex_grows: "signer_db_grows db (snd (UseIndex env w a i db))"
proof (cases "BIP32 (db_file db)")
  case None
  then show ?thesis
    by (simp add: signer_db_grows_def IsMaster_def TableExists_def used_bip32_def
        used_remote_def UseIndex_def run_dml_def)
next
  case (Some t)
  have "list_ex (\<lambda>(k, r). k = p \<and> bip32_USED r \<noteq> - 1) t
        \<Longrightarrow> list_ex (\<lambda>(k, r). k = p \<and> bip32_USED r \<noteq> - 1)
              (fst (sql_update (\<lambda>k r. k = GetBip32Path env (db_chain db) w a i
                                    \<and> bip32_USED r = - 1)
                      (\<lambda>r. r\<lparr>bip32_USED := 1\<rparr>) t))" for p
    by (rule list_ex_sql_update) simp_all
  then show ?thesis
    by (simp add: signer_db_grows_def IsMaster_def TableExists_def used_bip32_def
        used_remote_def UseIndex_table [OF Some] rows_def Some)
qed

lemma UseIndex_marks:
  assumes "fst (UseIndex env w a i db)" and "BIP32 (db_file db) \<noteq> None"
  shows "used_bip32 (GetBip32Path env (db_chain db) w a i) (snd (UseIndex env w a i db))"
proof -
  let ?p = "GetBip32Path env (db_chain db) w a i"
  let ?P = "\<lambda>k r. k = ?p \<and> bip32_USED r = - 1"
  let ?f = "\<lambda>r. r\<lparr>bip32_USED := 1\<rparr>"
  from assms(2) obtain t where t: "BIP32 (db_file db) = Some t"
    by auto
  from assms(1) have "snd (sql_update ?P ?f t) = 1"
    by (simp add: UseIndex_table [OF t])
  then obtain k r where m: "(k, r) \<in> set t" "?P k r"
    using sql_update_hit [of ?P ?f t] by blast
  from set_sql_update [OF m(1), of ?P ?f] m(2)
  have "(?p, r\<lparr>bip32_USED := 1\<rparr>) \<in> set (fst (sql_update ?P ?f t))"
    by simp
  then have "list_ex (\<lambda>(k, r). k = ?p \<and> bip32_USED r \<noteq> - 1) (fst (sql_update ?P ?f t))"
    unfolding list_ex_iff by force
  then show ?thesis
    by (simp add: used_bip32_def UseIndex_table [OF t] rows_def)
qed

lemma UseRemote_grows: "signer_db_grows db (snd (UseRemote q db))"
proof (cases "REMOTE (db_file db)")
  case None
  then show ?thesis
    by (simp add: signer_db_grows_def IsMaster_def TableExists_def used_bip32_def
        used_remote_def UseRemote_def run_dml_def)
next
  case (Some t)
  have "list_ex (\<lambda>(k, r). k = p \<and> remote_USED r \<noteq> - 1) t
        \<Longrightarrow> list_ex (\<lambda>(k, r). k = p \<and> remote_USED r \<noteq> - 1)
              (fst (sql_update (\<lambda>k r. k = q \<and> remote_USED r = - 1)
                      (\<lambda>r. r\<lparr>remote_USED := 1\<rparr>) t))" for p
    by (rule list_ex_sql_update) simp_all
  then show ?thesis
    by (simp add: signer_db_grows_def IsMaster_def TableExists_def used_bip32_def
        used_remote_def UseRemote_def run_dml_def Some rows_def)
qed

lemma UseRemote_marks:
  assumes "GetRemoteSigner q db = Inr found"
  shows "used_remote q (snd (UseRemote q db))"
proof -
  let ?P = "\<lambda>k r. k = q \<and> remote_USED r = - 1"
  let ?f = "\<lambda>r. r\<lparr>remote_USED := 1\<rparr>"
  from assms have ne: "sql_select (\<lambda>k r. k = q) (rows (REMOTE (db_file db))) \<noteq> []"
    by (auto simp: GetRemoteSigner_def split: list.splits)
  then obtain t where t: "REMOTE (db_file db) = Some t"
    by (cases "REMOTE (db_file db)") (simp_all add: sql_select_def rows_def)
  from ne t obtain r where m: "(q, r) \<in> set t"
    by (auto simp: sql_select_def rows_def filter_empty_conv)
  from set_sql_update [OF m, of ?P ?f]
  have "(q, if remote_USED r = - 1 then r\<lparr>remote_USED := 1\<rparr> else r)
          \<in> set (fst (sql_update ?P ?f t))"
    by simp
  then have "list_ex (\<lambda>(k, r). k = q \<and> remote_USED r \<noteq> - 1) (fst (sql_update ?P ?f t))"
    unfolding list_ex_iff by (cases "remote_USED r = - 1") force+
  then show ?thesis
    by (simp add: used_remote_def UseRemote_def run_dml_def t rows_def)
qed

lemma AddRemote_tables:
  "BIP32 (db_file (snd (AddRemote name xpub pk q u db))) = BIP32 (db_file db)"
  "REMOTE (db_file (snd (AddRemote name xpub pk q u db)))
     = fst (snd (run_insert q
                   \<lparr>remote_XPUB = xpub, remote_PUBKEY = pk, remote_NAME = name,
                    remote_LAST_HEALTHCHECK = 0, remote_USED = (if u then 1 else - 1)\<rparr>
                   (create_table_if_not_exists (REMOTE (db_file db))) (db_changes db)))"
  by (simp_all add: AddRemote_def InitRemote_def Let_def split: prod.splits)

lemma list_ex_create_table:
  "list_ex Q (rows tbl) \<Longrightarrow> list_ex Q (rows (create_table_if_not_exists tbl))"
  by (simp add: create_table_if_not_exists_def rows_def split: option.splits)

lemma AddRemote_grows: "signer_db_grows db (snd (AddRemote name xpub pk q u db))"
  unfolding signer_db_grows_def IsMaster_def used_bip32_def used_remote_def AddRemote_tables
  by (simp add: list_ex_run_insert list_ex_create_table)

lemma AddRemote_marks:
  assumes "GetRemoteSigner q db = Inl e"
  shows "used_remote q (snd (AddRemote name xpub pk q True db))"
    and "fst (AddRemote name xpub pk q True db) = Inr True"
proof -
  let ?t = "rows (REMOTE (db_file db))"
  from assms have "sql_select (\<lambda>k r. k = q) ?t = []"
    by (auto simp: GetRemoteSigner_def split: list.splits)
  then have "q \<notin> fst ` set ?t"
    by (auto simp: sql_select_def filter_empty_conv)
  then have n: "map_of ?t q = None"
    by (simp add: map_of_eq_None_iff)
  show "used_remote q (snd (AddRemote name xpub pk q True db))"
    using n
    by (cases "REMOTE (db_file db)")
      (simp_all add: used_remote_def AddRemote_def InitRemote_def Let_def run_insert_def
        rows_def create_table_if_not_exists_def)
  show "fst (AddRemote name xpub pk q True db) = Inr True"
    using n
    by (cases "REMOTE (db_file db)")
      (simp_all add: AddRemote_def InitRemote_def Let_def run_insert_def
        rows_def create_table_if_not_exists_def)
qed

lemma GetRemoteSigner_error:
  "GetRemoteSigner q db = Inl e \<Longrightarrow> e = SIGNER_NOT_FOUND"
  by (auto simp: GetRemoteSigner_def split: list.splits)

lemma reopen_signer_db:
  "db_chain db = chain
   \<Longrightarrow> db_file (open_signer_db chain ident (close_signer_db db st))
       = (if ident = db_id db then db_file db else db_file (open_signer_db chain ident st))"
  by (simp add: open_signer_db_def close_signer_db_def)

lemma signer_db_grows_cong:
  "db_file db1 = db_file db \<Longrightarrow> db_file db1' = db_file db'
   \<Longrightarrow> signer_db_grows db1 db1' = signer_db_grows db db'"
  by (simp add: signer_db_grows_def IsMaster_def used_bip32_def used_remote_def)

lemma CreateWallet_signer_step:
  "\<exists>db'. snd (CreateWallet_signer env chain w a s st) = close_signer_db db' st
     \<and> db_chain db' = chain \<and> db_id db' = ss_master_fingerprint s
     \<and> signer_db_grows (open_signer_db chain (ss_master_fingerprint s) st) db'
     \<and> (fst (CreateWallet_signer env chain w a s st) = None
          \<longrightarrow> (if IsMaster db' \<and> has_master_signer env s
               then used_bip32 (GetBip32Path env chain w a
                                  (GetIndexFromPath env (ss_derivation_path s))) db'
               else used_remote (ss_derivation_path s) db'))
     \<and> (fst (CreateWallet_signer env chain w a s st) = None
         \<or> fst (CreateWallet_signer env chain w a s st) = Some SIGNER_USED)"
proof -
  let ?db = "open_signer_db chain (ss_master_fingerprint s) st"
  let ?i = "GetIndexFromPath env (ss_derivation_path s)"
  have c: "db_chain ?db = chain" "db_id ?db = ss_master_fingerprint s"
    by (simp_all add: open_signer_db_def)
  show ?thesis
  proof (cases "IsMaster ?db \<and> has_master_signer env s")
    case True
    let ?db' = "snd (UseIndex env w a ?i ?db)"
    have g: "signer_db_grows ?db ?db'"
      by (rule UseIndex_grows)
    have s: "CreateWallet_signer env chain w a s st
               = (if \<not> fst (UseIndex env w a ?i ?db) then Some SIGNER_USED else None,
                  close_signer_db ?db' st)"
      using True by (simp add: CreateWallet_signer_def Let_def split: prod.splits)
    have m: "IsMaster ?db'"
      using g True by (simp add: signer_db_grows_def)
    have u: "used_bip32 (GetBip32Path env chain w a ?i) ?db'"
      if "fst (UseIndex env w a ?i ?db)"
      using UseIndex_marks [OF that] True c by (simp add: IsMaster_def TableExists_def)
    show ?thesis
      by (rule exI [of _ ?db']) (simp add: s UseIndex_ident c g m True u)
  next
    case False
    show ?thesis
    proof (cases "GetRemoteSigner (ss_derivation_path s) ?db")
      case (Inr found)
      let ?db' = "snd (UseRemote (ss_derivation_path s) ?db)"
      have g: "signer_db_grows ?db ?db'"
        by (rule UseRemote_grows)
      have s: "CreateWallet_signer env chain w a s st = (None, close_signer_db ?db' st)"
        using False Inr by (auto simp: CreateWallet_signer_def Let_def)
      have m: "(IsMaster ?db' \<and> has_master_signer env s) = False"
        using g False by (auto simp: signer_db_grows_def)
      have u: "used_remote (ss_derivation_path s) ?db'"
        using Inr by (rule UseRemote_marks)
      show ?thesis
        by (intro exI [of _ ?db']) (simp add: s UseRemote_ident c g u m)
    next
      case (Inl e)
      let ?db' = "snd (AddRemote (ss_name s) (ss_xpub s) (ss_public_key s)
                         (ss_derivation_path s) True ?db)"
      have e: "e = SIGNER_NOT_FOUND"
        using Inl by (rule GetRemoteSigner_error)
      have g: "signer_db_grows ?db ?db'"
        by (rule AddRemote_grows)
      have added: "fst (AddRemote (ss_name s) (ss_xpub s) (ss_public_key s)
                          (ss_derivation_path s) True ?db) = Inr True"
        using Inl by (rule AddRemote_marks(2))
      have s: "CreateWallet_signer env chain w a s st = (None, close_signer_db ?db' st)"
        using False Inl e added
        by (cases "AddRemote (ss_name s) (ss_xpub s) (ss_public_key s)
                     (ss_derivation_path s) True ?db")
           (auto simp: CreateWallet_signer_def Let_def)
      have m: "(IsMaster ?db' \<and> has_master_signer env s) = False"
        using g False by (auto simp: signer_db_grows_def)
      have u: "used_remote (ss_derivation_path s) ?db'"
        using Inl by (rule AddRemote_marks(1))
      show ?thesis
        by (intro exI [of _ ?db']) (simp add: s AddRemote_ident c g u m)
    qed
  qed
qed

lemma signer_marked_file:
  "db_file db = db_file (open_signer_db chain (ss_master_fingerprint s) st)
   \<Longrightarrow> signer_marked env chain w a s st
       = (if IsMaster db \<and> has_master_signer env s
          then used_bip32 (GetBip32Path env chain w a
                             (GetIndexFromPath env (ss_derivation_path s))) db
          else used_remote (ss_derivation_path s) db)"
  by (simp add: signer_marked_def Let_def IsMaster_def used_bip32_def used_remote_def)

lemma signer_marked_step:
  assumes "fst (CreateWallet_signer env chain w a s st) = None"
  shows "signer_marked env chain w a s (snd (CreateWallet_signer env chain w a s st))"
proof -
  from CreateWallet_signer_step [of env chain w a s st] assms
  obtain db' where d: "snd (CreateWallet_signer env chain w a s st) = close_signer_db db' st"
      "db_chain db' = chain" "db_id db' = ss_master_fingerprint s"
      "if IsMaster db' \<and> has_master_signer env s
       then used_bip32 (GetBip32Path env chain w a
                          (GetIndexFromPath env (ss_derivation_path s))) db'
       else used_remote (ss_derivation_path s) db'"
    by auto
  have "db_file db'
          = db_file (open_signer_db chain (ss_master_fingerprint s) (close_signer_db db' st))"
    using reopen_signer_db [OF d(2), of "ss_master_fingerprint s" st] d(3) by simp
  from signer_marked_file [OF this, of env w a] d(4) show ?thesis
    by (simp add: d(1))
qed

lemma signer_marked_kept:
  assumes "signer_marked env chain w a s st"
  shows "signer_marked env chain w a s (snd (CreateWallet_signer env chain w a s' st))"
proof -
  from CreateWallet_signer_step [of env chain w a s' st]
  obtain db' where d: "snd (CreateWallet_signer env chain w a s' st) = close_signer_db db' st"
      "db_chain db' = chain" "db_id db' = ss_master_fingerprint s'"
      "signer_db_grows (open_signer_db chain (ss_master_fingerprint s') st) db'"
    by auto
  let ?db = "open_signer_db chain (ss_master_fingerprint s) st"
  let ?p = "GetBip32Path env chain w a (GetIndexFromPath env (ss_derivation_path s))"
  have old: "if IsMaster ?db \<and> has_master_signer env s
             then used_bip32 ?p ?db else used_remote (ss_derivation_path s) ?db"
    using assms signer_marked_file [of ?db chain s st env w a] by simp
  show ?thesis
  proof (cases "ss_master_fingerprint s = ss_master_fingerprint s'")
    case True
    have f: "db_file db'
          = db_file (open_signer_db chain (ss_master_fingerprint s) (close_signer_db db' st))"
      using reopen_signer_db [OF d(2), of "ss_master_fingerprint s" st] d(3) True by simp
    have "if IsMaster db' \<and> has_master_signer env s
          then used_bip32 ?p db' else used_remote (ss_derivation_path s) db'"
      using old d(4) True by (auto simp: signer_db_grows_def split: if_splits)
    with signer_marked_file [OF f, of env w a] show ?thesis
      by (simp add: d(1))
  next
    case False
    have f: "db_file ?db
          = db_file (open_signer_db chain (ss_master_fingerprint s) (close_signer_db db' st))"
      using reopen_signer_db [OF d(2), of "ss_master_fingerprint s" st] d(3) False by simp
    with signer_marked_file [OF f, of env w a] old show ?thesis
      by (simp add: d(1))
  qed
qed

lemma signer_marked_kept_loop:
  "signer_marked env chain w a s st
   \<Longrightarrow> signer_marked env chain w a s (snd (CreateWallet_signers env chain w a signers st))"
proof (induction signers arbitrary: st)
  case Nil
  then show ?case by simp
next
  case (Cons s' signers)
  obtain r st1 where t: "CreateWallet_signer env chain w a s' st = (r, st1)"
    by (cases "CreateWallet_signer env chain w a s' st")
  have k: "signer_marked env chain w a s st1"
    using signer_marked_kept [OF Cons.prems, of s'] t by simp
  show ?case
    using Cons.IH [OF k] k by (simp add: t split: option.splits)
qed

lemma signers_marked_loop:
  "fst (CreateWallet_signers env chain w a signers st) = None
   \<Longrightarrow> s \<in> set signers
   \<Longrightarrow> signer_marked env chain w a s (snd (CreateWallet_signers env chain w a signers st))"
proof (induction signers arbitrary: st)
  case Nil
  then show ?case by simp
next
  case (Cons s' signers)
  obtain r st1 where t: "CreateWallet_signer env chain w a s' st = (r, st1)"
    by (cases "CreateWallet_signer env chain w a s' st")
  from Cons.prems(1) t have r: "r = None"
    by (cases r) simp_all
  have rest: "CreateWallet_signers env chain w a (s' # signers) st
                = CreateWallet_signers env chain w a signers st1"
    by (simp add: t r)
  from Cons.prems(1) rest have ok: "fst (CreateWallet_signers env chain w a signers st1) = None"
    by simp
  show ?case
  proof (cases "s \<in> set signers")
    case True
    from Cons.IH [OF ok True] show ?thesis
      by (simp only: rest)
  next
    case False
    with Cons.prems(2) have "s = s'"
      by simp
    moreover have "signer_marked env chain w a s' st1"
      using signer_marked_step [of env chain w a s' st] t r by simp
    ultimately show ?thesis
      using signer_marked_kept_loop [of env chain w a s st1 signers] by (simp only: rest)
  qed
qed

lemma CreateWallet_signers_error:
  "fst (CreateWallet_signers env chain w a signers st) = None
   \<or> fst (CreateWallet_signers env chain w a signers st) = Some SIGNER_USED"
proof (induction signers arbitrary: st)
  case Nil
  then show ?case by simp
next
  case (Cons s signers)
  obtain r st1 where t: "CreateWallet_signer env chain w a s st = (r, st1)"
    by (cases "CreateWallet_signer env chain w a s st")
  from CreateWallet_signer_step [of env chain w a s st] t
  have "r = None \<or> r = Some SIGNER_USED"
    by auto
  then show ?case
    using Cons.IH [of st1] by (auto simp: t)
qed

text \<open>
  C9. \<^verbatim>\<open>CreateWallet\<close> throws \<^verbatim>\<open>WALLET_EXISTED\<close> exactly when the loop over the signers
  has passed every signer and a wallet store of the computed id exists: the existence check
  comes after the loop. The storage it leaves behind is then the one the loop has written,
  with the wallet files as they were: every signer of the wallet is marked in it, a master
  signer by the row of its index in the derived-key cache being in use, any other signer
  by a remote entry of its path being in use (an entry that was there, or one that the
  loop has created). Nothing undoes these writes.
\<close>

theorem C9_signer_mutations_survive_WALLET_EXISTED:
  "(fst (CreateWallet env create_date chain name m n signers address_type is_escrow
           description st) = Inl WALLET_EXISTED)
     = (fst (CreateWallet_signers env chain (wallet_type_of n is_escrow) address_type
               signers st) = None
        \<and> wallet_files st
             (chain, WalletId env signers m address_type (wallet_type_of n is_escrow))
           \<noteq> None)
   \<and> (fst (CreateWallet env create_date chain name m n signers address_type is_escrow
              description st) = Inl WALLET_EXISTED
        \<longrightarrow> snd (CreateWallet env create_date chain name m n signers address_type is_escrow
                   description st)
              = snd (CreateWallet_signers env chain (wallet_type_of n is_escrow) address_type
                       signers st)
            \<and> wallet_files
                 (snd (CreateWallet env create_date chain name m n signers address_type
                         is_escrow description st)) = wallet_files st
            \<and> (\<forall>s \<in> set signers.
                  signer_marked env chain (wallet_type_of n is_escrow) address_type s
                    (snd (CreateWallet env create_date chain name m n signers address_type
                            is_escrow description st))))"
proof -
  let ?wt = "wallet_type_of n is_escrow"
  let ?ident = "WalletId env signers m address_type ?wt"
  let ?create = "CreateWallet env create_date chain name m n signers address_type is_escrow
                   description st"
  obtain r st1 where L: "CreateWallet_signers env chain ?wt address_type signers st = (r, st1)"
    by (cases "CreateWallet_signers env chain ?wt address_type signers st")
  have wf: "wallet_files st1 = wallet_files st"
    using wallet_files_CreateWallet_signers [of env chain ?wt address_type signers st] L
    by simp
  have r: "r = None \<or> r = Some SIGNER_USED"
    using CreateWallet_signers_error [of env chain ?wt address_type signers st] L by simp
  have c: "fst (create_wallet_file env chain name m n signers address_type is_escrow
                  description create_date st1)
           = (if wallet_files st (chain, ?ident) \<noteq> None then Inl WALLET_EXISTED
              else if distinct (map GetSingleSignerKey signers)
              then Inr \<lparr>w_id = ?ident, w_m = m, w_n = n, w_signers = signers,
                        w_address_type = address_type, w_is_escrow = is_escrow,
                        w_create_date = create_date, w_name = name,
                        w_description = description, w_balance = 0\<rparr>
              else Inl SQL_ERROR)"
    by (simp add: create_wallet_file_outcome wf)
  have thrown: "(fst ?create = Inl WALLET_EXISTED)
                = (r = None \<and> wallet_files st (chain, ?ident) \<noteq> None)"
  proof (cases r)
    case None
    then show ?thesis
      by (simp add: CreateWallet_def L c)
  next
    case (Some e)
    with r have "e = SIGNER_USED"
      by simp
    with Some show ?thesis
      by (simp add: CreateWallet_def L)
  qed
  have state: "snd ?create = st1" if "fst ?create = Inl WALLET_EXISTED"
  proof -
    from that thrown have "r = None" and "wallet_files st1 (chain, ?ident) \<noteq> None"
      by (simp_all add: wf)
    then show ?thesis
      by (simp add: CreateWallet_def L create_wallet_file_def Let_def)
  qed
  have marked: "signer_marked env chain ?wt address_type s st1"
    if "fst ?create = Inl WALLET_EXISTED" and "s \<in> set signers" for s
  proof -
    from that(1) thrown have "fst (CreateWallet_signers env chain ?wt address_type signers st)
                              = None"
      by (simp add: L)
    from signers_marked_loop [OF this that(2)] show ?thesis
      by (simp add: L)
  qed
  show ?thesis
  proof (intro conjI impI ballI)
    show "(fst ?create = Inl WALLET_EXISTED)
            = (fst (CreateWallet_signers env chain ?wt address_type signers st) = None
               \<and> wallet_files st (chain, ?ident) \<noteq> None)"
      using thrown by (simp add: L)
  next
    assume e: "fst ?create = Inl WALLET_EXISTED"
    show "snd ?create = snd (CreateWallet_signers env chain ?wt address_type signers st)"
      using state [OF e] by (simp add: L)
  next
    assume e: "fst ?create = Inl WALLET_EXISTED"
    show "wallet_files (snd ?create) = wallet_files st"
      using state [OF e] wf by simp
  next
    fix s
    assume e: "fst ?create = Inl WALLET_EXISTED" and s: "s \<in> set signers"
    show "signer_marked env chain ?wt address_type s (snd ?create)"
      using marked [OF e s] state [OF e] by simp
  qed
qed

theorem C9_signer_mutations_witness:
  "fst (CreateWallet demo_env 1600000000 TESTNET ''vault'' 2 3 demo_signers NATIVE_SEGWIT
          False ''savings'' demo_imported_storage) = Inl WALLET_EXISTED
   \<and> \<not> signer_marked demo_env TESTNET MULTI_SIG NATIVE_SEGWIT (demo_signers ! 0)
         demo_imported_storage
   \<and> \<not> signer_marked demo_env TESTNET MULTI_SIG NATIVE_SEGWIT (demo_signers ! 1)
         demo_imported_storage
   \<and> \<not> signer_marked demo_env TESTNET MULTI_SIG NATIVE_SEGWIT (demo_signers ! 2)
         demo_imported_storage
   \<and> signer_marked demo_env TESTNET MULTI_SIG NATIVE_SEGWIT (demo_signers ! 0)
       (snd (CreateWallet demo_env 1600000000 TESTNET ''vault'' 2 3 demo_signers NATIVE_SEGWIT
               False ''savings'' demo_imported_storage))
   \<and> signer_marked demo_env TESTNET MULTI_SIG NATIVE_SEGWIT (demo_signers ! 1)
       (snd (CreateWallet demo_env 1600000000 TESTNET ''vault'' 2 3 demo_signers NATIVE_SEGWIT
               False ''savings'' demo_imported_storage))
   \<and> signer_marked demo_env TESTNET MULTI_SIG NATIVE_SEGWIT (demo_signers ! 2)
       (snd (CreateWallet demo_env 1600000000 TESTNET ''vault'' 2 3 demo_signers NATIVE_SEGWIT
               False ''savings'' demo_imported_storage))
   \<and> wallet_files
        (snd (CreateWallet demo_env 1600000000 TESTNET ''vault'' 2 3 demo_signers NATIVE_SEGWIT
                False ''savings'' demo_imported_storage))
      = wallet_files demo_imported_storage"
proof -
  let ?create = "CreateWallet demo_env 1600000000 TESTNET ''vault'' 2 3 demo_signers
                   NATIVE_SEGWIT False ''savings'' demo_imported_storage"
  have wt: "wallet_type_of 3 False = MULTI_SIG"
    by code_simp
  have e: "fst ?create = Inl WALLET_EXISTED"
    by code_simp
  have b0: "\<not> signer_marked demo_env TESTNET MULTI_SIG NATIVE_SEGWIT (demo_signers ! 0)
              demo_imported_storage"
    by code_simp
  have b1: "\<not> signer_marked demo_env TESTNET MULTI_SIG NATIVE_SEGWIT (demo_signers ! 1)
              demo_imported_storage"
    by code_simp
  have b2: "\<not> signer_marked demo_env TESTNET MULTI_SIG NATIVE_SEGWIT (demo_signers ! 2)
              demo_imported_storage"
    by code_simp
  have m: "demo_signers ! 0 \<in> set demo_signers" "demo_signers ! 1 \<in> set demo_signers"
    "demo_signers ! 2 \<in> set demo_signers"
    by (simp_all add: demo_signers_def)
  note t = C9_signer_mutations_survive_WALLET_EXISTED [of demo_env 1600000000 TESTNET
      "''vault''" 2 3 demo_signers NATIVE_SEGWIT False "''savings''" demo_imported_storage,
      unfolded wt]
  from t e have a: "\<forall>s \<in> set demo_signers.
      signer_marked demo_env TESTNET MULTI_SIG NATIVE_SEGWIT s (snd ?create)"
    and w: "wallet_files (snd ?create) = wallet_files demo_imported_storage"
    by blast+
  from a m have "signer_marked demo_env TESTNET MULTI_SIG NATIVE_SEGWIT (demo_signers ! 0)
                   (snd ?create)"
    and "signer_marked demo_env TESTNET MULTI_SIG NATIVE_SEGWIT (demo_signers ! 1)
           (snd ?create)"
    and "signer_marked demo_env TESTNET MULTI_SIG NATIVE_SEGWIT (demo_signers ! 2)
           (snd ?create)"
    by blast+
  with e b0 b1 b2 w show ?thesis
    by (intro conjI)
qed

section \<open>A master signer in the loop of CreateWallet\<close>











end
